(* ===== verification/Go_Prelude.thy ===== *)
theory Go_Prelude
  imports Main "HOL-Library.Word" "HOL-Library.AList" "HOL-Library.Multiset"
begin

text \<open>
  Shared vocabulary of the development: the Go built-in map as the code uses it
  (insert-or-overwrite by key, then a \<open>range\<close> loop over its values in an order the
  runtime chooses), and the generic lemmas on association lists, permutations and
  options that the component theories rely on.

  A Go map \<open>map[K]V\<close> is modelled as an association list with distinct keys in
  order of first insertion (\<open>AList.update\<close> overwrites in place and appends new
  keys).  Go leaves the iteration order of \<open>for _, v := range m\<close> unspecified and
  randomises it, so every loop over a map takes the order as an explicit argument:
  a permutation of the map's positions.  Theorems quantify over every valid order.
\<close>

named_theorems go_eval \<open>equations that evaluate the model on concrete inputs\<close>
named_theorems go_map_simps \<open>rules for the Go map model\<close>

type_synonym ('k, 'v) go_map = "('k \<times> 'v) list"

text \<open>Go's 64-bit \<open>uint\<close> and \<open>int\<close>.\<close>
type_synonym go_uint = "64 word"
type_synonym go_int = "64 word"

definition go_map_put :: "'k \<Rightarrow> 'v \<Rightarrow> ('k, 'v) go_map \<Rightarrow> ('k, 'v) go_map" where
  "go_map_put k v m = AList.update k v m"

text \<open>\<open>for _, v := range m { out = append(out, v) }\<close>, visiting positions in \<open>ord\<close>.\<close>
definition go_map_values :: "nat list \<Rightarrow> ('k, 'v) go_map \<Rightarrow> 'v list" where
  "go_map_values ord m = map (\<lambda>i. snd (m ! i)) ord"

text \<open>An order the runtime may choose: each position of the map exactly once.\<close>
definition go_range_order :: "nat list \<Rightarrow> ('k, 'v) go_map \<Rightarrow> bool" where
  "go_range_order ord m \<longleftrightarrow> sort ord = [0..<length m]"

text \<open>The map a list of entries builds when each is stored under its key.\<close>
definition go_map_fill :: "('a \<Rightarrow> 'k) \<Rightarrow> 'a list \<Rightarrow> ('k, 'a) go_map \<Rightarrow> ('k, 'a) go_map" where
  "go_map_fill key xs m = fold (\<lambda>x acc. go_map_put (key x) x acc) xs m"

text \<open>Abstract view of a keyed collection: the last element stored under each key.\<close>
definition keyed :: "('a \<Rightarrow> 'k) \<Rightarrow> 'a list \<Rightarrow> 'k \<rightharpoonup> 'a" where
  "keyed key xs = fold (\<lambda>x m. m(key x \<mapsto> x)) xs Map.empty"

text \<open>
  The content maps of the code store each element under a key computed from the
  element itself.
\<close>
definition keyed_by :: "('a \<Rightarrow> 'k) \<Rightarrow> ('k, 'a) go_map \<Rightarrow> bool" where
  "keyed_by key m \<longleftrightarrow> (\<forall>(k, v) \<in> set m. key v = k)"

text \<open>
  Sequencing of fallible steps: \<open>Inl\<close> is an error or a panic and ends the
  computation, as an early \<open>return nil, err\<close> or a panic does in Go.
\<close>
definition sbind :: "'e + 'a \<Rightarrow> ('a \<Rightarrow> 'e + 'b) \<Rightarrow> 'e + 'b" where
  "sbind r f = (case r of Inl e \<Rightarrow> Inl e | Inr a \<Rightarrow> f a)"

declare go_map_put_def [go_eval] go_map_values_def [go_eval] go_range_order_def [go_eval]
  go_map_fill_def [go_eval] keyed_def [go_eval]

lemma sbind_Inl [simp]: "sbind (Inl e) f = Inl e"
  by (simp add: sbind_def)

lemma sbind_Inr [simp]: "sbind (Inr a) f = f a"
  by (simp add: sbind_def)

lemma sbind_eq_Inr [simp]: "sbind r f = Inr b \<longleftrightarrow> (\<exists>a. r = Inr a \<and> f a = Inr b)"
  by (cases r) simp_all

subsection \<open>The map as a partial function\<close>

lemma set_update_subset: "set (AList.update k v m) \<subseteq> insert (k, v) (set m)"
  by (induction m) auto

lemma map_of_go_map_put [go_map_simps]:
  "map_of (go_map_put k v m) = (map_of m)(k \<mapsto> v)"
  by (simp add: go_map_put_def update_conv')

lemma distinct_go_map_put [go_map_simps]:
  "distinct (map fst m) \<Longrightarrow> distinct (map fst (go_map_put k v m))"
  by (simp add: go_map_put_def distinct_update)

lemma keys_go_map_put [go_map_simps]:
  "fst ` set (go_map_put k v m) = insert k (fst ` set m)"
  by (simp add: go_map_put_def dom_update)

lemma go_map_fill_Cons [simp]:
  "go_map_fill key (x # xs) m = go_map_fill key xs (go_map_put (key x) x m)"
  by (simp add: go_map_fill_def)

lemma go_map_fill_Nil [simp]: "go_map_fill key [] m = m"
  by (simp add: go_map_fill_def)

lemma go_map_fill_append:
  "go_map_fill key (xs @ ys) m = go_map_fill key ys (go_map_fill key xs m)"
  by (simp add: go_map_fill_def)

lemma keyed_Nil [simp]: "keyed key [] = Map.empty"
  by (simp add: keyed_def)

lemma keyed_snoc [simp]: "keyed key (xs @ [x]) = (keyed key xs)(key x \<mapsto> x)"
  by (simp add: keyed_def)

lemma fold_upd_map_add:
  "fold (\<lambda>x m. m(key x \<mapsto> x)) xs (m0 ++ m1) = m0 ++ fold (\<lambda>x m. m(key x \<mapsto> x)) xs m1"
  by (induction xs arbitrary: m1) (simp_all flip: map_add_upd)

lemma keyed_Cons: "keyed key (x # xs) = [key x \<mapsto> x] ++ keyed key xs"
  using fold_upd_map_add [of key xs "[key x \<mapsto> x]" Map.empty] by (simp add: keyed_def)

lemma map_of_go_map_fill [go_map_simps]:
  "map_of (go_map_fill key xs m) = map_of m ++ keyed key xs"
proof (induction xs arbitrary: m)
  case Nil
  then show ?case by simp
next
  case (Cons x xs)
  then show ?case
    by (auto simp: map_of_go_map_put keyed_Cons map_add_def fun_eq_iff split: option.splits)
qed

lemma distinct_go_map_fill [go_map_simps]:
  "distinct (map fst m) \<Longrightarrow> distinct (map fst (go_map_fill key xs m))"
  by (induction xs arbitrary: m) (simp_all add: distinct_go_map_put)

lemma keys_go_map_fill [go_map_simps]:
  "fst ` set (go_map_fill key xs m) = fst ` set m \<union> key ` set xs"
  by (induction xs arbitrary: m) (auto simp: keys_go_map_put)

lemma values_go_map_fill:
  "(k, v) \<in> set (go_map_fill key xs m) \<Longrightarrow> (k, v) \<in> set m \<or> (v \<in> set xs \<and> key v = k)"
proof (induction xs arbitrary: m)
  case Nil
  then show ?case by simp
next
  case (Cons x xs)
  from Cons.IH [of "go_map_put (key x) x m"] Cons.prems set_update_subset [of "key x" x m]
  show ?case by (auto simp: go_map_put_def)
qed

lemma keyed_dom: "dom (keyed key xs) = key ` set xs"
  by (induction xs rule: rev_induct) (auto simp: dom_def)

lemma keyed_distinct_map_of:
  "distinct (map key xs) \<Longrightarrow> keyed key xs = map_of (map (\<lambda>x. (key x, x)) xs)"
proof (induction xs rule: rev_induct)
  case Nil
  then show ?case by simp
next
  case (snoc x xs)
  then have "map_of (map (\<lambda>x. (key x, x)) xs) (key x) = None"
    by (auto simp: map_of_eq_None_iff)
  with snoc show ?case
    by (auto simp: fun_eq_iff map_add_def split: option.splits)
qed

text \<open>Two lists with the same elements, each key occurring once, have the same keyed view.\<close>

lemma keyed_distinct_perm:
  assumes "mset xs = mset ys" and "distinct (map key ys)"
  shows "keyed key xs = keyed key ys"
proof -
  have "mset (map key xs) = mset (map key ys)"
    using assms(1) by simp
  then have dx: "distinct (map key xs)"
    using assms(2) mset_eq_imp_distinct_iff by blast
  have "set (map (\<lambda>x. (key x, x)) xs) = set (map (\<lambda>x. (key x, x)) ys)"
    using mset_eq_setD [OF assms(1)] by simp
  then have "map_of (map (\<lambda>x. (key x, x)) xs) = map_of (map (\<lambda>x. (key x, x)) ys)"
    using dx assms(2) by (subst map_of_inject_set) (simp_all add: comp_def)
  with dx assms(2) show ?thesis
    by (simp add: keyed_distinct_map_of)
qed

subsection \<open>Ranging over the map\<close>

lemma go_range_order_mset:
  "go_range_order ord m \<Longrightarrow> mset ord = mset [0..<length m]"
  by (metis go_range_order_def mset_sort)

lemma mset_go_map_values [go_map_simps]:
  assumes "go_range_order ord m"
  shows "mset (go_map_values ord m) = mset (map snd m)"
proof -
  have "mset (go_map_values ord m) = image_mset (\<lambda>i. snd (m ! i)) (mset ord)"
    by (simp add: go_map_values_def)
  also have "\<dots> = mset (map (\<lambda>i. snd (m ! i)) [0..<length m])"
    using go_range_order_mset [OF assms] by simp
  also have "map (\<lambda>i. snd (m ! i)) [0..<length m] = map snd m"
    by (rule nth_equalityI) simp_all
  finally show ?thesis .
qed

lemma set_go_map_values [go_map_simps]:
  "go_range_order ord m \<Longrightarrow> set (go_map_values ord m) = snd ` set m"
  by (metis mset_go_map_values set_mset_mset list.set_map)

lemma length_go_map_values [go_map_simps]:
  "go_range_order ord m \<Longrightarrow> length (go_map_values ord m) = length m"
  by (metis mset_go_map_values size_mset length_map)

lemma go_range_order_exists: "go_range_order [0..<length m] m"
  by (simp add: go_range_order_def)

subsection \<open>Association lists whose value carries its key\<close>

lemma keyed_by_go_map_fill [go_map_simps]:
  "keyed_by key m \<Longrightarrow> keyed_by key (go_map_fill key xs m)"
  unfolding keyed_by_def by (auto dest: values_go_map_fill)

lemma keyed_by_Nil [simp]: "keyed_by key []"
  by (simp add: keyed_by_def)

lemma keyed_map_snd:
  assumes "keyed_by key m" and "distinct (map fst m)"
  shows "keyed key (map snd m) = map_of m"
  using assms
proof (induction m rule: rev_induct)
  case Nil
  then show ?case by simp
next
  case (snoc kv m)
  obtain k v where kv: "kv = (k, v)" by fastforce
  from snoc.prems kv have "key v = k" "keyed_by key m" "distinct (map fst m)" "k \<notin> fst ` set m"
    by (auto simp: keyed_by_def)
  moreover from this have "map_of m k = None"
    by (simp add: map_of_eq_None_iff)
  ultimately show ?case
    using snoc.IH kv by (auto simp: fun_eq_iff map_add_def split: option.splits)
qed

end
