(* ===== verification/Go_Reflect.thy ===== *)
theory Go_Reflect
  imports Go_Prelude
begin

text \<open>
  The part of Go's \<open>reflect\<close> package the service code relies on, as a shallow model:
  runtime types (\<open>gtype\<close>) with struct fields, tags and embedding, runtime values
  (\<open>gval\<close>) that carry their type, zero values (\<open>reflect.New(t).Elem()\<close>),
  \<open>Type.AssignableTo\<close>, \<open>Type.ConvertibleTo\<close>, \<open>Value.Convert\<close>, \<open>Value.Set\<close>
  (which re-types the value to the destination type), \<open>Type.FieldByName\<close> with
  promotion through embedded structs (the field is found at the shallowest depth and is
  ambiguous when two are found there), \<open>Value.FieldByIndex\<close> as a path, and
  \<open>CanSet\<close> (exported field of an addressable value).

  The universe of kinds is the one the repository's models use: \<open>bool\<close>, the 64-bit
  \<open>int\<close> and \<open>uint\<close>, \<open>string\<close>, structs (named or built by \<open>reflect.StructOf\<close>),
  slices and pointers.  A struct type is \<open>TStruct pkg name fields\<close>; \<open>name = ''''\<close> is
  an unnamed struct.  A struct tag is kept parsed, as its list of key/value pairs, which
  is what \<open>StructTag.Lookup\<close> reads.  Values are trees: slices and pointers are held by
  value, so aliasing through shared backing arrays is not modelled (no operation of the
  repository writes through a slice or pointer it does not own).
\<close>

datatype gtype =
    TBool | TInt | TUint | TString
  | TStruct string string "gfield list"
  | TSlice gtype
  | TPtr gtype
and gfield = GField (fname: string) (ftype: gtype) (ftag: "(string \<times> string) list") (fanon: bool)

datatype gval =
    VBool bool
  | VInt go_int
  | VUint go_uint
  | VString string
  | VStruct gtype "gval list"
  | VSlice gtype "gval list"
  | VPtr gtype "gval option"

datatype gkind = KBool | KInt | KUint | KString | KStruct | KSlice | KPtr

lemma size_ftype_mem [termination_simp]:
  "f \<in> set fs \<Longrightarrow> size (ftype f) < Suc (size_list size fs)"
proof (induction fs)
  case Nil
  then show ?case by simp
next
  case (Cons g fs)
  then show ?case by (cases g) auto
qed

lemma size_ftype_le [termination_simp]: "size (ftype f) < Suc (size f + k)"
  by (cases f) simp

lemma size_zip_snd [termination_simp]:
  "(a, b) \<in> set (zip xs ys) \<Longrightarrow> size b < Suc (size_list size ys)"
  by (auto dest!: set_zip_rightD intro: size_list_estimation' le_imp_less_Suc)

subsection \<open>Types\<close>

fun kind :: "gtype \<Rightarrow> gkind" where
  "kind TBool = KBool"
| "kind TInt = KInt"
| "kind TUint = KUint"
| "kind TString = KString"
| "kind (TStruct _ _ _) = KStruct"
| "kind (TSlice _) = KSlice"
| "kind (TPtr _) = KPtr"

text \<open>\<open>Type.Name()\<close>: the defined name, empty for unnamed types.\<close>
fun type_Name :: "gtype \<Rightarrow> string" where
  "type_Name TBool = ''bool''"
| "type_Name TInt = ''int''"
| "type_Name TUint = ''uint''"
| "type_Name TString = ''string''"
| "type_Name (TStruct _ n _) = n"
| "type_Name (TSlice _) = []"
| "type_Name (TPtr _) = []"

definition named :: "gtype \<Rightarrow> bool" where
  "named t \<longleftrightarrow> type_Name t \<noteq> []"

fun underlying :: "gtype \<Rightarrow> gtype" where
  "underlying (TStruct _ _ fs) = TStruct [] [] fs"
| "underlying t = t"

text \<open>The type with every struct tag removed: identity of types ignoring tags.\<close>
fun strip_tags :: "gtype \<Rightarrow> gtype" where
  "strip_tags (TStruct p n fs) =
     TStruct p n (map (\<lambda>f. GField (fname f) (strip_tags (ftype f)) [] (fanon f)) fs)"
| "strip_tags (TSlice t) = TSlice (strip_tags t)"
| "strip_tags (TPtr t) = TPtr (strip_tags t)"
| "strip_tags t = t"

definition is_integer :: "gtype \<Rightarrow> bool" where
  "is_integer t \<longleftrightarrow> t = TInt \<or> t = TUint"

text \<open>\<open>V.AssignableTo(T)\<close> (reflect's \<open>directlyAssignable\<close>).\<close>
definition assignable :: "gtype \<Rightarrow> gtype \<Rightarrow> bool" where
  "assignable v t \<longleftrightarrow> v = t \<or> ((\<not> named v \<or> \<not> named t) \<and> underlying v = underlying t)"

text \<open>\<open>V.ConvertibleTo(T)\<close> (reflect's \<open>convertOp\<close> restricted to this universe).\<close>
definition convertible :: "gtype \<Rightarrow> gtype \<Rightarrow> bool" where
  "convertible v t \<longleftrightarrow>
     assignable v t
   \<or> (is_integer v \<and> (is_integer t \<or> t = TString))
   \<or> strip_tags (underlying v) = strip_tags (underlying t)
   \<or> (\<exists>a b. v = TPtr a \<and> t = TPtr b \<and> strip_tags (underlying a) = strip_tags (underlying b))"

subsection \<open>Values\<close>

fun type_of :: "gval \<Rightarrow> gtype" where
  "type_of (VBool _) = TBool"
| "type_of (VInt _) = TInt"
| "type_of (VUint _) = TUint"
| "type_of (VString _) = TString"
| "type_of (VStruct t _) = t"
| "type_of (VSlice t _) = TSlice t"
| "type_of (VPtr t _) = TPtr t"

text \<open>\<open>reflect.Zero(t)\<close>, the value of \<open>reflect.New(t).Elem()\<close>.\<close>
fun zero :: "gtype \<Rightarrow> gval" where
  "zero TBool = VBool False"
| "zero TInt = VInt 0"
| "zero TUint = VUint 0"
| "zero TString = VString []"
| "zero (TStruct p n fs) = VStruct (TStruct p n fs) (map (\<lambda>f. zero (ftype f)) fs)"
| "zero (TSlice t) = VSlice t []"
| "zero (TPtr t) = VPtr t None"

text \<open>A value conforms to a type: the typing invariant every operation keeps.\<close>
fun wt :: "gtype \<Rightarrow> gval \<Rightarrow> bool" where
  "wt TBool (VBool _) = True"
| "wt TInt (VInt _) = True"
| "wt TUint (VUint _) = True"
| "wt TString (VString _) = True"
| "wt (TStruct p n fs) (VStruct t vs) =
     (t = TStruct p n fs \<and> length vs = length fs \<and> (\<forall>(f, v) \<in> set (zip fs vs). wt (ftype f) v))"
| "wt (TSlice t) (VSlice t' vs) = (t' = t \<and> (\<forall>v \<in> set vs. wt t v))"
| "wt (TPtr t) (VPtr t' vo) = (t' = t \<and> (\<forall>v \<in> set_option vo. wt t v))"
| "wt _ _ = False"

text \<open>\<open>Value.Set\<close> of a value to a location of type \<open>t\<close>: the value takes the type \<open>t\<close>.\<close>
fun retype :: "gtype \<Rightarrow> gval \<Rightarrow> gval" where
  "retype (TStruct p n fs) (VStruct _ vs) =
     VStruct (TStruct p n fs) (map (\<lambda>(f, v). retype (ftype f) v) (zip fs vs))"
| "retype (TSlice t) (VSlice _ vs) = VSlice t (map (retype t) vs)"
| "retype (TPtr t) (VPtr _ vo) = VPtr t (map_option (retype t) vo)"
| "retype _ v = v"

text \<open>\<open>string(rune(r))\<close>: UTF-8, with U+FFFD for a value that is no Unicode scalar.\<close>
definition utf8_encode :: "nat \<Rightarrow> string" where
  "utf8_encode n =
     (if n < 128 then [char_of n]
      else if n < 2048 then [char_of (192 + n div 64), char_of (128 + n mod 64)]
      else if n < 65536 then
        [char_of (224 + n div 4096), char_of (128 + n div 64 mod 64), char_of (128 + n mod 64)]
      else [char_of (240 + n div 262144), char_of (128 + n div 4096 mod 64),
            char_of (128 + n div 64 mod 64), char_of (128 + n mod 64)])"

definition rune_string :: "int \<Rightarrow> string" where
  "rune_string r =
     (if 0 \<le> r \<and> r \<le> 1114111 \<and> \<not> (55296 \<le> r \<and> r \<le> 57343)
      then utf8_encode (nat r) else utf8_encode 65533)"

text \<open>\<open>Value.Convert(t)\<close> for a convertible pair (\<open>cvtInt\<close>, \<open>cvtUint\<close>,
  \<open>cvtIntString\<close>, \<open>cvtUintString\<close>, \<open>cvtDirect\<close>).\<close>
fun convert :: "gtype \<Rightarrow> gval \<Rightarrow> gval" where
  "convert TInt (VInt w) = VInt w"
| "convert TUint (VInt w) = VUint w"
| "convert TInt (VUint w) = VInt w"
| "convert TUint (VUint w) = VUint w"
| "convert TString (VInt w) = VString (rune_string (sint w))"
| "convert TString (VUint w) = VString (rune_string (int (unat w)))"
| "convert t v = retype t v"

subsection \<open>Fields\<close>

text \<open>Every index path to a field named \<open>n\<close>, descending through embedded structs.\<close>
function fpaths :: "string \<Rightarrow> gfield list \<Rightarrow> nat \<Rightarrow> nat list list"
  and tpaths :: "string \<Rightarrow> gtype \<Rightarrow> nat list list" where
  "fpaths n [] i = []"
| "fpaths n (f # fs) i =
     (if fname f = n then [[i]] else []) @
     (if fanon f then map (Cons i) (tpaths n (ftype f)) else []) @ fpaths n fs (Suc i)"
| "tpaths n (TStruct p m fs) = fpaths n fs 0"
| "tpaths n TBool = []"
| "tpaths n TInt = []"
| "tpaths n TUint = []"
| "tpaths n TString = []"
| "tpaths n (TSlice t) = []"
| "tpaths n (TPtr t) = []"
  by pat_completeness auto
termination
  by (relation "measure (case_sum (\<lambda>(n, fs, i). size_list size fs) (\<lambda>(n, t). size t))")
     (auto simp: size_ftype_le)

text \<open>
  \<open>Type.FieldByName(n)\<close>: the unique field named \<open>n\<close> at the shallowest depth; none
  when there is no such field or two are found at that depth.
\<close>
definition field_by_name :: "gtype \<Rightarrow> string \<Rightarrow> nat list option" where
  "field_by_name t n =
     (case tpaths n t of
        [] \<Rightarrow> None
      | p # ps \<Rightarrow>
          (let d = fold min (map length ps) (length p);
               shallow = filter (\<lambda>q. length q = d) (p # ps)
           in if n \<noteq> [] \<and> length shallow = 1 then Some (hd shallow) else None))"

text \<open>The \<open>StructField\<close> at an index path.\<close>
fun field_at :: "gtype \<Rightarrow> nat list \<Rightarrow> gfield option" where
  "field_at t [] = None"
| "field_at t (i # is) =
     (case t of
        TStruct _ _ fs \<Rightarrow>
          if i < length fs then (if is = [] then Some (fs ! i) else field_at (ftype (fs ! i)) is)
          else None
      | _ \<Rightarrow> None)"

text \<open>\<open>Value.FieldByIndex\<close> and assignment through it.\<close>
fun get_path :: "gval \<Rightarrow> nat list \<Rightarrow> gval" where
  "get_path v [] = v"
| "get_path (VStruct t vs) (i # is) = (if i < length vs then get_path (vs ! i) is else VStruct t vs)"
| "get_path v (_ # _) = v"

fun set_path :: "gval \<Rightarrow> nat list \<Rightarrow> gval \<Rightarrow> gval" where
  "set_path v [] w = w"
| "set_path (VStruct t vs) (i # is) w =
     (if i < length vs then VStruct t (vs[i := set_path (vs ! i) is w]) else VStruct t vs)"
| "set_path v (_ # _) w = v"

text \<open>\<open>token.IsExported\<close> on an ASCII identifier: it starts with an upper-case letter.\<close>
definition exported :: "string \<Rightarrow> bool" where
  "exported s \<longleftrightarrow> (case s of c # _ \<Rightarrow> 65 \<le> (of_char c :: nat) \<and> (of_char c :: nat) \<le> 90 | [] \<Rightarrow> False)"

text \<open>
  \<open>CanSet\<close> of the field at a path of an addressable struct: the field is exported.
  A field promoted through an unexported embedded struct stays settable (Go marks
  such a step \<open>flagEmbedRO\<close>, which later steps do not inherit).
\<close>
definition can_set :: "gtype \<Rightarrow> nat list \<Rightarrow> bool" where
  "can_set t p \<longleftrightarrow> (case field_at t p of Some f \<Rightarrow> exported (fname f) | None \<Rightarrow> False)"

text \<open>\<open>StructTag.Lookup(key)\<close>.\<close>
definition tag_lookup :: "(string \<times> string) list \<Rightarrow> string \<Rightarrow> string option" where
  "tag_lookup tag key = map_of tag key"

subsection \<open>Methods and strings\<close>

text \<open>Receiver paths of the methods named \<open>m\<close>: declared on the type itself (path
  \<open>[]\<close>) or promoted from an embedded struct.  \<open>mt\<close> is the table of declared methods.\<close>
function mfpaths :: "(gtype \<Rightarrow> string list) \<Rightarrow> string \<Rightarrow> gfield list \<Rightarrow> nat \<Rightarrow> nat list list"
  and mtpaths :: "(gtype \<Rightarrow> string list) \<Rightarrow> string \<Rightarrow> gtype \<Rightarrow> nat list list" where
  "mfpaths mt m [] i = []"
| "mfpaths mt m (f # fs) i =
     (if fanon f then map (Cons i) (mtpaths mt m (ftype f)) else []) @ mfpaths mt m fs (Suc i)"
| "mtpaths mt m (TStruct p n fs) =
     (if m \<in> set (mt (TStruct p n fs)) then [[]] else []) @ mfpaths mt m fs 0"
| "mtpaths mt m TBool = (if m \<in> set (mt TBool) then [[]] else [])"
| "mtpaths mt m TInt = (if m \<in> set (mt TInt) then [[]] else [])"
| "mtpaths mt m TUint = (if m \<in> set (mt TUint) then [[]] else [])"
| "mtpaths mt m TString = (if m \<in> set (mt TString) then [[]] else [])"
| "mtpaths mt m (TSlice t) = (if m \<in> set (mt (TSlice t)) then [[]] else [])"
| "mtpaths mt m (TPtr t) = (if m \<in> set (mt (TPtr t)) then [[]] else [])"
  by pat_completeness auto
termination
  by (relation "measure (case_sum (\<lambda>(mt, m, fs, i). size_list size fs) (\<lambda>(mt, m, t). size t))")
     (auto simp: size_ftype_le)

text \<open>
  \<open>Value.MethodByName(m)\<close>: a selector \<open>m\<close> resolves at the shallowest depth where a
  field or a method of that name occurs (a field at path \<open>p\<close> has depth
  \<open>length p - 1\<close>, a method with receiver path \<open>r\<close> depth \<open>length r\<close>); it is a
  method when the only selector at that depth is a method.  The result is the receiver
  path.
\<close>
definition method_by_name :: "(gtype \<Rightarrow> string list) \<Rightarrow> gtype \<Rightarrow> string \<Rightarrow> nat list option" where
  "method_by_name mt t m =
     (let ms = mtpaths mt m t;
          fs = tpaths m t;
          depths = map length ms @ map (\<lambda>p. length p - 1) fs
      in case depths of
           [] \<Rightarrow> None
         | d0 # ds \<Rightarrow>
             (let d = fold min ds d0;
                  ms' = filter (\<lambda>r. length r = d) ms;
                  fs' = filter (\<lambda>p. length p - 1 = d) fs
              in if length ms' = 1 \<and> fs' = [] then Some (hd ms') else None))"

fun type_String :: "gtype \<Rightarrow> string" where
  "type_String (TStruct p n fs) = (if n = [] then ''struct {...}'' else p @ ''.'' @ n)"
| "type_String (TSlice t) = ''[]'' @ type_String t"
| "type_String (TPtr t) = ''*'' @ type_String t"
| "type_String t = type_Name t"

text \<open>\<open>Value.String()\<close>: the string of a string value, a placeholder otherwise.\<close>
fun value_String :: "gval \<Rightarrow> string" where
  "value_String (VString s) = s"
| "value_String v = ''<'' @ type_String (type_of v) @ '' Value>''"

declare named_def [go_eval] is_integer_def [go_eval] assignable_def [go_eval]
  convertible_def [go_eval] utf8_encode_def [go_eval] rune_string_def [go_eval]
  field_by_name_def [go_eval] method_by_name_def [go_eval] exported_def [go_eval] can_set_def [go_eval] tag_lookup_def [go_eval]

subsection \<open>Typing lemmas\<close>

lemma wt_type_of: "wt t v \<Longrightarrow> type_of v = t"
  by (cases "(t, v)" rule: wt.cases) auto

lemma wt_struct_iff:
  "wt (TStruct p n fs) v \<longleftrightarrow>
     (\<exists>vs. v = VStruct (TStruct p n fs) vs \<and> length vs = length fs \<and>
        (\<forall>i < length fs. wt (ftype (fs ! i)) (vs ! i)))"
  by (cases v) (auto simp: set_zip, blast)

lemma wt_slice_iff: "wt (TSlice t) v \<longleftrightarrow> (\<exists>vs. v = VSlice t vs \<and> (\<forall>x \<in> set vs. wt t x))"
  by (cases v) auto

lemma wt_ptr_iff: "wt (TPtr t) v \<longleftrightarrow> (\<exists>vo. v = VPtr t vo \<and> (\<forall>x \<in> set_option vo. wt t x))"
  by (cases v) auto

lemma wt_zero [simp]: "wt t (zero t)"
  by (induction t rule: zero.induct) (auto simp: set_zip)

lemma type_of_zero [simp]: "type_of (zero t) = t"
  by (rule wt_type_of [OF wt_zero])

lemma strip_tags_underlying: "strip_tags (underlying t) = underlying (strip_tags t)"
  by (cases t) simp_all

lemma strip_tags_eq_underlying:
  "strip_tags a = strip_tags b \<Longrightarrow> strip_tags (underlying a) = strip_tags (underlying b)"
  by (simp add: strip_tags_underlying)

lemma strip_tags_basic [simp]:
  "strip_tags t = TBool \<longleftrightarrow> t = TBool" "strip_tags t = TInt \<longleftrightarrow> t = TInt"
  "strip_tags t = TUint \<longleftrightarrow> t = TUint" "strip_tags t = TString \<longleftrightarrow> t = TString"
  by (cases t; simp)+

lemma strip_tags_compound:
  "strip_tags t = TSlice a \<Longrightarrow> \<exists>t'. t = TSlice t' \<and> strip_tags t' = a"
  "strip_tags t = TPtr a \<Longrightarrow> \<exists>t'. t = TPtr t' \<and> strip_tags t' = a"
  "strip_tags t = TStruct p n gs \<Longrightarrow> \<exists>fs. t = TStruct p n fs \<and> length fs = length gs"
  by (cases t; auto)+

text \<open>Assignment re-types a value to a type that is identical to its own ignoring tags.\<close>

lemma strip_underlying_basic:
  "strip_tags (underlying t) = TBool \<longleftrightarrow> t = TBool"
  "strip_tags (underlying t) = TInt \<longleftrightarrow> t = TInt"
  "strip_tags (underlying t) = TUint \<longleftrightarrow> t = TUint"
  "strip_tags (underlying t) = TString \<longleftrightarrow> t = TString"
  by (cases t; simp)+

lemma underlying_basic:
  "underlying t = TBool \<longleftrightarrow> t = TBool" "underlying t = TInt \<longleftrightarrow> t = TInt"
  "underlying t = TUint \<longleftrightarrow> t = TUint" "underlying t = TString \<longleftrightarrow> t = TString"
  by (cases t; simp)+

lemma wt_struct_intro:
  "length vs = length fs \<Longrightarrow> (\<And>i. i < length fs \<Longrightarrow> wt (ftype (fs ! i)) (vs ! i)) \<Longrightarrow>
   wt (TStruct p n fs) (VStruct (TStruct p n fs) vs)"
  by (auto simp: set_zip)

lemma wt_retype:
  "strip_tags (underlying (type_of v)) = strip_tags (underlying t) \<Longrightarrow> wt (type_of v) v \<Longrightarrow>
   wt t (retype t v)"
proof (induction v arbitrary: t)
  case (VStruct t0 vs)
  from VStruct.prems(2) obtain ps ns fs1 where t0: "t0 = TStruct ps ns fs1"
    by (cases t0) simp_all
  from VStruct.prems(1) t0 obtain p n fs where t: "t = TStruct p n fs"
    by (cases t) simp_all
  from VStruct.prems(1) t0 t have len: "length fs1 = length fs"
    and str: "\<And>i. i < length fs \<Longrightarrow> strip_tags (ftype (fs1 ! i)) = strip_tags (ftype (fs ! i))"
    by (auto dest: map_eq_imp_length_eq simp: list_eq_iff_nth_eq)
  from VStruct.prems(2) t0 len have vs: "length vs = length fs" and
    wts: "\<And>i. i < length fs \<Longrightarrow> wt (ftype (fs1 ! i)) (vs ! i)"
    by (auto simp: wt_struct_iff)
  have "wt (ftype (fs ! i)) (retype (ftype (fs ! i)) (vs ! i))" if i: "i < length fs" for i
  proof (rule VStruct.IH)
    show "vs ! i \<in> set vs" using i vs by simp
    have ty: "type_of (vs ! i) = ftype (fs1 ! i)" using wts [OF i] by (rule wt_type_of)
    show "strip_tags (underlying (type_of (vs ! i))) = strip_tags (underlying (ftype (fs ! i)))"
      unfolding ty using str [OF i] by (rule strip_tags_eq_underlying)
    show "wt (type_of (vs ! i)) (vs ! i)" using wts [OF i] ty by simp
  qed
  then have "wt (ftype (fs ! i)) (map (\<lambda>(f, v). retype (ftype f) v) (zip fs vs) ! i)"
    if "i < length fs" for i
    using that vs by simp
  moreover have "retype t (VStruct t0 vs) = VStruct t (map (\<lambda>(f, v). retype (ftype f) v) (zip fs vs))"
    unfolding t t0 by (simp only: retype.simps)
  ultimately show ?case
    unfolding t using vs by (simp only:) (rule wt_struct_intro, simp_all)
next
  case (VSlice t0 vs)
  from VSlice.prems(1) obtain t' where t: "t = TSlice t'" and "strip_tags t0 = strip_tags t'"
    by (cases t) simp_all
  then have e: "strip_tags (underlying t0) = strip_tags (underlying t')"
    by (simp add: strip_tags_underlying)
  have "wt t' (retype t' x)" if x: "x \<in> set vs" for x
  proof -
    from VSlice.prems(2) x have w: "wt t0 x" by simp
    then have ty: "type_of x = t0" by (rule wt_type_of)
    show ?thesis using VSlice.IH [OF x, of t'] e w unfolding ty by blast
  qed
  with t show ?case by simp
next
  case (VPtr t0 vo)
  from VPtr.prems(1) obtain t' where t: "t = TPtr t'" and "strip_tags t0 = strip_tags t'"
    by (cases t) simp_all
  then have e: "strip_tags (underlying t0) = strip_tags (underlying t')"
    by (simp add: strip_tags_underlying)
  have "wt t' (retype t' x)" if x: "x \<in> set_option vo" for x
  proof -
    from VPtr.prems(2) x have w: "wt t0 x" by simp
    then have ty: "type_of x = t0" by (rule wt_type_of)
    show ?thesis using VPtr.IH [OF x, of t'] e w unfolding ty by blast
  qed
  with t show ?case by (cases vo) simp_all
qed (simp_all add: strip_underlying_basic underlying_basic eq_commute [of _ "strip_tags (underlying _)"])


lemma wt_retype_assignable: "assignable (type_of v) t \<Longrightarrow> wt (type_of v) v \<Longrightarrow> wt t (retype t v)"
  by (rule wt_retype) (auto simp: assignable_def)

lemma convert_other: "type_of v \<noteq> TInt \<Longrightarrow> type_of v \<noteq> TUint \<Longrightarrow> convert t v = retype t v"
  by (cases v; cases t) simp_all

lemma wt_convert:
  assumes c: "convertible (type_of v) t" and w: "wt (type_of v) v"
  shows "wt t (convert t v)"
proof (cases "type_of v = TInt \<or> type_of v = TUint")
  case True
  then obtain x where "v = VInt x \<or> v = VUint x" using w by (cases v) auto
  with c show ?thesis
    by (cases t) (auto simp: convertible_def assignable_def is_integer_def named_def)
next
  case False
  then have conv: "convert t v = retype t v" by (simp add: convert_other)
  from c False consider
      (eq) "strip_tags (underlying (type_of v)) = strip_tags (underlying t)"
    | (ptr) a b where "type_of v = TPtr a" "t = TPtr b"
        "strip_tags (underlying a) = strip_tags (underlying b)"
    by (auto simp: convertible_def assignable_def is_integer_def)
  then show ?thesis
  proof cases
    case eq
    show ?thesis unfolding conv using eq w by (rule wt_retype)
  next
    case ptr
    from w ptr(1) obtain vo where v: "v = VPtr a vo" and all: "\<forall>x \<in> set_option vo. wt a x"
      by (cases v) auto
    have "wt b (retype b x)" if x: "x \<in> set_option vo" for x
    proof -
      from all x have wx: "wt a x" by simp
      then have ty: "type_of x = a" by (rule wt_type_of)
      show ?thesis using wt_retype [of x b] ptr(3) wx unfolding ty by blast
    qed
    then show ?thesis unfolding conv v ptr(2) by (cases vo) simp_all
  qed
qed

lemma paths_sound:
  shows "\<forall>p \<in> set (fpaths n fs i). \<exists>j q. p = (i + j) # q \<and> j < length fs \<and>
           (q = [] \<and> fname (fs ! j) = n \<or> (\<exists>f. field_at (ftype (fs ! j)) q = Some f \<and> fname f = n))"
    and "\<forall>p \<in> set (tpaths n t). \<exists>f. field_at t p = Some f \<and> fname f = n"
proof (induction n fs i and n t rule: fpaths_tpaths.induct)
  case (2 n f fs i)
  show ?case
  proof
    fix p assume p: "p \<in> set (fpaths n (f # fs) i)"
    show "\<exists>j q. p = (i + j) # q \<and> j < length (f # fs) \<and>
           (q = [] \<and> fname ((f # fs) ! j) = n \<or>
            (\<exists>g. field_at (ftype ((f # fs) ! j)) q = Some g \<and> fname g = n))"
    proof -
      consider (here) "fname f = n" "p = [i]"
        | (emb) q where "fanon f" "q \<in> set (tpaths n (ftype f))" "p = i # q"
        | (rest) "p \<in> set (fpaths n fs (Suc i))"
        using p by (auto split: if_splits)
      then show ?thesis
      proof cases
        case here
        then show ?thesis by (intro exI [of _ 0] exI [of _ "[]"]) simp
      next
        case emb
        with "2.IH"(1) show ?thesis by (intro exI [of _ 0] exI [of _ q]) auto
      next
        case rest
        with "2.IH"(2) obtain j q where "p = (Suc i + j) # q" "j < length fs"
          "q = [] \<and> fname (fs ! j) = n \<or> (\<exists>g. field_at (ftype (fs ! j)) q = Some g \<and> fname g = n)"
          by blast
        then show ?thesis by (intro exI [of _ "Suc j"] exI [of _ q]) auto
      qed
    qed
  qed
next
  case (3 n p m fs)
  show ?case
  proof
    fix q assume "q \<in> set (tpaths n (TStruct p m fs))"
    with "3.IH" obtain j r where "q = j # r" "j < length fs"
      "r = [] \<and> fname (fs ! j) = n \<or> (\<exists>g. field_at (ftype (fs ! j)) r = Some g \<and> fname g = n)"
      by auto
    then show "\<exists>f. field_at (TStruct p m fs) q = Some f \<and> fname f = n"
      by (cases r) auto
  qed
qed simp_all

lemma field_by_name_tpaths: "field_by_name t n = Some p \<Longrightarrow> p \<in> set (tpaths n t)"
proof -
  assume h: "field_by_name t n = Some p"
  then obtain q qs where tp: "tpaths n t = q # qs"
    by (cases "tpaths n t") (simp_all add: field_by_name_def)
  let ?d = "fold min (map length qs) (length q)"
  from h tp have "p = hd (filter (\<lambda>r. length r = ?d) (q # qs))"
    and ne: "filter (\<lambda>r. length r = ?d) (q # qs) \<noteq> []"
    by (auto simp: field_by_name_def Let_def split: if_splits)
  then have "p \<in> set (filter (\<lambda>r. length r = ?d) (q # qs))" by simp
  with tp show ?thesis by (auto split: if_splits)
qed

lemma field_by_name_field_at:
  "field_by_name t n = Some p \<Longrightarrow> \<exists>f. field_at t p = Some f \<and> fname f = n"
  using paths_sound(2) field_by_name_tpaths by blast

lemma field_at_struct:
  "field_at t (i # js) = Some f \<Longrightarrow>
   \<exists>pk nm fs. t = TStruct pk nm fs \<and> i < length fs \<and>
     (if js = [] then f = fs ! i else field_at (ftype (fs ! i)) js = Some f)"
  by (cases t) (auto split: if_splits)

lemma wt_get_path: "wt t v \<Longrightarrow> field_at t p = Some f \<Longrightarrow> wt (ftype f) (get_path v p)"
proof (induction p arbitrary: t v)
  case Nil
  then show ?case by simp
next
  case (Cons i js)
  from field_at_struct [OF Cons.prems(2)] obtain pk nm fs where t: "t = TStruct pk nm fs"
    and i: "i < length fs" and f: "if js = [] then f = fs ! i else field_at (ftype (fs ! i)) js = Some f"
    by blast
  from Cons.prems(1) t obtain vs where v: "v = VStruct t vs" and len: "length vs = length fs"
    and wi: "wt (ftype (fs ! i)) (vs ! i)"
    using i by (auto simp: wt_struct_iff)
  show ?case
  proof (cases "js = []")
    case True
    with f v len i wi show ?thesis by simp
  next
    case False
    with f have "field_at (ftype (fs ! i)) js = Some f" by simp
    with Cons.IH wi have "wt (ftype f) (get_path (vs ! i) js)" by blast
    with v len i show ?thesis by simp
  qed
qed

lemma wt_set_path:
  "wt t v \<Longrightarrow> field_at t p = Some f \<Longrightarrow> wt (ftype f) w \<Longrightarrow> wt t (set_path v p w)"
proof (induction p arbitrary: t v)
  case Nil
  then show ?case by simp
next
  case (Cons i js)
  from field_at_struct [OF Cons.prems(2)] obtain pk nm fs where t: "t = TStruct pk nm fs"
    and i: "i < length fs" and f: "if js = [] then f = fs ! i else field_at (ftype (fs ! i)) js = Some f"
    by blast
  from Cons.prems(1) t obtain vs where v: "v = VStruct t vs" and len: "length vs = length fs"
    and all: "\<forall>j < length fs. wt (ftype (fs ! j)) (vs ! j)"
    by (auto simp: wt_struct_iff)
  have new: "wt (ftype (fs ! i)) (set_path (vs ! i) js w)"
  proof (cases "js = []")
    case True
    with f Cons.prems(3) show ?thesis by simp
  next
    case False
    with f have "field_at (ftype (fs ! i)) js = Some f" by simp
    with Cons.IH all i Cons.prems(3) show ?thesis by blast
  qed
  have "\<forall>j < length fs. wt (ftype (fs ! j)) (vs[i := set_path (vs ! i) js w] ! j)"
  proof (intro allI impI)
    fix j assume "j < length fs"
    with all new len show "wt (ftype (fs ! j)) (vs[i := set_path (vs ! i) js w] ! j)"
      by (cases "j = i") simp_all
  qed
  with v t len i show ?case by (simp add: wt_struct_iff)
qed

lemma get_set_path:
  "wt t v \<Longrightarrow> field_at t p = Some f \<Longrightarrow> get_path (set_path v p w) p = w"
proof (induction p arbitrary: t v)
  case Nil
  then show ?case by simp
next
  case (Cons i js)
  from field_at_struct [OF Cons.prems(2)] obtain pk nm fs where t: "t = TStruct pk nm fs"
    and i: "i < length fs" and f: "if js = [] then f = fs ! i else field_at (ftype (fs ! i)) js = Some f"
    by blast
  from Cons.prems(1) t obtain vs where v: "v = VStruct t vs" and len: "length vs = length fs"
    and wi: "wt (ftype (fs ! i)) (vs ! i)"
    using i by (auto simp: wt_struct_iff)
  show ?case
  proof (cases "js = []")
    case True
    with v len i show ?thesis by simp
  next
    case False
    with f have "field_at (ftype (fs ! i)) js = Some f" by simp
    with Cons.IH wi have "get_path (set_path (vs ! i) js w) js = w" by blast
    with v len i show ?thesis by simp
  qed
qed

lemma type_of_set_path: "p \<noteq> [] \<Longrightarrow> type_of (set_path v p w) = type_of v"
  by (cases p; cases v) simp_all

end
