(* ===== verification/Orm.thy ===== *)
theory Orm
  imports Go_Prelude Go_Reflect
begin

text \<open>
  Package \<open>orm\<close> (src/orm/model.go): the base records every entity embeds and the
  multilingual-content helpers.  Go struct embedding is record extension: a type that
  embeds \<open>orm.ContentModel\<close> is an extension of the \<open>ContentModel\<close> record, and the
  promoted method \<open>GetLanguageID\<close> is the record selector on the embedded part.
  The generic functions over \<open>CM IContentModel\<close> take the interface's method as an
  explicit argument, so their lemmas hold for every content type.
\<close>

text \<open>\<open>time.Time\<close>: a point in time; only equality and copying matter here.\<close>
type_synonym go_time = int

record Model =
  ID :: go_uint
  CreatedAt :: go_time
  UpdatedAt :: go_time

record Language =
  ID :: string
  Title :: string
  CreatedAt :: go_time
  UpdatedAt :: go_time

record ContentModel =
  LanguageID :: string
  Language :: Language
  CreatedAt :: go_time
  UpdatedAt :: go_time

text \<open>\<open>func (content ContentModel) GetLanguageID() string\<close>; promoted to every embedder.\<close>
definition GetLanguageID :: "'a ContentModel_scheme \<Rightarrow> string" where
  "GetLanguageID content = LanguageID content"

subsection \<open>GetAllContentsWithUpdated\<close>

text \<open>
  The map \<open>contentMap\<close> after both loops of \<open>GetAllContentsWithUpdated\<close>: every
  current content stored under its language, then every input content, overwriting.
\<close>
definition contentMap_of ::
  "('cm \<Rightarrow> string) \<Rightarrow> 'cm list \<Rightarrow> 'cm list \<Rightarrow> (string, 'cm) go_map" where
  "contentMap_of getLanguageID currentContents inputContents =
     go_map_fill getLanguageID inputContents (go_map_fill getLanguageID currentContents [])"

text \<open>
  The result collects the map's values in the runtime's iteration order \<open>ord\<close>, a
  permutation of the map's positions (\<^const>\<open>go_range_order\<close>).
\<close>
definition GetAllContentsWithUpdated ::
  "('cm \<Rightarrow> string) \<Rightarrow> nat list \<Rightarrow> 'cm list \<Rightarrow> 'cm list \<Rightarrow> 'cm list" where
  "GetAllContentsWithUpdated getLanguageID ord currentContents inputContents =
     go_map_values ord (contentMap_of getLanguageID currentContents inputContents)"

subsection \<open>IsContentContained\<close>

fun IsContentContained :: "'a ContentModel_scheme \<Rightarrow> 'b ContentModel_scheme list \<Rightarrow> bool" where
  "IsContentContained content [] = False"
| "IsContentContained content (c # cs) =
     (LanguageID c = LanguageID content \<or> IsContentContained content cs)"

definition IsContained :: "'a ContentModel_scheme \<Rightarrow> 'b ContentModel_scheme list \<Rightarrow> bool" where
  "IsContained content contents = IsContentContained content contents"

declare GetLanguageID_def [go_eval] contentMap_of_def [go_eval]
  GetAllContentsWithUpdated_def [go_eval] IsContained_def [go_eval]

subsection \<open>The orm types as reflect sees them\<close>

text \<open>
  The engine and the copier work on these structs through \<open>reflect\<close>; here they are
  as runtime types, with their tags.  \<open>time.Time\<close> is a struct of unexported fields
  (its location pointer is left out), so reflection can copy it whole but never set a
  field of it.
\<close>
definition time_Time :: gtype where
  "time_Time = TStruct ''time'' ''Time'' [GField ''wall'' TUint [] False, GField ''ext'' TInt [] False]"

definition Model_t :: gtype where
  "Model_t = TStruct ''orm'' ''Model''
     [GField ''ID'' TUint [(''json'', ''id''), (''gorm'', ''primaryKey'')] False,
      GField ''CreatedAt'' time_Time [(''json'', ''created_at''), (''gorm'', ''not null;autoCreateTime'')] False,
      GField ''UpdatedAt'' time_Time [(''json'', ''updated_at''), (''gorm'', ''not null;autoUpdateTime:milli'')] False]"

definition Language_t :: gtype where
  "Language_t = TStruct ''orm'' ''Language''
     [GField ''ID'' TString [(''json'', ''id''), (''gorm'', ''primaryKey;type:varchar(2);index'')] False,
      GField ''Title'' TString [(''json'', ''title''), (''gorm'', ''not null;type:varchar(50)'')] False,
      GField ''CreatedAt'' time_Time [(''json'', ''created_at''), (''gorm'', ''not null;autoCreateTime'')] False,
      GField ''UpdatedAt'' time_Time [(''json'', ''updated_at''), (''gorm'', ''not null;autoUpdateTime:milli'')] False]"

definition ContentModel_t :: gtype where
  "ContentModel_t = TStruct ''orm'' ''ContentModel''
     [GField ''LanguageID'' TString [(''json'', ''language_id''), (''gorm'', ''primaryKey;type:varchar(2);index'')] False,
      GField ''Language'' Language_t [(''json'', ''-'')] False,
      GField ''CreatedAt'' time_Time [(''json'', ''created_at''), (''gorm'', ''not null;autoCreateTime'')] False,
      GField ''UpdatedAt'' time_Time [(''json'', ''updated_at''), (''gorm'', ''not null;autoUpdateTime:milli'')] False]"

text \<open>The methods the package declares, by receiver type (all value receivers).\<close>
definition orm_methods :: "gtype \<Rightarrow> string list" where
  "orm_methods t = (if t = ContentModel_t then [''GetLanguageID'', ''IsContained''] else [])"

text \<open>\<open>ContentModel.GetLanguageID\<close> called through reflection on a receiver value:
  the receiver's \<open>LanguageID\<close> field (index 0).\<close>
definition GetLanguageID_value :: "gval \<Rightarrow> string" where
  "GetLanguageID_value recv = value_String (get_path recv [0])"

text \<open>
  \<open>IsContentModel\<close>: the type implements \<open>IContentModel\<close>, i.e. a
  \<open>GetLanguageID\<close> method is in its method set (declared or promoted).
\<close>
definition IsContentModel :: "gtype \<Rightarrow> bool" where
  "IsContentModel t \<longleftrightarrow> method_by_name orm_methods t ''GetLanguageID'' \<noteq> None"

declare IsContentModel_def [go_eval]

declare time_Time_def [go_eval] Model_t_def [go_eval] Language_t_def [go_eval]
  ContentModel_t_def [go_eval] orm_methods_def [go_eval] GetLanguageID_value_def [go_eval]

subsection \<open>The content map\<close>

lemma contentMap_of_keyed_by: "keyed_by k (contentMap_of k cur inp)"
  by (simp add: contentMap_of_def keyed_by_go_map_fill)

lemma contentMap_of_distinct: "distinct (map fst (contentMap_of k cur inp))"
  by (simp add: contentMap_of_def distinct_go_map_fill)

lemma contentMap_of_map_of: "map_of (contentMap_of k cur inp) = keyed k cur ++ keyed k inp"
  by (simp add: contentMap_of_def map_of_go_map_fill)

lemma contentMap_of_keys: "fst ` set (contentMap_of k cur inp) = k ` set cur \<union> k ` set inp"
  by (simp add: contentMap_of_def keys_go_map_fill)

lemma keyed_by_map_fst:
  "keyed_by k m \<Longrightarrow> map (k \<circ> snd) m = map fst m"
  by (induction m) (auto simp: keyed_by_def)

text \<open>Fresh keys are appended in order: the map of a list with distinct keys is the list.\<close>

lemma go_map_fill_fresh:
  assumes "distinct (map k xs)" and "set (map fst m) \<inter> k ` set xs = {}"
  shows "go_map_fill k xs m = m @ map (\<lambda>x. (k x, x)) xs"
  using assms
proof (induction xs arbitrary: m)
  case Nil
  then show ?case by simp
next
  case (Cons x xs)
  have "k x \<notin> fst ` set m" using Cons.prems by auto
  then have put: "go_map_put (k x) x m = m @ [(k x, x)]"
    by (induction m) (auto simp: go_map_put_def)
  have "set (map fst (m @ [(k x, x)])) \<inter> k ` set xs = {}"
    using Cons.prems by auto
  with Cons.IH [of "m @ [(k x, x)]"] Cons.prems put show ?case by simp
qed

text \<open>The values of the merged map, as a multiset: independent of the iteration order.\<close>

lemma mset_GetAllContentsWithUpdated:
  "go_range_order ord (contentMap_of k cur inp) \<Longrightarrow>
   mset (GetAllContentsWithUpdated k ord cur inp) = mset (map snd (contentMap_of k cur inp))"
  by (simp add: GetAllContentsWithUpdated_def mset_go_map_values)

lemma contentMap_of_fresh_current:
  "distinct (map k cur) \<Longrightarrow> contentMap_of k cur [] = map (\<lambda>x. (k x, x)) cur"
  by (simp add: contentMap_of_def go_map_fill_fresh)

lemma contentMap_of_fresh_input:
  "distinct (map k inp) \<Longrightarrow> contentMap_of k [] inp = map (\<lambda>x. (k x, x)) inp"
  by (simp add: contentMap_of_def go_map_fill_fresh)

subsection \<open>Properties of the merge\<close>

text \<open>
  C1 (refinement).  Read as a map from language to content, the merged slice is the
  current contents overridden by the input contents: inputs win on shared languages,
  languages only in the current contents keep their current entry.  This holds for
  every iteration order the Go runtime may choose.
\<close>
theorem GetAllContentsWithUpdated_refines:
  assumes "go_range_order ord (contentMap_of k cur inp)"
  shows "keyed k (GetAllContentsWithUpdated k ord cur inp) = keyed k cur ++ keyed k inp"
proof -
  let ?m = "contentMap_of k cur inp"
  have perm: "mset (GetAllContentsWithUpdated k ord cur inp) = mset (map snd ?m)"
    using assms by (rule mset_GetAllContentsWithUpdated)
  have "distinct (map k (map snd ?m))"
    by (simp add: keyed_by_map_fst contentMap_of_keyed_by contentMap_of_distinct)
  with perm have "keyed k (GetAllContentsWithUpdated k ord cur inp) = keyed k (map snd ?m)"
    by (rule keyed_distinct_perm)
  also have "\<dots> = map_of ?m"
    by (simp add: keyed_map_snd contentMap_of_keyed_by contentMap_of_distinct)
  finally show ?thesis
    by (simp add: contentMap_of_map_of)
qed

theorem GetAllContentsWithUpdated_refines_witness:
  "go_range_order [1, 0] (contentMap_of GetLanguageID
      [ContentModel.make ''en'' (Language.make ''en'' ''English'' 0 0) 1 1,
       ContentModel.make ''ar'' (Language.make ''ar'' ''Arabic'' 0 0) 2 2]
      [ContentModel.make ''en'' (Language.make ''en'' ''English'' 0 0) 3 3])
   \<and> keyed GetLanguageID (GetAllContentsWithUpdated GetLanguageID [1, 0]
      [ContentModel.make ''en'' (Language.make ''en'' ''English'' 0 0) 1 1,
       ContentModel.make ''ar'' (Language.make ''ar'' ''Arabic'' 0 0) 2 2]
      [ContentModel.make ''en'' (Language.make ''en'' ''English'' 0 0) 3 3])
     = keyed GetLanguageID [ContentModel.make ''en'' (Language.make ''en'' ''English'' 0 0) 1 1,
         ContentModel.make ''ar'' (Language.make ''ar'' ''Arabic'' 0 0) 2 2]
       ++ keyed GetLanguageID [ContentModel.make ''en'' (Language.make ''en'' ''English'' 0 0) 3 3]"
proof -
  have h: "go_range_order [1, 0] (contentMap_of GetLanguageID
      [ContentModel.make ''en'' (Language.make ''en'' ''English'' 0 0) 1 1,
       ContentModel.make ''ar'' (Language.make ''ar'' ''Arabic'' 0 0) 2 2]
      [ContentModel.make ''en'' (Language.make ''en'' ''English'' 0 0) 3 3])"
    by (simp add: go_eval ContentModel.make_def Language.make_def)
  show ?thesis using h GetAllContentsWithUpdated_refines [OF h] by simp
qed

text \<open>
  C2 (invariant).  The merged slice holds exactly one content per language, and its
  languages are those of the current and the input contents together.
\<close>
theorem GetAllContentsWithUpdated_one_per_language:
  assumes "go_range_order ord (contentMap_of k cur inp)"
  shows "distinct (map k (GetAllContentsWithUpdated k ord cur inp)) \<and>
         k ` set (GetAllContentsWithUpdated k ord cur inp) = k ` set cur \<union> k ` set inp"
proof -
  let ?m = "contentMap_of k cur inp"
  let ?r = "GetAllContentsWithUpdated k ord cur inp"
  have keys: "map (k \<circ> snd) ?m = map fst ?m"
    by (simp add: keyed_by_map_fst contentMap_of_keyed_by)
  have "mset (map k ?r) = mset (map fst ?m)"
    using mset_GetAllContentsWithUpdated [OF assms] keys
    by (metis mset_map map_map)
  then have "distinct (map k ?r)"
    using contentMap_of_distinct mset_eq_imp_distinct_iff by blast
  moreover have "k ` set ?r = fst ` set ?m"
    using set_go_map_values [OF assms] keys
    by (simp add: GetAllContentsWithUpdated_def image_image flip: image_comp)
  ultimately show ?thesis
    by (simp add: contentMap_of_keys)
qed

theorem GetAllContentsWithUpdated_one_per_language_witness:
  "go_range_order [1, 0] (contentMap_of GetLanguageID [ContentModel.make ''en'' (Language.make ''en'' ''English'' 0 0) 1 1, ContentModel.make ''ar'' (Language.make ''ar'' ''Arabic'' 0 0) 2 2] [ContentModel.make ''en'' (Language.make ''en'' ''English'' 0 0) 3 3])
   \<and> distinct (map GetLanguageID (GetAllContentsWithUpdated GetLanguageID [1, 0] [ContentModel.make ''en'' (Language.make ''en'' ''English'' 0 0) 1 1, ContentModel.make ''ar'' (Language.make ''ar'' ''Arabic'' 0 0) 2 2] [ContentModel.make ''en'' (Language.make ''en'' ''English'' 0 0) 3 3]))
   \<and> GetLanguageID ` set (GetAllContentsWithUpdated GetLanguageID [1, 0] [ContentModel.make ''en'' (Language.make ''en'' ''English'' 0 0) 1 1, ContentModel.make ''ar'' (Language.make ''ar'' ''Arabic'' 0 0) 2 2] [ContentModel.make ''en'' (Language.make ''en'' ''English'' 0 0) 3 3])
     = GetLanguageID ` set [ContentModel.make ''en'' (Language.make ''en'' ''English'' 0 0) 1 1, ContentModel.make ''ar'' (Language.make ''ar'' ''Arabic'' 0 0) 2 2] \<union> GetLanguageID ` set [ContentModel.make ''en'' (Language.make ''en'' ''English'' 0 0) 3 3]"
proof -
  have h: "go_range_order [1, 0] (contentMap_of GetLanguageID [ContentModel.make ''en'' (Language.make ''en'' ''English'' 0 0) 1 1, ContentModel.make ''ar'' (Language.make ''ar'' ''Arabic'' 0 0) 2 2] [ContentModel.make ''en'' (Language.make ''en'' ''English'' 0 0) 3 3])"
    by (simp add: go_eval ContentModel.make_def Language.make_def)
  show ?thesis using h GetAllContentsWithUpdated_one_per_language [OF h] by blast
qed

text \<open>
  C3 (functional).  Merging with no input contents returns the current contents, as a
  multiset, whenever the current contents carry distinct languages.
\<close>
theorem GetAllContentsWithUpdated_no_input:
  assumes "go_range_order ord (contentMap_of k cur [])" and "distinct (map k cur)"
  shows "mset (GetAllContentsWithUpdated k ord cur []) = mset cur"
  using mset_GetAllContentsWithUpdated [OF assms(1)] contentMap_of_fresh_current [OF assms(2)]
  by (simp add: comp_def)

theorem GetAllContentsWithUpdated_no_input_witness:
  "go_range_order [1, 0] (contentMap_of GetLanguageID [ContentModel.make ''en'' (Language.make ''en'' ''English'' 0 0) 1 1, ContentModel.make ''ar'' (Language.make ''ar'' ''Arabic'' 0 0) 2 2] [])
   \<and> distinct (map GetLanguageID [ContentModel.make ''en'' (Language.make ''en'' ''English'' 0 0) 1 1, ContentModel.make ''ar'' (Language.make ''ar'' ''Arabic'' 0 0) 2 2])
   \<and> mset (GetAllContentsWithUpdated GetLanguageID [1, 0] [ContentModel.make ''en'' (Language.make ''en'' ''English'' 0 0) 1 1, ContentModel.make ''ar'' (Language.make ''ar'' ''Arabic'' 0 0) 2 2] []) = mset [ContentModel.make ''en'' (Language.make ''en'' ''English'' 0 0) 1 1, ContentModel.make ''ar'' (Language.make ''ar'' ''Arabic'' 0 0) 2 2]"
proof -
  have h1: "go_range_order [1, 0] (contentMap_of GetLanguageID [ContentModel.make ''en'' (Language.make ''en'' ''English'' 0 0) 1 1, ContentModel.make ''ar'' (Language.make ''ar'' ''Arabic'' 0 0) 2 2] [])"
    by (simp add: go_eval ContentModel.make_def Language.make_def)
  have h2: "distinct (map GetLanguageID [ContentModel.make ''en'' (Language.make ''en'' ''English'' 0 0) 1 1, ContentModel.make ''ar'' (Language.make ''ar'' ''Arabic'' 0 0) 2 2])"
    by (simp add: go_eval ContentModel.make_def Language.make_def)
  show ?thesis using h1 h2 GetAllContentsWithUpdated_no_input [OF h1 h2] by blast
qed

text \<open>
  C4 (functional).  Merging into no current contents returns the input contents, as a
  multiset, whenever the input contents carry distinct languages.
\<close>
theorem GetAllContentsWithUpdated_no_current:
  assumes "go_range_order ord (contentMap_of k [] inp)" and "distinct (map k inp)"
  shows "mset (GetAllContentsWithUpdated k ord [] inp) = mset inp"
  using mset_GetAllContentsWithUpdated [OF assms(1)] contentMap_of_fresh_input [OF assms(2)]
  by (simp add: comp_def)

theorem GetAllContentsWithUpdated_no_current_witness:
  "go_range_order [0, 1] (contentMap_of GetLanguageID [] [ContentModel.make ''en'' (Language.make ''en'' ''English'' 0 0) 3 3, ContentModel.make ''ar'' (Language.make ''ar'' ''Arabic'' 0 0) 2 2])
   \<and> distinct (map GetLanguageID [ContentModel.make ''en'' (Language.make ''en'' ''English'' 0 0) 3 3, ContentModel.make ''ar'' (Language.make ''ar'' ''Arabic'' 0 0) 2 2])
   \<and> mset (GetAllContentsWithUpdated GetLanguageID [0, 1] [] [ContentModel.make ''en'' (Language.make ''en'' ''English'' 0 0) 3 3, ContentModel.make ''ar'' (Language.make ''ar'' ''Arabic'' 0 0) 2 2]) = mset [ContentModel.make ''en'' (Language.make ''en'' ''English'' 0 0) 3 3, ContentModel.make ''ar'' (Language.make ''ar'' ''Arabic'' 0 0) 2 2]"
proof -
  have h1: "go_range_order [0, 1] (contentMap_of GetLanguageID [] [ContentModel.make ''en'' (Language.make ''en'' ''English'' 0 0) 3 3, ContentModel.make ''ar'' (Language.make ''ar'' ''Arabic'' 0 0) 2 2])"
    by (simp add: go_eval ContentModel.make_def Language.make_def)
  have h2: "distinct (map GetLanguageID [ContentModel.make ''en'' (Language.make ''en'' ''English'' 0 0) 3 3, ContentModel.make ''ar'' (Language.make ''ar'' ''Arabic'' 0 0) 2 2])"
    by (simp add: go_eval ContentModel.make_def Language.make_def)
  show ?thesis using h1 h2 GetAllContentsWithUpdated_no_current [OF h1 h2] by blast
qed

text \<open>
  The distinct-language condition of C3 is needed: two current
  contents in the same language collapse to the later one, so merging with an empty
  input does not return the current contents.
\<close>
theorem GetAllContentsWithUpdated_duplicate_current:
  "GetAllContentsWithUpdated GetLanguageID [0] [ContentModel.make ''en'' (Language.make ''en'' ''English'' 0 0) 1 1, ContentModel.make ''en'' (Language.make ''en'' ''English'' 0 0) 3 3] [] = [ContentModel.make ''en'' (Language.make ''en'' ''English'' 0 0) 3 3]"
  by (simp add: go_eval ContentModel.make_def Language.make_def)

end
