(* ===== verification/Blog_Example.thy ===== *)
theory Blog_Example
  imports Orm
begin

text \<open>
  The example application of the repository (package \<open>main\<close>, src/unnamed/part_000):
  a \<open>Blog\<close> that embeds \<open>orm.Model\<close> and holds multilingual \<open>BlogContent\<close>s, each
  embedding \<open>orm.ContentModel\<close>.  The types are given twice, as records (embedding is
  record extension) and as the runtime types the reflective engine walks, and the
  encoding of a record as a reflect value connects the two.  Server start-up in
  \<open>main()\<close> (database open, migration, router, listen) is I/O and not modelled.
\<close>

record BlogContent = ContentModel +
  Content :: string
  BlogID :: go_uint

record Blog = Model +
  Contents :: "BlogContent list"
  Owner :: string
  IsPublished :: bool

definition BlogContent_t :: gtype where
  "BlogContent_t = TStruct ''main'' ''BlogContent''
     [GField ''ContentModel'' ContentModel_t [] True,
      GField ''Content'' TString [(''json'', ''content'')] False,
      GField ''BlogID'' TUint [(''json'', ''blog_id'')] False]"

definition Blog_t :: gtype where
  "Blog_t = TStruct ''main'' ''Blog''
     [GField ''Model'' Model_t [] True,
      GField ''Contents'' (TSlice BlogContent_t)
        [(''json'', ''contents''), (''gorm'', ''foreignKey:BlogID;constraint:OnUpdate:CASCADE,OnDelete:CASCADE'')] False,
      GField ''Owner'' TString [(''json'', ''owner'')] False,
      GField ''IsPublished'' TBool [(''json'', ''is_published''), (''gorm'', ''default:false;index'')] False]"

subsection \<open>Records as reflect values\<close>

definition time_val :: "go_time \<Rightarrow> gval" where
  "time_val t = VStruct time_Time [VUint (word_of_int t), VInt 0]"

definition Language_val :: "Language \<Rightarrow> gval" where
  "Language_val l = VStruct Language_t
     [VString (Language.ID l), VString (Title l),
      time_val (Language.CreatedAt l), time_val (Language.UpdatedAt l)]"

definition BlogContent_val :: "BlogContent \<Rightarrow> gval" where
  "BlogContent_val c = VStruct BlogContent_t
     [VStruct ContentModel_t [VString (LanguageID c), Language_val (Language c),
        time_val (ContentModel.CreatedAt c), time_val (ContentModel.UpdatedAt c)],
      VString (Content c), VUint (BlogID c)]"

definition Blog_val :: "Blog \<Rightarrow> gval" where
  "Blog_val b = VStruct Blog_t
     [VStruct Model_t [VUint (Model.ID b), time_val (Model.CreatedAt b), time_val (Model.UpdatedAt b)],
      VSlice BlogContent_t (map BlogContent_val (Contents b)),
      VString (Owner b), VBool (IsPublished b)]"

declare BlogContent_t_def [go_eval] Blog_t_def [go_eval] time_val_def [go_eval]
  Language_val_def [go_eval] BlogContent_val_def [go_eval] Blog_val_def [go_eval]

subsection \<open>The encoding is well typed\<close>

lemma wt_time_val [simp]: "wt time_Time (time_val t)"
  by (simp add: time_val_def time_Time_def)

lemma wt_Language_val [simp]: "wt Language_t (Language_val l)"
  by (simp add: Language_val_def Language_t_def wt_struct_iff nth_Cons' time_Time_def [symmetric])

lemma wt_BlogContent_val [simp]: "wt BlogContent_t (BlogContent_val c)"
  by (simp add: BlogContent_val_def BlogContent_t_def ContentModel_t_def wt_struct_iff nth_Cons'
      Language_t_def [symmetric] time_Time_def [symmetric])

lemma wt_Blog_val: "wt Blog_t (Blog_val b)"
  by (simp add: Blog_val_def Blog_t_def Model_t_def wt_struct_iff nth_Cons'
      BlogContent_t_def [symmetric] time_Time_def [symmetric])

end
