(* ===== verification/Copier.thy ===== *)
theory Copier
  imports Blog_Example
begin

text \<open>
  The reflective helpers of package \<open>service\<close> (src/service/helpers.go).  A reflect
  location is modelled by its current value; a helper that writes a location returns
  its new value together with the error it reports, because Go mutates the location
  in place and keeps what was written before an error.  The error values mirror the
  \<open>fmt.Errorf\<close> calls of the code.  Loops over a Go map take the runtime's iteration
  order \<open>ord\<close> (see theory Go_Prelude).

  \<open>fillStruct\<close> is modelled although nothing calls it (its only caller is commented
  out): it is the recursive variant of \<open>copyStruct\<close> and its treatment of nested
  structs shows what a recursive copy of the repository's records loses.
\<close>

datatype cerr =
    CopyStructNotStructs            \<comment> \<open>"both values must be structs"\<close>
  | TypeMismatch gtype gtype        \<comment> \<open>"type mismatch: %s -> %s" in copyField\<close>
  | FieldErr string cerr            \<comment> \<open>"field %s: %w"\<close>
  | ElemErr nat cerr                \<comment> \<open>"element %d: %w"\<close>
  | IndexErr string nat cerr        \<comment> \<open>"%s[%d]: %w" in the engine\<close>
  | NameErr string cerr             \<comment> \<open>"%s: %w" in the engine\<close>
  | CannotSet string                \<comment> \<open>"model field %s cannot be set" in the engine\<close>

subsection \<open>copyField\<close>

text \<open>\<open>for src.Kind() == reflect.Ptr && !src.IsNil() { src = src.Elem() }\<close>, as
  recursion on the value: a value is a finite tree, so the cyclic pointer chains on
  which the Go loop does not end are not represented.\<close>
fun deref_src :: "gval \<Rightarrow> gval" where
  "deref_src (VPtr t (Some v)) = deref_src v"
| "deref_src v = v"

text \<open>
  The destination loop: through every pointer level, allocating \<open>reflect.New\<close> where
  the pointer is nil, then assign or convert.  The allocation stays when the final
  assignment fails.
\<close>
fun copy_into :: "gtype \<Rightarrow> gval \<Rightarrow> gval \<Rightarrow> gval \<times> cerr option" where
  "copy_into (TPtr t) dst src =
     (let d = (case dst of VPtr _ (Some x) \<Rightarrow> x | _ \<Rightarrow> zero t);
          (x, e) = copy_into t d src
      in (VPtr t (Some x), e))"
| "copy_into t dst src =
     (if assignable (type_of src) t then (retype t src, None)
      else if convertible (type_of src) t then (convert t src, None)
      else (dst, Some (TypeMismatch (type_of src) t)))"

definition copyField :: "gval \<Rightarrow> gval \<Rightarrow> gval \<times> cerr option" where
  "copyField dst src = copy_into (type_of dst) dst (deref_src src)"

subsection \<open>copyStruct\<close>

text \<open>The fields of a struct value with their values, in declaration order.\<close>
fun fields_of :: "gval \<Rightarrow> (gfield \<times> gval) list" where
  "fields_of (VStruct (TStruct _ _ fs) vs) = zip fs vs"
| "fields_of _ = []"

text \<open>The loop of \<open>copyStruct\<close> over the source fields, stopping at the first error.\<close>
fun copy_fields :: "gval \<Rightarrow> (gfield \<times> gval) list \<Rightarrow> gval \<times> cerr option" where
  "copy_fields dst [] = (dst, None)"
| "copy_fields dst ((f, v) # rest) =
     (case field_by_name (type_of dst) (fname f) of
        None \<Rightarrow> copy_fields dst rest
      | Some p \<Rightarrow>
          if can_set (type_of dst) p then
            (let (x, e) = copyField (get_path dst p) v;
                 dst' = set_path dst p x
             in case e of
                  None \<Rightarrow> copy_fields dst' rest
                | Some err \<Rightarrow> (dst', Some (FieldErr (fname f) err)))
          else copy_fields dst rest)"

definition copyStruct :: "gval \<Rightarrow> gval \<Rightarrow> gval \<times> cerr option" where
  "copyStruct dst src =
     (if kind (type_of dst) \<noteq> KStruct \<or> kind (type_of src) \<noteq> KStruct
      then (dst, Some CopyStructNotStructs)
      else copy_fields dst (fields_of src))"

subsection \<open>getLanguageID\<close>

text \<open>
  \<open>getLanguageID\<close> of an addressable value (every caller passes a slice element):
  the promoted \<open>GetLanguageID\<close> method if the value's method set has it, otherwise the
  \<open>LanguageID\<close> field read with \<open>Value.String\<close>, otherwise the empty string.  The
  second lookup of the code, in the method set of the pointer type, finds nothing the
  first does not: the repository declares no pointer-receiver methods.
\<close>
definition getLanguageID :: "gval \<Rightarrow> string" where
  "getLanguageID v =
     (case method_by_name orm_methods (type_of v) ''GetLanguageID'' of
        Some r \<Rightarrow> GetLanguageID_value (get_path v r)
      | None \<Rightarrow>
          (case field_by_name (type_of v) ''LanguageID'' of
             Some p \<Rightarrow> value_String (get_path v p)
           | None \<Rightarrow> []))"

subsection \<open>Slices of contents\<close>

fun slice_elems :: "gval \<Rightarrow> gval list" where
  "slice_elems (VSlice _ xs) = xs"
| "slice_elems _ = []"

fun slice_elem_type :: "gtype \<Rightarrow> gtype" where
  "slice_elem_type (TSlice t) = t"
| "slice_elem_type t = t"

text \<open>\<open>mergeContents\<close>: existing contents by language, overridden by the new ones.\<close>
definition mergeContents :: "nat list \<Rightarrow> gval \<Rightarrow> gval \<Rightarrow> gval" where
  "mergeContents ord existing newContents =
     (let contentMap = go_map_fill getLanguageID (slice_elems existing) [];
          contentMap = go_map_fill getLanguageID (slice_elems newContents) contentMap
      in VSlice (slice_elem_type (type_of existing)) (go_map_values ord contentMap))"

text \<open>\<open>srcElem.Elem()\<close> of a pointer element; a nil pointer gives the invalid value.\<close>
fun elem_of :: "gval \<Rightarrow> gval option" where
  "elem_of (VPtr _ vo) = vo"
| "elem_of v = Some v"

text \<open>The loop of \<open>handleSliceUpdate\<close> that builds \<open>newContents\<close>.\<close>
fun new_contents :: "gtype \<Rightarrow> nat \<Rightarrow> gval list \<Rightarrow> cerr + gval list" where
  "new_contents et i [] = Inr []"
| "new_contents et i (s # ss) =
     (case elem_of s of
        None \<Rightarrow> Inl (ElemErr i CopyStructNotStructs)
      | Some src \<Rightarrow>
          (case copyStruct (zero et) src of
             (d, None) \<Rightarrow> map_sum id (Cons d) (new_contents et (Suc i) ss)
           | (_, Some e) \<Rightarrow> Inl (ElemErr i e)))"

definition handleSliceUpdate :: "nat list \<Rightarrow> gval \<Rightarrow> gval \<Rightarrow> gval \<times> cerr option" where
  "handleSliceUpdate ord modelField paramValue =
     (case new_contents (slice_elem_type (type_of modelField)) 0 (slice_elems paramValue) of
        Inl e \<Rightarrow> (modelField, Some e)
      | Inr ncs \<Rightarrow>
          (mergeContents ord modelField
             (VSlice (slice_elem_type (type_of modelField)) ncs), None))"

text \<open>
  The second loop of \<open>handleContentUpdate\<close>: each update item is copied into a fresh
  content and stored under the item's language; an item whose copy fails is dropped
  without a trace.
\<close>
fun update_contents :: "gtype \<Rightarrow> (string, gval) go_map \<Rightarrow> gval list \<Rightarrow> (string, gval) go_map" where
  "update_contents et m [] = m"
| "update_contents et m (u # us) =
     (let langID = getLanguageID u;
          (newItem, err) = copyStruct (zero et) u
      in update_contents et (if err = None then go_map_put langID newItem m else m) us)"

text \<open>The map \<open>contentMap\<close> of \<open>handleContentUpdate\<close> after both loops.\<close>
definition content_update_map :: "gval \<Rightarrow> gval \<Rightarrow> (string, gval) go_map" where
  "content_update_map modelField paramValue =
     update_contents (slice_elem_type (type_of modelField))
       (go_map_fill getLanguageID (slice_elems modelField) []) (slice_elems paramValue)"

definition handleContentUpdate :: "nat list \<Rightarrow> gval \<Rightarrow> gval \<Rightarrow> gval \<times> cerr option" where
  "handleContentUpdate ord modelField paramValue =
     (VSlice (slice_elem_type (type_of modelField))
        (go_map_values ord (content_update_map modelField paramValue)), None)"

subsection \<open>fillStruct\<close>

text \<open>\<open>append\<close> of an element to the slice built so far, unless an error ended the loop.\<close>
definition fillStruct_cons :: "gval \<Rightarrow> string + gval list \<times> string option \<Rightarrow> string + gval list \<times> string option" where
  "fillStruct_cons x r = map_sum id (\<lambda>(xs, e). (x # xs, e)) r"

text \<open>
  \<open>fillStruct(dst, src)\<close>: \<open>Inl\<close> is a panic (\<open>reflect.MakeSlice\<close> of a non-slice
  destination field), \<open>Inr (dst', err)\<close> the destination after the call and the
  error returned.  A nested struct field is filled recursively in place, so what it
  wrote before an error stays; a slice field is built in a fresh slice that is stored
  only when every element succeeded.  \<open>fillStruct_fields\<close> is the loop over the source
  fields, \<open>fillStruct_elems n et\<close> the loop over the elements of the slice field \<open>n\<close>.
\<close>
fun fillStruct :: "gval \<Rightarrow> gval \<Rightarrow> string + gval \<times> string option"
and fillStruct_fields :: "gval \<Rightarrow> gfield list \<Rightarrow> gval list \<Rightarrow> string + gval \<times> string option"
and fillStruct_elems :: "string \<Rightarrow> gtype \<Rightarrow> gval list \<Rightarrow> string + gval list \<times> string option" where
  "fillStruct dst (VStruct (TStruct p n fs) vs) =
     (if kind (type_of dst) \<noteq> KStruct
      then Inr (dst, Some ''fillStruct requires both dst and src to be structs'')
      else fillStruct_fields dst fs vs)"
| "fillStruct dst src = Inr (dst, Some ''fillStruct requires both dst and src to be structs'')"
| "fillStruct_fields dst [] vs = Inr (dst, None)"
| "fillStruct_fields dst fs [] = Inr (dst, None)"
| "fillStruct_fields dst (f # fs) (v # vs) =
     (case field_by_name (type_of dst) (fname f) of
        None \<Rightarrow> fillStruct_fields dst fs vs
      | Some p \<Rightarrow>
          if \<not> can_set (type_of dst) p then fillStruct_fields dst fs vs
          else
            (let df = get_path dst p
             in case v of
                  VStruct _ _ \<Rightarrow>
                    (case fillStruct df v of
                       Inl m \<Rightarrow> Inl m
                     | Inr (x, Some e) \<Rightarrow> Inr (set_path dst p x, Some e)
                     | Inr (x, None) \<Rightarrow> fillStruct_fields (set_path dst p x) fs vs)
                | VSlice _ es \<Rightarrow>
                    (if kind (type_of df) \<noteq> KSlice then Inl ''reflect.MakeSlice of non-slice type''
                     else case fillStruct_elems (fname f) (slice_elem_type (type_of df)) es of
                       Inl m \<Rightarrow> Inl m
                     | Inr (_, Some e) \<Rightarrow> Inr (dst, Some e)
                     | Inr (xs, None) \<Rightarrow>
                         fillStruct_fields (set_path dst p (VSlice (slice_elem_type (type_of df)) xs)) fs vs)
                | _ \<Rightarrow>
                    (if assignable (type_of v) (type_of df)
                     then fillStruct_fields (set_path dst p (retype (type_of df) v)) fs vs
                     else if convertible (type_of v) (type_of df)
                     then fillStruct_fields (set_path dst p (convert (type_of df) v)) fs vs
                     else Inr (dst, Some (''cannot assign field '' @ fname f @ '': type mismatch ('' @
                            type_String (type_of v) @ '' vs '' @ type_String (type_of df) @ '')'')))))"
| "fillStruct_elems n et [] = Inr ([], None)"
| "fillStruct_elems n et (s # ss) =
     (case s of
        VStruct _ _ \<Rightarrow>
          (case fillStruct (zero et) s of
             Inl m \<Rightarrow> Inl m
           | Inr (_, Some e) \<Rightarrow> Inr ([], Some e)
           | Inr (x, None) \<Rightarrow> fillStruct_cons x (fillStruct_elems n et ss))
      | _ \<Rightarrow>
          (if assignable (type_of s) et then fillStruct_cons (retype et s) (fillStruct_elems n et ss)
           else if convertible (type_of s) et then fillStruct_cons (convert et s) (fillStruct_elems n et ss)
           else Inr ([], Some (''type mismatch in nested slice field '' @ n))))"

subsection \<open>toSnakeCase\<close>

definition is_upper :: "char \<Rightarrow> bool" where
  "is_upper c \<longleftrightarrow> 65 \<le> (of_char c :: nat) \<and> (of_char c :: nat) \<le> 90"

definition to_lower :: "char \<Rightarrow> char" where
  "to_lower c = (if is_upper c then char_of (of_char c + (32 :: nat)) else c)"

text \<open>\<open>for i, r := range str\<close> with \<open>i\<close> the byte index (ASCII: one byte per rune).\<close>
fun snake_from :: "nat \<Rightarrow> string \<Rightarrow> string" where
  "snake_from i [] = []"
| "snake_from i (r # rs) =
     (if is_upper r \<and> 0 < i then [CHR ''_'', to_lower r] else [to_lower r]) @ snake_from (Suc i) rs"

definition toSnakeCase :: "string \<Rightarrow> string" where
  "toSnakeCase str = snake_from 0 str"


subsection \<open>Auxiliary notions of the properties\<close>

text \<open>
  A struct type whose fields are distinct, exported, not embedded and not pointers: the
  shape of the plain records of the repository (\<open>orm.Language\<close>, generated
  parameter structs).
\<close>
definition flat_struct :: "gtype \<Rightarrow> bool" where
  "flat_struct t \<longleftrightarrow>
     (case t of
        TStruct p n fs \<Rightarrow> distinct (map fname fs) \<and>
          list_all (\<lambda>f. \<not> fanon f \<and> exported (fname f) \<and> kind (ftype f) \<noteq> KPtr) fs
      | _ \<Rightarrow> False)"

text \<open>
  The updates \<open>handleContentUpdate\<close> stores, in order: each update item whose copy
  into a fresh content succeeds, under the item's language.
\<close>
definition content_updates :: "gtype \<Rightarrow> gval list \<Rightarrow> (string \<times> gval) list" where
  "content_updates et us =
     [(getLanguageID u, fst (copyStruct (zero et) u)). u \<leftarrow> us, snd (copyStruct (zero et) u) = None]"

text \<open>A content with every \<open>time.Time\<close> of it, its language's included, at zero.\<close>
definition untimed_content :: "BlogContent \<Rightarrow> BlogContent" where
  "untimed_content c = c\<lparr>ContentModel.CreatedAt := 0, ContentModel.UpdatedAt := 0,
     Language := (Language c)\<lparr>Language.CreatedAt := 0, Language.UpdatedAt := 0\<rparr>\<rparr>"

declare copyField_def [go_eval] copyStruct_def [go_eval] getLanguageID_def [go_eval]
  mergeContents_def [go_eval] handleSliceUpdate_def [go_eval] content_update_map_def [go_eval]
  handleContentUpdate_def [go_eval] is_upper_def [go_eval] to_lower_def [go_eval]
  toSnakeCase_def [go_eval]


declare flat_struct_def [go_eval] content_updates_def [go_eval]

subsection \<open>Typing of the copy\<close>

lemma wt_deref_src: "wt (type_of s) s \<Longrightarrow> wt (type_of (deref_src s)) (deref_src s)"
proof (induction s rule: deref_src.induct)
  case (1 t v)
  then have "wt t v" by simp
  moreover from this have "type_of v = t" by (rule wt_type_of)
  ultimately show ?case using "1.IH" by simp
qed simp_all

lemma wt_ptr_target: "wt (TPtr t) d \<Longrightarrow> wt t (case d of VPtr _ (Some x) \<Rightarrow> x | _ \<Rightarrow> zero t)"
  by (auto simp: wt_ptr_iff split: option.splits)

lemma wt_copy_into: "wt t d \<Longrightarrow> wt (type_of s) s \<Longrightarrow> wt t (fst (copy_into t d s))"
proof (induction t d s rule: copy_into.induct)
  case (1 t dst src)
  let ?d = "case dst of VPtr _ (Some x) \<Rightarrow> x | _ \<Rightarrow> zero t"
  have "wt t ?d" using "1.prems"(1) by (rule wt_ptr_target)
  with "1.IH" [OF refl] "1.prems"(2) have "wt t (fst (copy_into t ?d src))" by blast
  then show ?case by (auto simp: Let_def split: prod.splits)
qed (auto simp del: retype.simps convert.simps intro: wt_retype_assignable wt_convert)

lemma wt_copyField:
  "wt (type_of d) d \<Longrightarrow> wt (type_of s) s \<Longrightarrow> wt (type_of d) (fst (copyField d s))"
  unfolding copyField_def by (rule wt_copy_into) (simp_all add: wt_deref_src)

lemma wt_fields_of: "wt (type_of s) s \<Longrightarrow> (f, v) \<in> set (fields_of s) \<Longrightarrow> wt (ftype f) v"
proof (cases s)
  case (VStruct t0 vs)
  assume w: "wt (type_of s) s" and fv: "(f, v) \<in> set (fields_of s)"
  with VStruct obtain p n fs where t0: "t0 = TStruct p n fs"
    by (cases t0) simp_all
  with w fv VStruct show ?thesis by auto
qed simp_all

lemma field_at_Nil_None: "field_at t p = Some f \<Longrightarrow> p \<noteq> []"
  by (cases p) simp_all

text \<open>One field step of the copy keeps the destination's type and typing.\<close>

lemma wt_copy_step:
  assumes d: "wt (type_of d) d" and p: "field_by_name (type_of d) n = Some p"
    and v: "wt (type_of v) v"
  shows "wt (type_of d) (set_path d p (fst (copyField (get_path d p) v)))"
    and "type_of (set_path d p (fst (copyField (get_path d p) v))) = type_of d"
proof -
  from field_by_name_field_at [OF p] obtain f where f: "field_at (type_of d) p = Some f" by blast
  have g: "wt (ftype f) (get_path d p)" using wt_get_path [OF d f] .
  then have ty: "type_of (get_path d p) = ftype f" by (rule wt_type_of)
  have "wt (ftype f) (fst (copyField (get_path d p) v))"
    using wt_copyField [of "get_path d p" v] g v unfolding ty by blast
  then show "wt (type_of d) (set_path d p (fst (copyField (get_path d p) v)))"
    by (rule wt_set_path [OF d f])
  show "type_of (set_path d p (fst (copyField (get_path d p) v))) = type_of d"
    using field_at_Nil_None [OF f] by (rule type_of_set_path)
qed

lemma wt_copy_fields:
  "wt (type_of d) d \<Longrightarrow> (\<forall>(f, v) \<in> set xs. wt (ftype f) v) \<Longrightarrow>
   wt (type_of d) (fst (copy_fields d xs)) \<and> type_of (fst (copy_fields d xs)) = type_of d"
proof (induction d xs rule: copy_fields.induct)
  case (1 dst)
  then show ?case by simp
next
  case (2 dst f v rest)
  have v: "wt (type_of v) v"
  proof -
    from "2.prems"(2) have w: "wt (ftype f) v" by simp
    then have "type_of v = ftype f" by (rule wt_type_of)
    with w show ?thesis by simp
  qed
  have rest: "\<forall>(f, v) \<in> set rest. wt (ftype f) v" using "2.prems"(2) by simp
  show ?case
  proof (cases "field_by_name (type_of dst) (fname f)")
    case None
    with "2.IH"(1) "2.prems"(1) rest show ?thesis by simp
  next
    case (Some p)
    note step = wt_copy_step [OF "2.prems"(1) Some v]
    show ?thesis
    proof (cases "can_set (type_of dst) p")
      case False
      with Some "2.IH"(3) "2.prems"(1) rest show ?thesis by simp
    next
      case True
      obtain x e where xe: "copyField (get_path dst p) v = (x, e)" by fastforce
      show ?thesis
      proof (cases e)
        case None
        with "2.IH"(2) [OF Some True xe [symmetric] refl refl] step xe rest Some True
        show ?thesis by simp
      next
        case (Some err)
        with step xe \<open>field_by_name (type_of dst) (fname f) = Some p\<close> True show ?thesis by simp
      qed
    qed
  qed
qed

text \<open>Copying a well-typed struct into a well-typed struct (\<open>copyStruct\<close>, with
  \<open>copyField\<close> on every field found by name) leaves the destination well typed and of
  its type, also when the copy stops with an error.\<close>

lemma copyStruct_preserves_wt:
  "wt (type_of d) d \<Longrightarrow> wt (type_of s) s \<Longrightarrow>
   wt (type_of d) (fst (copyStruct d s)) \<and> type_of (fst (copyStruct d s)) = type_of d"
  unfolding copyStruct_def using wt_copy_fields [of d "fields_of s"] wt_fields_of [of s]
  by auto

lemma copyStruct_preserves_wt_witness:
  "wt (type_of (zero BlogContent_t)) (zero BlogContent_t) \<and>
   wt (type_of (VStruct (TStruct [] [] [GField ''LanguageID'' TString [] False]) [VString ''en'']))
      (VStruct (TStruct [] [] [GField ''LanguageID'' TString [] False]) [VString ''en'']) \<and>
   wt BlogContent_t (fst (copyStruct (zero BlogContent_t)
      (VStruct (TStruct [] [] [GField ''LanguageID'' TString [] False]) [VString ''en''])))"
  using copyStruct_preserves_wt [of "zero BlogContent_t"
      "VStruct (TStruct [] [] [GField ''LanguageID'' TString [] False]) [VString ''en'']"]
  by simp

subsection \<open>Round trip\<close>

lemma retype_wt_id: "wt t v \<Longrightarrow> retype t v = v"
proof (induction v arbitrary: t)
  case (VStruct t0 vs)
  from VStruct.prems obtain p n fs where t: "t = TStruct p n fs" and t0: "t0 = t"
    and len: "length vs = length fs" and all: "\<forall>i < length fs. wt (ftype (fs ! i)) (vs ! i)"
    by (cases t) (auto simp: wt_struct_iff)
  have "map (\<lambda>(f, v). retype (ftype f) v) (zip fs vs) = vs"
  proof (rule nth_equalityI)
    fix i assume "i < length (map (\<lambda>(f, v). retype (ftype f) v) (zip fs vs))"
    with len have i: "i < length fs" by simp
    with len VStruct.IH [of "vs ! i" "ftype (fs ! i)"] all
    show "map (\<lambda>(f, v). retype (ftype f) v) (zip fs vs) ! i = vs ! i" by simp
  qed (simp add: len)
  with t t0 show ?case by simp
next
  case (VSlice t0 vs)
  then show ?case by (cases t) (auto intro: map_idI)
next
  case (VPtr t0 vo)
  then show ?case by (cases t; cases vo) auto
qed (cases t; simp)+

lemma copy_into_nonptr:
  "kind t \<noteq> KPtr \<Longrightarrow> copy_into t d s =
     (if assignable (type_of s) t then (retype t s, None)
      else if convertible (type_of s) t then (convert t s, None)
      else (d, Some (TypeMismatch (type_of s) t)))"
  by (cases t) simp_all

lemma deref_src_nonptr: "kind (type_of v) \<noteq> KPtr \<Longrightarrow> deref_src v = v"
  by (cases v) simp_all

lemma copyField_same_type:
  "wt t v \<Longrightarrow> type_of d = t \<Longrightarrow> kind t \<noteq> KPtr \<Longrightarrow> copyField d v = (v, None)"
  using wt_type_of [of t v]
  by (simp add: copyField_def deref_src_nonptr copy_into_nonptr assignable_def retype_wt_id)

lemma fpaths_absent:
  "n \<notin> fname ` set fs \<Longrightarrow> \<forall>f \<in> set fs. \<not> fanon f \<Longrightarrow> fpaths n fs i = []"
  by (induction fs arbitrary: i) auto

lemma fpaths_flat:
  "distinct (map fname fs) \<Longrightarrow> \<forall>f \<in> set fs. \<not> fanon f \<Longrightarrow> j < length fs \<Longrightarrow>
   fpaths (fname (fs ! j)) fs i = [[i + j]]"
proof (induction fs arbitrary: i j)
  case Nil
  then show ?case by simp
next
  case (Cons f fs)
  show ?case
  proof (cases j)
    case 0
    with Cons.prems show ?thesis by (simp add: fpaths_absent)
  next
    case (Suc j')
    with Cons.prems have "fs ! j' \<in> set fs" by simp
    moreover from Cons.prems(1) have "fname f \<notin> fname ` set fs" by simp
    ultimately have "fname (fs ! j') \<noteq> fname f"
      by (metis image_eqI)
    with Cons.IH [where i="Suc i" and j=j'] Cons.prems Suc show ?thesis by simp
  qed
qed

lemma field_by_name_flat:
  assumes "flat_struct (TStruct p m fs)" and "j < length fs"
  shows "field_by_name (TStruct p m fs) (fname (fs ! j)) = Some [j]"
proof -
  from assms(1) have d: "distinct (map fname fs)" and na: "\<forall>f \<in> set fs. \<not> fanon f"
    and ex: "exported (fname (fs ! j))"
    using assms(2) by (auto simp: flat_struct_def list_all_iff)
  from ex have "fname (fs ! j) \<noteq> []" by (auto simp: exported_def)
  with fpaths_flat [OF d na assms(2), of 0] show ?thesis
    by (simp add: field_by_name_def)
qed

lemma copy_fields_flat:
  assumes t: "t = TStruct p m fs" and flat: "flat_struct t"
    and len: "length vs = length fs" and wts: "\<forall>j < length fs. wt (ftype (fs ! j)) (vs ! j)"
  shows "length ws = length fs \<Longrightarrow> \<forall>j < length fs. type_of (ws ! j) = ftype (fs ! j) \<Longrightarrow>
    k \<le> length fs \<Longrightarrow>
    copy_fields (VStruct t ws) (drop k (zip fs vs)) = (VStruct t (take k ws @ drop k vs), None)"
proof (induction "length fs - k" arbitrary: k ws)
  case 0
  then have "k = length fs" by simp
  with "0.prems" len show ?case by simp
next
  case (Suc n)
  then have k: "k < length fs" by simp
  have dr: "drop k (zip fs vs) = (fs ! k, vs ! k) # drop (Suc k) (zip fs vs)"
    using Cons_nth_drop_Suc [of k "zip fs vs"] k len by simp
  have fbn: "field_by_name t (fname (fs ! k)) = Some [k]"
    using field_by_name_flat [of p m fs k] flat t k by simp
  have ex: "exported (fname (fs ! k))" and np: "kind (ftype (fs ! k)) \<noteq> KPtr"
    using flat t k by (auto simp: flat_struct_def list_all_iff)
  have cs: "can_set t [k]" using ex k t by (simp add: can_set_def)
  have wk: "wt (ftype (fs ! k)) (vs ! k)" using wts k by simp
  have cf: "copyField (ws ! k) (vs ! k) = (vs ! k, None)"
    using copyField_same_type [OF wk _ np] Suc.prems(2) k by simp
  let ?ws = "ws[k := vs ! k]"
  have ty': "\<forall>j < length fs. type_of (?ws ! j) = ftype (fs ! j)"
    using Suc.prems(1,2) k wt_type_of [OF wk] by (auto simp: nth_list_update)
  have ih: "copy_fields (VStruct t ?ws) (drop (Suc k) (zip fs vs)) =
      (VStruct t (take (Suc k) ?ws @ drop (Suc k) vs), None)"
    using Suc.hyps(1) [of "Suc k" ?ws] Suc.hyps(2) Suc.prems(1) ty' k by simp
  have "take (Suc k) ?ws @ drop (Suc k) vs = take k ws @ drop k vs"
    using k Suc.prems(1) len by (simp add: take_Suc_conv_app_nth Cons_nth_drop_Suc)
  moreover have "copy_fields (VStruct t ws) (drop k (zip fs vs)) =
      copy_fields (VStruct t ?ws) (drop (Suc k) (zip fs vs))"
    using dr fbn cs cf k Suc.prems(1) by simp
  ultimately show ?case using ih by simp
qed

text \<open>C6. Copying between two structs of the same plain struct type reproduces the
  source exactly and reports no error, whatever the destination held.\<close>

lemma copyStruct_flat_roundtrip:
  assumes "flat_struct t" and "wt t d" and "wt t v"
  shows "copyStruct d v = (v, None)"
proof -
  from assms(1) obtain p m fs where t: "t = TStruct p m fs"
    by (cases t) (simp_all add: flat_struct_def)
  from assms(3) t obtain vs where v: "v = VStruct t vs" and len: "length vs = length fs"
    and wts: "\<forall>j < length fs. wt (ftype (fs ! j)) (vs ! j)"
    by (auto simp: wt_struct_iff)
  from assms(2) t obtain ws where d: "d = VStruct t ws" and lw: "length ws = length fs"
    and wws: "\<forall>j < length fs. wt (ftype (fs ! j)) (ws ! j)"
    by (auto simp: wt_struct_iff)
  have "\<forall>j < length fs. type_of (ws ! j) = ftype (fs ! j)"
    using wws wt_type_of by blast
  from copy_fields_flat [OF t assms(1) len wts lw this, of 0]
  show ?thesis using d v t by (simp add: copyStruct_def)
qed

lemma copyStruct_roundtrip_witness:
  "flat_struct Language_t \<and> wt Language_t (zero Language_t) \<and>
   wt Language_t (Language_val (Language.make ''ar'' ''Arabic'' 5 7)) \<and>
   copyStruct (zero Language_t) (Language_val (Language.make ''ar'' ''Arabic'' 5 7)) =
     (Language_val (Language.make ''ar'' ''Arabic'' 5 7), None)"
proof -
  have f: "flat_struct Language_t"
    by (simp add: flat_struct_def Language_t_def time_Time_def exported_def)
  show ?thesis
    using copyStruct_flat_roundtrip [OF f, of "zero Language_t" "Language_val (Language.make ''ar'' ''Arabic'' 5 7)"] f
    by simp
qed

subsection \<open>Errors\<close>

lemma copy_fields_append:
  "copy_fields d (xs @ ys) =
     (case copy_fields d xs of (d', None) \<Rightarrow> copy_fields d' ys | (d', Some e) \<Rightarrow> (d', Some e))"
  by (induction d xs rule: copy_fields.induct)
     (auto simp: Let_def split: option.splits prod.splits)

text \<open>C9. The field loop of \<open>copyStruct\<close> returns at the first failing field: the fields
  after it are not looked at.\<close>

lemma copy_fields_error_stops:
  "snd (copy_fields d xs) \<noteq> None \<Longrightarrow> copy_fields d (xs @ ys) = copy_fields d xs"
  by (auto simp: copy_fields_append split: prod.splits option.splits)

lemma copy_fields_error_stops_witness:
  "snd (copy_fields (VStruct (TStruct ''main'' ''D'' [GField ''B'' TInt [] False]) [VInt 0])
      [(GField ''B'' TBool [] False, VBool True)]) \<noteq> None \<and>
   copy_fields (VStruct (TStruct ''main'' ''D'' [GField ''B'' TInt [] False]) [VInt 0])
      [(GField ''B'' TBool [] False, VBool True), (GField ''B'' TInt [] False, VInt 5)] =
   (VStruct (TStruct ''main'' ''D'' [GField ''B'' TInt [] False]) [VInt 0],
    Some (FieldErr ''B'' (TypeMismatch TBool TInt)))"
proof -
  have e: "copy_fields (VStruct (TStruct ''main'' ''D'' [GField ''B'' TInt [] False]) [VInt 0])
      [(GField ''B'' TBool [] False, VBool True)] =
     (VStruct (TStruct ''main'' ''D'' [GField ''B'' TInt [] False]) [VInt 0],
      Some (FieldErr ''B'' (TypeMismatch TBool TInt)))"
    by (simp add: go_eval)
  show ?thesis
    using copy_fields_error_stops [of "VStruct (TStruct ''main'' ''D'' [GField ''B'' TInt [] False]) [VInt 0]"
        "[(GField ''B'' TBool [] False, VBool True)]" "[(GField ''B'' TInt [] False, VInt 5)]"] e
    by simp
qed

text \<open>C8. A nil source pointer is not skipped: \<open>copyField\<close> allocates the destination
  pointer and then fails with a type mismatch between the pointer type and its target.\<close>

lemma copyField_nil_source:
  "kind t \<noteq> KPtr \<Longrightarrow>
   copyField (VPtr t None) (VPtr t None) = (VPtr t (Some (zero t)), Some (TypeMismatch (TPtr t) t))"
  by (cases t) (simp_all add: copyField_def assignable_def convertible_def is_integer_def)

lemma copyField_nil_source_witness:
  "kind TString \<noteq> KPtr \<and>
   copyField (VPtr TString None) (VPtr TString None) =
     (VPtr TString (Some (VString [])), Some (TypeMismatch (TPtr TString) TString))"
  using copyField_nil_source [of TString] by simp

text \<open>On a type mismatch \<open>copyStruct\<close> keeps the fields it has already written:
  field A is overwritten, the failing field B and the later field C keep their values.\<close>

lemma copyStruct_partial_write:
  "copyStruct
     (VStruct (TStruct ''main'' ''D'' [GField ''A'' TString [] False, GField ''B'' TInt [] False,
        GField ''C'' TString [] False]) [VString ''a0'', VInt 0, VString ''c0''])
     (VStruct (TStruct ''main'' ''S'' [GField ''A'' TString [] False, GField ''B'' TBool [] False,
        GField ''C'' TString [] False]) [VString ''a1'', VBool True, VString ''c1'']) =
   (VStruct (TStruct ''main'' ''D'' [GField ''A'' TString [] False, GField ''B'' TInt [] False,
        GField ''C'' TString [] False]) [VString ''a1'', VInt 0, VString ''c0''],
    Some (FieldErr ''B'' (TypeMismatch TBool TInt)))"
  by (simp add: go_eval)

text \<open>C10. An integer copied into a string field is converted as a rune
  (\<open>string(rune(i))\<close>), not by its decimal digits.\<close>

lemma copyField_int_to_string:
  "copyField (VString s) (VInt w) = (VString (rune_string (sint w)), None)"
  by (simp add: copyField_def assignable_def convertible_def is_integer_def)

lemma copyField_int_to_string_witness: "copyField (VString []) (VInt 65) = (VString ''A'', None)"
  unfolding copyField_int_to_string by (simp add: go_eval, code_simp)

subsection \<open>Content update\<close>

lemma update_contents_fold:
  "update_contents et m us = fold (\<lambda>(k, v) acc. go_map_put k v acc) (content_updates et us) m"
  by (induction et m us rule: update_contents.induct)
     (auto simp: content_updates_def Let_def split: prod.splits)

lemma map_of_fold_put:
  "map_of (fold (\<lambda>(k, v) acc. go_map_put k v acc) xs m) = map_of m ++ map_of (rev xs)"
  by (induction xs arbitrary: m)
     (auto simp: map_of_go_map_put map_add_def fun_eq_iff split: option.splits)

text \<open>C7. The map \<open>handleContentUpdate\<close> builds holds the existing contents by
  language, overridden by every update item that copies without error, the last one
  for a language winning.\<close>

lemma content_update_map_refines:
  "map_of (content_update_map mf pv) =
     keyed getLanguageID (slice_elems mf) ++
     map_of (rev (content_updates (slice_elem_type (type_of mf)) (slice_elems pv)))"
  by (simp add: content_update_map_def update_contents_fold map_of_fold_put map_of_go_map_fill)

text \<open>An update item whose copy fails is dropped silently: the contents stay as they
  were and no error is reported.\<close>

lemma handleContentUpdate_drops_failed_item:
  "handleContentUpdate [0]
     (VSlice BlogContent_t [BlogContent_val (BlogContent.make ''en'' (Language.make ''en'' ''English'' 0 0) 1 1 ''hello'' 3)])
     (VSlice (TStruct [] [] [GField ''LanguageID'' TString [] False, GField ''Content'' TBool [] False])
        [VStruct (TStruct [] [] [GField ''LanguageID'' TString [] False, GField ''Content'' TBool [] False])
           [VString ''ar'', VBool True]]) =
   (VSlice BlogContent_t [BlogContent_val (BlogContent.make ''en'' (Language.make ''en'' ''English'' 0 0) 1 1 ''hello'' 3)], None)"
  by (simp add: go_eval BlogContent.make_def Language.make_def)

subsection \<open>toSnakeCase\<close>

lemma of_char_to_lower:
  "(of_char (to_lower c) :: nat) = (if is_upper c then of_char c + 32 else of_char c)"
  by (auto simp: to_lower_def is_upper_def)

lemma to_lower_not_upper: "\<not> is_upper (to_lower c)"
  by (simp add: is_upper_def of_char_to_lower)

lemma to_lower_underscore: "c \<noteq> CHR ''_'' \<Longrightarrow> to_lower c \<noteq> CHR ''_''"
proof
  assume c: "c \<noteq> CHR ''_''" and l: "to_lower c = CHR ''_''"
  show False
  proof (cases "is_upper c")
    case True
    then have "(97::nat) \<le> of_char (to_lower c)" by (simp add: of_char_to_lower is_upper_def)
    with l show False by simp
  next
    case False
    then show False using c l by (simp add: to_lower_def)
  qed
qed

lemma underscore_not_upper: "\<not> is_upper CHR ''_''"
  by (simp add: is_upper_def)

lemma snake_from_no_upper: "filter is_upper (snake_from i s) = []"
  by (induction i s rule: snake_from.induct) (simp_all add: to_lower_not_upper underscore_not_upper)

lemma snake_from_strip:
  "CHR ''_'' \<notin> set s \<Longrightarrow> filter (\<lambda>c. c \<noteq> CHR ''_'') (snake_from i s) = map to_lower s"
  by (induction i s rule: snake_from.induct) (auto simp: to_lower_underscore)

lemma snake_from_length:
  "length (snake_from (Suc i) s) = length s + length (filter is_upper s)"
  by (induction "Suc i" s arbitrary: i rule: snake_from.induct) auto

text \<open>\<open>toSnakeCase\<close> leaves no upper-case ASCII letter.\<close>

lemma toSnakeCase_no_upper: "filter is_upper (toSnakeCase s) = []"
  by (simp add: toSnakeCase_def snake_from_no_upper)

text \<open>Removing the underscores from \<open>toSnakeCase s\<close> gives \<open>s\<close> in lower case,
  for a name without underscores.\<close>

lemma toSnakeCase_strip:
  "CHR ''_'' \<notin> set s \<Longrightarrow> filter (\<lambda>c. c \<noteq> CHR ''_'') (toSnakeCase s) = map to_lower s"
  by (simp add: toSnakeCase_def snake_from_strip)

lemma toSnakeCase_strip_witness:
  "CHR ''_'' \<notin> set ''IsPublished'' \<and>
   filter (\<lambda>c. c \<noteq> CHR ''_'') (toSnakeCase ''IsPublished'') = map to_lower ''IsPublished''"
  using toSnakeCase_strip [of "''IsPublished''"] by simp

text \<open>\<open>toSnakeCase\<close> inserts one underscore before each upper-case letter but
  the first character, so every letter of an acronym is split off.\<close>

lemma toSnakeCase_length:
  "length (toSnakeCase s) = length s + length (filter is_upper (drop 1 s))"
  by (cases s) (simp_all add: toSnakeCase_def snake_from_length)

subsection \<open>The two content updates agree\<close>

lemma new_contents_all_copied:
  "list_all (\<lambda>u. elem_of u = Some u \<and> snd (copyStruct (zero et) u) = None) us \<Longrightarrow>
   new_contents et i us = Inr (map (\<lambda>u. fst (copyStruct (zero et) u)) us)"
proof (induction us arbitrary: i)
  case (Cons u us)
  then show ?case by (cases "copyStruct (zero et) u") simp
qed simp

lemma update_contents_all_copied:
  "list_all (\<lambda>u. snd (copyStruct (zero et) u) = None \<and>
                 getLanguageID (fst (copyStruct (zero et) u)) = getLanguageID u) us \<Longrightarrow>
   update_contents et m us = go_map_fill getLanguageID (map (\<lambda>u. fst (copyStruct (zero et) u)) us) m"
proof (induction us arbitrary: m)
  case (Cons u us)
  then show ?case by (cases "copyStruct (zero et) u") simp
qed simp

text \<open>C5 (equivalence).  The unused \<open>handleSliceUpdate\<close> and the \<open>handleContentUpdate\<close>
  the engine calls give the same slice when every update item is a struct (not a
  pointer), copies into a fresh content without error and keeps its language in the
  copy: they differ only in how they treat pointers, failed copies and the key.\<close>

lemma handleSliceUpdate_eq_handleContentUpdate:
  assumes "list_all (\<lambda>u. elem_of u = Some u \<and>
              snd (copyStruct (zero (slice_elem_type (type_of mf))) u) = None \<and>
              getLanguageID (fst (copyStruct (zero (slice_elem_type (type_of mf))) u)) = getLanguageID u) us"
  shows "handleSliceUpdate ord mf (VSlice t us) = handleContentUpdate ord mf (VSlice t us)"
proof -
  let ?et = "slice_elem_type (type_of mf)"
  have n: "new_contents ?et 0 us = Inr (map (\<lambda>u. fst (copyStruct (zero ?et) u)) us)"
    using assms by (intro new_contents_all_copied) (simp add: list_all_iff)
  have "update_contents ?et m us = go_map_fill getLanguageID (map (\<lambda>u. fst (copyStruct (zero ?et) u)) us) m" for m
    using assms by (intro update_contents_all_copied) (simp add: list_all_iff)
  with n show ?thesis
    by (simp add: handleSliceUpdate_def handleContentUpdate_def mergeContents_def content_update_map_def)
qed

lemma handleSliceUpdate_eq_handleContentUpdate_witness:
  "list_all (\<lambda>u. elem_of u = Some u \<and>
      snd (copyStruct (zero (slice_elem_type (type_of (VSlice BlogContent_t [])))) u) = None \<and>
      getLanguageID (fst (copyStruct (zero (slice_elem_type (type_of (VSlice BlogContent_t [])))) u)) = getLanguageID u)
     [BlogContent_val (BlogContent.make ''ar'' (Language.make ''ar'' ''Arabic'' 0 0) 1 1 ''marhaba'' 3)] \<and>
   handleSliceUpdate [0] (VSlice BlogContent_t [])
     (VSlice BlogContent_t [BlogContent_val (BlogContent.make ''ar'' (Language.make ''ar'' ''Arabic'' 0 0) 1 1 ''marhaba'' 3)]) =
   handleContentUpdate [0] (VSlice BlogContent_t [])
     (VSlice BlogContent_t [BlogContent_val (BlogContent.make ''ar'' (Language.make ''ar'' ''Arabic'' 0 0) 1 1 ''marhaba'' 3)])"
  using handleSliceUpdate_eq_handleContentUpdate
    [of "VSlice BlogContent_t []" "[BlogContent_val (BlogContent.make ''ar'' (Language.make ''ar'' ''Arabic'' 0 0) 1 1 ''marhaba'' 3)]"]
  by (simp add: go_eval BlogContent.make_def Language.make_def)

subsection \<open>fillStruct on the blog records\<close>

lemma fill_BlogContents:
  "fillStruct_elems ''Contents'' BlogContent_t (map BlogContent_val cs) =
     Inr (map (BlogContent_val \<circ> untimed_content) cs, None)"
  by (induction cs) (simp_all add: go_eval Let_def fillStruct_cons_def untimed_content_def)

text \<open>C16.  \<open>fillStruct\<close> of a \<open>Blog\<close> into a zero \<open>Blog\<close> succeeds but loses every
  timestamp: \<open>time.Time\<close> is a struct, so it is filled field by field, and its fields
  are unexported, so none of them can be set.  The blog's, its contents' and their
  languages' \<open>CreatedAt\<close> and \<open>UpdatedAt\<close> come out zero; everything else is copied.\<close>

lemma fillStruct_Blog_drops_times:
  "fillStruct (zero Blog_t) (Blog_val b) =
   Inr (Blog_val (b\<lparr>Model.CreatedAt := 0, Model.UpdatedAt := 0,
      Contents := map untimed_content (Contents b)\<rparr>), None)"
  by (simp add: go_eval fill_BlogContents Let_def del: BlogContent_t_def BlogContent_val_def)

end
