(* ===== verification/Extract.thy ===== *)
theory Extract
  imports Copier
begin

text \<open>
  \<open>orm.ExtractContent\<close> (src/orm/model.go): the generic conversion of a slice of
  loosely typed structs into a slice of a content model \<open>CM\<close>.  Each input item is
  copied field by field, by name, into a fresh zero \<open>CM\<close> with \<open>Value.Set\<close>, which
  panics when the value is not assignable; the code has no error return, so \<open>Inl\<close>
  is a panic.  The content type \<open>CM\<close> is the explicit argument \<open>contentType\<close>.  The
  theory shows that, on inputs whose fields already have the target's types,
  \<open>ExtractContent\<close> computes what \<open>copyStruct\<close> of the service package computes.
\<close>

text \<open>The inner loop over the fields of one input item, writing into \<open>newContent\<close>.\<close>
fun extract_item :: "gval \<Rightarrow> (gfield \<times> gval) list \<Rightarrow> string + gval" where
  "extract_item nc [] = Inr nc"
| "extract_item nc ((f, x) # rest) =
     (case field_by_name (type_of nc) (fname f) of
        None \<Rightarrow> extract_item nc rest
      | Some p \<Rightarrow>
          if can_set (type_of nc) p then
            (let t = type_of (get_path nc p)
             in if assignable (type_of x) t then extract_item (set_path nc p (retype t x)) rest
                else Inl (''reflect.Set: value of type '' @ type_String (type_of x) @
                          '' is not assignable to type '' @ type_String t))
          else extract_item nc rest)"

text \<open>The outer loop over the input items; \<open>NumField\<close> panics on an item that is not a struct.\<close>
fun extract_items :: "gtype \<Rightarrow> gval list \<Rightarrow> string + gval list" where
  "extract_items ct [] = Inr []"
| "extract_items ct (it # its) =
     (if kind (type_of it) \<noteq> KStruct
      then Inl ''reflect: call of reflect.Value.NumField on non-struct Value''
      else sbind (extract_item (zero ct) (fields_of it))
             (\<lambda>c. map_sum id (Cons c) (extract_items ct its)))"

definition ExtractContent :: "gtype \<Rightarrow> gval \<Rightarrow> string + gval list" where
  "ExtractContent contentType inputContents =
     (case inputContents of
        VSlice _ items \<Rightarrow> extract_items contentType items
      | _ \<Rightarrow> Inl ''inputContents must be a slice'')"

text \<open>
  An input field that \<open>Set\<close> accepts without conversion: either the target has no
  settable field of that name, or the target field has exactly the input's type and
  is not a pointer (\<open>copyField\<close> would dereference a pointer).
\<close>
definition extract_compat :: "gtype \<Rightarrow> gfield \<times> gval \<Rightarrow> bool" where
  "extract_compat ct fx =
     (case field_by_name ct (fname (fst fx)) of
        None \<Rightarrow> True
      | Some p \<Rightarrow>
          if can_set ct p then
            (case field_at ct p of
               Some g \<Rightarrow> type_of (snd fx) = ftype g \<and> kind (ftype g) \<noteq> KPtr
             | None \<Rightarrow> True)
          else True)"

text \<open>A struct type of the example: a language as a client might send it.\<close>
definition LanguageInput_t :: gtype where
  "LanguageInput_t = TStruct ''main'' ''LanguageInput''
     [GField ''ID'' TString [] False, GField ''Title'' TString [] False]"

declare ExtractContent_def [go_eval] LanguageInput_t_def [go_eval]

subsection \<open>Agreement with copyStruct\<close>

lemma extract_step_same:
  assumes d: "wt (type_of d) d" and p: "field_by_name (type_of d) n = Some p"
    and c: "case field_at (type_of d) p of
              Some g \<Rightarrow> type_of x = ftype g \<and> kind (ftype g) \<noteq> KPtr | None \<Rightarrow> True"
    and x: "wt (type_of x) x"
  shows "copyField (get_path d p) x = (x, None)"
    and "assignable (type_of x) (type_of (get_path d p))"
    and "retype (type_of (get_path d p)) x = x"
    and "wt (type_of d) (set_path d p x)" and "type_of (set_path d p x) = type_of d"
proof -
  from field_by_name_field_at [OF p] obtain g where g: "field_at (type_of d) p = Some g" by blast
  have gt: "type_of (get_path d p) = ftype g" using wt_get_path [OF d g] by (rule wt_type_of)
  from c g have tx: "type_of x = ftype g" and k: "kind (ftype g) \<noteq> KPtr" by simp_all
  show "copyField (get_path d p) x = (x, None)"
    using copyField_same_type [of "ftype g" x "get_path d p"] x tx gt k by simp
  show "assignable (type_of x) (type_of (get_path d p))" using tx gt by (simp add: assignable_def)
  show "retype (type_of (get_path d p)) x = x" using retype_wt_id x tx gt by simp
  show "wt (type_of d) (set_path d p x)" using wt_set_path [OF d g] x tx by simp
  show "type_of (set_path d p x) = type_of d" using field_at_Nil_None [OF g] by (rule type_of_set_path)
qed

lemma extract_item_copy_fields:
  "wt (type_of d) d \<Longrightarrow> list_all (extract_compat (type_of d)) xs \<Longrightarrow>
   list_all (\<lambda>(f, x). wt (ftype f) x) xs \<Longrightarrow>
   extract_item d xs = Inr (fst (copy_fields d xs)) \<and> snd (copy_fields d xs) = None"
proof (induction d xs rule: copy_fields.induct)
  case (2 dst f v rest)
  have v: "wt (type_of v) v" using "2.prems"(3) wt_type_of [of "ftype f" v] by simp
  show ?case
  proof (cases "field_by_name (type_of dst) (fname f)")
    case None
    with "2.IH"(1) "2.prems" show ?thesis by simp
  next
    case (Some p)
    show ?thesis
    proof (cases "can_set (type_of dst) p")
      case False
      with Some "2.IH"(3) "2.prems" show ?thesis by simp
    next
      case True
      with Some "2.prems"(2) have c: "case field_at (type_of dst) p of
          Some g \<Rightarrow> type_of v = ftype g \<and> kind (ftype g) \<noteq> KPtr | None \<Rightarrow> True"
        by (auto simp: extract_compat_def split: option.splits)
      note st = extract_step_same [OF "2.prems"(1) Some c v]
      from "2.IH"(2) [OF Some True st(1) [symmetric] refl refl] st(4,5) "2.prems"(2,3)
      show ?thesis using Some True st(1-3) by simp
    qed
  qed
qed simp

text \<open>C20 (equivalence).  On a slice of well-typed structs whose fields have the types
  of the target's settable fields of the same name (and are not pointers),
  \<open>ExtractContent\<close> does not panic and returns, item by item, the content
  \<open>copyStruct\<close> builds from a zero content, and every such \<open>copyStruct\<close> succeeds.\<close>

lemma ExtractContent_eq_copyStruct:
  assumes "kind ct = KStruct"
    and "list_all (\<lambda>it. kind (type_of it) = KStruct \<and> wt (type_of it) it \<and>
                        list_all (extract_compat ct) (fields_of it)) items"
  shows "ExtractContent ct (VSlice et items) = Inr (map (\<lambda>it. fst (copyStruct (zero ct) it)) items) \<and>
         list_all (\<lambda>it. snd (copyStruct (zero ct) it) = None) items"
  using assms(2)
proof (induction items)
  case (Cons it its)
  have w: "list_all (\<lambda>(f, x). wt (ftype f) x) (fields_of it)"
    using Cons.prems wt_fields_of [of it] by (auto simp: list_all_iff)
  have "extract_item (zero ct) (fields_of it) = Inr (fst (copy_fields (zero ct) (fields_of it))) \<and>
        snd (copy_fields (zero ct) (fields_of it)) = None"
    using extract_item_copy_fields [of "zero ct" "fields_of it"] Cons.prems w by simp
  with Cons show ?case using assms(1) by (simp add: ExtractContent_def copyStruct_def)
qed (simp add: ExtractContent_def)

lemma ExtractContent_eq_copyStruct_witness:
  "kind Language_t = KStruct \<and>
   list_all (\<lambda>it. kind (type_of it) = KStruct \<and> wt (type_of it) it \<and>
                   list_all (extract_compat Language_t) (fields_of it))
     [VStruct LanguageInput_t [VString ''en'', VString ''English'']] \<and>
   ExtractContent Language_t (VSlice LanguageInput_t [VStruct LanguageInput_t [VString ''en'', VString ''English'']]) =
     Inr (map (\<lambda>it. fst (copyStruct (zero Language_t) it)) [VStruct LanguageInput_t [VString ''en'', VString ''English'']]) \<and>
   list_all (\<lambda>it. snd (copyStruct (zero Language_t) it) = None) [VStruct LanguageInput_t [VString ''en'', VString ''English'']]"
  using ExtractContent_eq_copyStruct
    [of Language_t "[VStruct LanguageInput_t [VString ''en'', VString ''English'']]" LanguageInput_t]
  by (simp add: go_eval extract_compat_def)

subsection \<open>Where the two differ\<close>

text \<open>Where \<open>copyStruct\<close> reports a type mismatch, \<open>ExtractContent\<close> panics in \<open>Set\<close>.\<close>

lemma ExtractContent_mismatch_panics:
  "ExtractContent Language_t
     (VSlice LanguageInput_t [VStruct (TStruct ''main'' ''X'' [GField ''Title'' TBool [] False]) [VBool True]]) =
   Inl ''reflect.Set: value of type bool is not assignable to type string'' \<and>
   copyStruct (zero Language_t) (VStruct (TStruct ''main'' ''X'' [GField ''Title'' TBool [] False]) [VBool True]) =
   (zero Language_t, Some (FieldErr ''Title'' (TypeMismatch TBool TString)))"
  by (simp add: go_eval Let_def)

text \<open>Where \<open>copyStruct\<close> converts (an integer into a string field), \<open>ExtractContent\<close> panics.\<close>

lemma ExtractContent_no_conversion:
  "ExtractContent Language_t
     (VSlice LanguageInput_t [VStruct (TStruct ''main'' ''X'' [GField ''Title'' TInt [] False]) [VInt 65]]) =
   Inl ''reflect.Set: value of type int is not assignable to type string''"
  by (simp add: go_eval Let_def)

lemma ExtractContent_not_slice:
  "ExtractContent ct (VStruct t vs) = Inl ''inputContents must be a slice''"
  by (simp add: ExtractContent_def)

end
