(* ===== verification/Engine.thy ===== *)
theory Engine
  imports Copier
begin

text \<open>
  The generic engine of package \<open>service\<close> (src/unnamed/part_001): for a model type
  \<open>T\<close> it derives the create, update and filter parameter struct types with
  \<open>reflect.StructOf\<close>, and fills or updates a model value from a parameter value
  with the copier of theory Copier.  The type parameter \<open>T\<close> is the argument
  \<open>t\<close>; \<open>reflect.New(p).Interface()\<close> of a generated type \<open>p\<close> is the pointer value
  \<open>VPtr p (Some (zero p))\<close>; \<open>*T\<close> results are the model value itself.  The shared
  \<open>addedFields\<close> map, passed by reference through the helpers, is threaded as a set.
  Panics of the reflect calls (\<open>NumField\<close> of a non-struct, \<open>StructOf\<close> of a
  duplicate or unexported field, \<open>MakeSlice\<close> of a non-slice type) are the value
  \<open>Panic\<close>.  The unused \<open>UpdateModelFromUpdateParameters1\<close> is modelled as well.
\<close>

datatype fault = Err cerr | Panic string

subsection \<open>Field helpers\<close>

text \<open>\<open>strings.Contains\<close> and \<open>strings.HasSuffix\<close>.\<close>
definition str_contains :: "string \<Rightarrow> string \<Rightarrow> bool" where
  "str_contains s sub \<longleftrightarrow> list_ex (\<lambda>i. take (length sub) (drop i s) = sub) [0..<Suc (length s)]"

definition has_suffix :: "string \<Rightarrow> string \<Rightarrow> bool" where
  "has_suffix s suf \<longleftrightarrow> length suf \<le> length s \<and> drop (length s - length suf) s = suf"

definition baseTypes :: "string list" where
  "baseTypes = [''Model'', ''ContentModel'']"

definition isBaseField :: "gfield \<Rightarrow> bool" where
  "isBaseField f \<longleftrightarrow> list_ex (\<lambda>base. str_contains (fname f) base \<or> type_Name (ftype f) = base) baseTypes"

text \<open>The tag \<open>json:"..." validate:"..."\<close> of a generated create or update field.\<close>
definition param_tag :: "gfield \<Rightarrow> (string \<times> string) list" where
  "param_tag f =
     (let jsonTag = (case tag_lookup (ftag f) ''json'' of Some j \<Rightarrow> j | None \<Rightarrow> fname f)
      in case tag_lookup (ftag f) ''validate'' of
           Some v \<Rightarrow> [(''json'', jsonTag), (''validate'', v)]
         | None \<Rightarrow> [(''json'', jsonTag)])"

text \<open>\<open>Type.NumField\<close> and \<open>Type.Field(i)\<close>: the fields of a struct type.\<close>
definition struct_fields :: "gtype \<Rightarrow> fault + gfield list" where
  "struct_fields t = (case t of TStruct _ _ fs \<Rightarrow> Inr fs | _ \<Rightarrow> Inl (Panic ''reflect: NumField of non-struct type''))"

text \<open>\<open>reflect.StructOf\<close>: an unnamed struct type; it panics on a repeated or an
  unexported field name.\<close>
definition struct_of :: "gfield list \<Rightarrow> fault + gtype" where
  "struct_of fs =
     (if distinct (map fname fs) \<and> list_all (\<lambda>f. exported (fname f)) fs then Inr (TStruct [] [] fs)
      else Inl (Panic ''reflect.StructOf: invalid field''))"

text \<open>\<open>reflect.New(p).Interface()\<close> of a generated parameter type.\<close>
definition new_params :: "gtype \<Rightarrow> gval" where
  "new_params p = VPtr p (Some (zero p))"

text \<open>\<open>if modelType.Kind() == reflect.Ptr { modelType = modelType.Elem() }\<close>\<close>
definition model_type :: "gtype \<Rightarrow> gtype" where
  "model_type t = (case t of TPtr t' \<Rightarrow> t' | _ \<Rightarrow> t)"

subsection \<open>extractBaseEmbeddedFields and generateInnerStruct\<close>

fun extract_fields :: "gfield list \<Rightarrow> string set \<Rightarrow> gfield list \<times> string set" where
  "extract_fields [] added = ([], added)"
| "extract_fields (f # fs) added =
     (if fname f = ''LanguageID'' \<and> fname f \<notin> added then
        (let (r, added') = extract_fields fs (insert (fname f) added)
         in (GField (fname f) (ftype f) (param_tag f) False # r, added'))
      else extract_fields fs added)"

definition extractBaseEmbeddedFields :: "gtype \<Rightarrow> string set \<Rightarrow> fault + gfield list \<times> string set" where
  "extractBaseEmbeddedFields t added = sbind (struct_fields t) (\<lambda>fs. Inr (extract_fields fs added))"

fun inner_fields :: "gfield list \<Rightarrow> string set \<Rightarrow> bool \<Rightarrow> fault + gfield list \<times> string set" where
  "inner_fields [] added fk = Inr ([], added)"
| "inner_fields (f # fs) added fk =
     (if fanon f \<and> isBaseField f then
        sbind (extractBaseEmbeddedFields (ftype f) added) (\<lambda>(emb, added').
          sbind (inner_fields fs added' fk) (\<lambda>(r, added''). Inr (emb @ r, added'')))
      else if fname f \<in> added then inner_fields fs added fk
      else if fk \<and> has_suffix (fname f) ''ID'' then inner_fields fs added fk
      else sbind (inner_fields fs (insert (fname f) added) fk) (\<lambda>(r, added').
             Inr (GField (fname f) (ftype f) (param_tag f) False # r, added')))"

definition generateInnerStruct :: "gtype \<Rightarrow> string set \<Rightarrow> bool \<Rightarrow> fault + gtype \<times> string set" where
  "generateInnerStruct t added fk =
     sbind (struct_fields t) (\<lambda>fs.
       sbind (inner_fields fs added fk) (\<lambda>(ifs, added').
         sbind (struct_of ifs) (\<lambda>it. Inr (it, added'))))"

subsection \<open>GenerateCreateParameters and GenerateUpdateParameters\<close>

text \<open>
  The field loop the two generators share; \<open>wrap\<close> is the type of a generated
  field: the field type itself for create, \<open>reflect.PointerTo\<close> of it for update.  The
  fields taken over from an embedded base struct are not wrapped, in both.
\<close>
fun param_fields :: "(gtype \<Rightarrow> gtype) \<Rightarrow> gfield list \<Rightarrow> string set \<Rightarrow> fault + gfield list" where
  "param_fields wrap [] added = Inr []"
| "param_fields wrap (f # fs) added =
     (if fanon f \<or> isBaseField f then
        (if fanon f \<and> isBaseField f then
           sbind (extractBaseEmbeddedFields (ftype f) added) (\<lambda>(emb, added').
             sbind (param_fields wrap fs added') (\<lambda>r. Inr (emb @ r)))
         else param_fields wrap fs added)
      else if kind (ftype f) = KSlice then
        (if kind (slice_elem_type (ftype f)) = KStruct then
           sbind (generateInnerStruct (slice_elem_type (ftype f)) added True) (\<lambda>(inner, added').
             sbind (param_fields wrap fs added') (\<lambda>r.
               Inr (GField (fname f) (wrap (TSlice inner)) (param_tag f) False # r)))
         else param_fields wrap fs added)
      else sbind (param_fields wrap fs added) (\<lambda>r.
             Inr (GField (fname f) (wrap (ftype f)) (param_tag f) False # r)))"

definition GenerateCreateParameters :: "gtype \<Rightarrow> fault + gval" where
  "GenerateCreateParameters t =
     sbind (struct_fields (model_type t)) (\<lambda>fs.
       sbind (param_fields id fs {}) (\<lambda>ps.
         sbind (struct_of ps) (\<lambda>p. Inr (new_params p))))"

definition GenerateUpdateParameters :: "gtype \<Rightarrow> fault + gval" where
  "GenerateUpdateParameters t =
     sbind (struct_fields (model_type t)) (\<lambda>fs.
       sbind (param_fields TPtr fs {}) (\<lambda>ps.
         sbind (struct_of ps) (\<lambda>p. Inr (new_params p))))"

subsection \<open>GenerateFilterParameters\<close>

definition tfields :: "gtype \<Rightarrow> gfield list" where
  "tfields t = (case t of TStruct _ _ fs \<Rightarrow> fs | _ \<Rightarrow> [])"

text \<open>A filter field: pointer to the field type, tag \<open>url:"snake_case"\<close>.\<close>
definition filter_field :: "gfield \<Rightarrow> gfield" where
  "filter_field f = GField (fname f) (TPtr (ftype f)) [(''url'', toSnakeCase (fname f))] False"

text \<open>The inner loop over the fields of a content element type.\<close>
fun filter_inner :: "gfield list \<Rightarrow> string set \<Rightarrow> gfield list \<times> string set" where
  "filter_inner [] added = ([], added)"
| "filter_inner (g # gs) added =
     (if has_suffix (fname g) ''ID'' then filter_inner gs added
      else if fanon g \<or> isBaseField g then
        (if fname g = ''LanguageID'' \<and> fname g \<notin> added then
           (let (r, added') = filter_inner gs (insert (fname g) added) in (filter_field g # r, added'))
         else filter_inner gs added)
      else if fname g \<notin> added then
        (let (r, added') = filter_inner gs (insert (fname g) added) in (filter_field g # r, added'))
      else filter_inner gs added)"

fun filter_fields :: "gfield list \<Rightarrow> string set \<Rightarrow> gfield list" where
  "filter_fields [] added = []"
| "filter_fields (f # fs) added =
     (if fanon f \<or> isBaseField f then filter_fields fs added
      else if kind (ftype f) = KSlice \<and> kind (slice_elem_type (ftype f)) = KStruct
              \<and> IsContentModel (slice_elem_type (ftype f)) then
        (let (r, added') = filter_inner (tfields (slice_elem_type (ftype f))) added
         in r @ filter_fields fs added')
      else if fname f \<notin> added then filter_field f # filter_fields fs (insert (fname f) added)
      else filter_fields fs added)"

definition GenerateFilterParameters :: "gtype \<Rightarrow> fault + gval" where
  "GenerateFilterParameters t =
     sbind (struct_fields (model_type t)) (\<lambda>fs.
       sbind (struct_of (filter_fields fs {})) (\<lambda>p. Inr (new_params p)))"

subsection \<open>FillModelFromCreateParameters\<close>

text \<open>\<open>if cpVal.Kind() == reflect.Ptr { cpVal = cpVal.Elem() }\<close>, then its fields; a nil
  pointer gives the invalid value, whose \<open>NumField\<close> panics.\<close>
definition param_fields_of :: "gval \<Rightarrow> fault + (gfield \<times> gval) list" where
  "param_fields_of pv =
     (let v = (case pv of VPtr _ (Some x) \<Rightarrow> Some x | VPtr _ None \<Rightarrow> None | _ \<Rightarrow> Some pv)
      in case v of
           Some (VStruct (TStruct p n fs) vs) \<Rightarrow> Inr (zip fs vs)
         | _ \<Rightarrow> Inl (Panic ''reflect: NumField of non-struct value''))"

text \<open>The element loop of a slice field: a nil pointer element stays the zero element,
  a pointer element is dereferenced once, structs are copied with \<open>copyStruct\<close>, other
  elements with \<open>copyField\<close>.\<close>
fun fill_slice :: "string \<Rightarrow> gtype \<Rightarrow> nat \<Rightarrow> gval list \<Rightarrow> fault + gval list" where
  "fill_slice n et j [] = Inr []"
| "fill_slice n et j (s # ss) =
     (case s of
        VPtr _ None \<Rightarrow> sbind (fill_slice n et (Suc j) ss) (\<lambda>r. Inr (zero et # r))
      | _ \<Rightarrow>
          (let src = (case s of VPtr _ (Some x) \<Rightarrow> x | _ \<Rightarrow> s);
               (d, e) = (if kind (type_of src) = KStruct \<and> kind et = KStruct
                         then copyStruct (zero et) src else copyField (zero et) src)
           in case e of
                Some err \<Rightarrow> Inl (Err (IndexErr n j err))
              | None \<Rightarrow> sbind (fill_slice n et (Suc j) ss) (\<lambda>r. Inr (d # r))))"

fun fill_fields :: "gval \<Rightarrow> (gfield \<times> gval) list \<Rightarrow> fault + gval" where
  "fill_fields m [] = Inr m"
| "fill_fields m ((cf, cv) # rest) =
     (case field_by_name (type_of m) (fname cf) of
        None \<Rightarrow> fill_fields m rest
      | Some p \<Rightarrow>
          if \<not> can_set (type_of m) p then Inl (Err (CannotSet (fname cf)))
          else if kind (type_of cv) = KSlice then
            (let mt = type_of (get_path m p)
             in if kind mt \<noteq> KSlice then Inl (Panic ''reflect.MakeSlice of non-slice type'')
                else sbind (fill_slice (fname cf) (slice_elem_type mt) 0 (slice_elems cv)) (\<lambda>xs.
                       fill_fields (set_path m p (VSlice (slice_elem_type mt) xs)) rest))
          else
            (case copyField (get_path m p) cv of
               (x, None) \<Rightarrow> fill_fields (set_path m p x) rest
             | (_, Some err) \<Rightarrow> Inl (Err (NameErr (fname cf) err))))"

text \<open>The model starts as \<open>reflect.New(T).Elem()\<close>, the zero value of \<open>T\<close>.  For a
  non-struct \<open>T\<close>, \<open>modelElem.FieldByName\<close> panics at the first parameter field (the
  model keeps its type while it is filled); with no parameter field the zero model is
  returned.\<close>
definition FillModelFromCreateParameters :: "gtype \<Rightarrow> gval \<Rightarrow> fault + gval" where
  "FillModelFromCreateParameters t createParams =
     sbind (param_fields_of createParams) (\<lambda>ps.
       if kind t \<noteq> KStruct \<and> ps \<noteq> [] then Inl (Panic ''reflect: call of reflect.Value.FieldByName on non-struct Value'')
       else fill_fields (zero t) ps)"

subsection \<open>UpdateModelFromUpdateParameters\<close>

fun is_nil_ptr :: "gval \<Rightarrow> bool" where
  "is_nil_ptr (VPtr _ None) = True"
| "is_nil_ptr _ = False"

text \<open>
  The field loop.  \<open>ord\<close> is the iteration order of the content map of
  \<open>handleContentUpdate\<close>.  A slice model field is only updated when it is named
  \<open>Contents\<close>; \<open>handleContentUpdate\<close> on a parameter that is not a slice panics in
  \<open>Len\<close>.  The result is the model as far as it was updated and the error that ended
  the loop, as the code returns \<open>model\<close> also with an error.
\<close>
fun update_fields :: "nat list \<Rightarrow> gval \<Rightarrow> (gfield \<times> gval) list \<Rightarrow> fault + gval \<times> cerr option" where
  "update_fields ord m [] = Inr (m, None)"
| "update_fields ord m ((pf, pv) # rest) =
     (if is_nil_ptr pv then update_fields ord m rest
      else case field_by_name (type_of m) (fname pf) of
        None \<Rightarrow> update_fields ord m rest
      | Some p \<Rightarrow>
          if \<not> can_set (type_of m) p then update_fields ord m rest
          else
            (let mf = get_path m p
             in if kind (type_of mf) = KSlice then
                  (let sv = (case pv of VPtr _ (Some x) \<Rightarrow> x | _ \<Rightarrow> pv)
                   in if fname pf = ''Contents'' then
                        (if kind (type_of sv) \<noteq> KSlice then Inl (Panic ''reflect: Len of non-slice value'')
                         else case handleContentUpdate ord mf sv of
                           (x, None) \<Rightarrow> update_fields ord (set_path m p x) rest
                         | (_, Some err) \<Rightarrow> Inr (m, Some (FieldErr (fname pf) err)))
                      else update_fields ord m rest)
                else
                  (let src = (case pv of VPtr _ (Some x) \<Rightarrow> x | _ \<Rightarrow> pv)
                   in case copyField mf src of
                        (x, None) \<Rightarrow> update_fields ord (set_path m p x) rest
                      | (x, Some err) \<Rightarrow> Inr (set_path m p x, Some (FieldErr (fname pf) err)))))"

definition UpdateModelFromUpdateParameters :: "nat list \<Rightarrow> gval \<Rightarrow> gval \<Rightarrow> fault + gval \<times> cerr option" where
  "UpdateModelFromUpdateParameters ord model updateParams =
     sbind (param_fields_of updateParams) (update_fields ord model)"

subsection \<open>UpdateModelFromUpdateParameters1\<close>

text \<open>
  The unused first version.  It declares \<open>var model *T\<close> and never allocates it, so
  \<open>modelVal\<close>, the \<open>Elem\<close> of a nil pointer, is the invalid (zero) \<open>reflect.Value\<close>:
  here \<open>None\<close>.  \<open>updateParams\<close> is dereferenced unconditionally.
\<close>
definition params1_fields :: "gval \<Rightarrow> fault + (gfield \<times> gval) list" where
  "params1_fields updateParams =
     (case updateParams of
        VPtr _ (Some (VStruct (TStruct p n fs) vs)) \<Rightarrow> Inr (zip fs vs)
      | VPtr _ (Some _) \<Rightarrow> Inl (Panic ''reflect: NumField of non-struct value'')
      | VPtr _ None \<Rightarrow> Inl (Panic ''reflect: call of reflect.Value.Type on zero Value'')
      | _ \<Rightarrow> Inl (Panic ''reflect: call of reflect.Value.Elem on non-pointer Value''))"

text \<open>\<open>IsNil\<close> is defined on pointers and slices (the other nillable kinds do not occur);
  a slice of the model is never nil.\<close>
definition nillable :: "gval \<Rightarrow> bool" where
  "nillable v \<longleftrightarrow> kind (type_of v) = KPtr \<or> kind (type_of v) = KSlice"

text \<open>The field loop over the current \<open>modelVal\<close>; the result is the error returned.\<close>
fun update1_fields :: "gval option \<Rightarrow> (gfield \<times> gval) list \<Rightarrow> fault + string option" where
  "update1_fields mv [] = Inr None"
| "update1_fields mv ((pf, pv) # rest) =
     (if \<not> nillable pv then Inl (Panic ''reflect: call of reflect.Value.IsNil on non-nillable Value'')
      else if is_nil_ptr pv then update1_fields mv rest
      else case mv of
        None \<Rightarrow> Inl (Panic ''reflect: call of reflect.Value.FieldByName on zero Value'')
      | Some m \<Rightarrow>
          (case field_by_name (type_of m) (fname pf) of
             None \<Rightarrow> update1_fields mv rest
           | Some p \<Rightarrow>
               if \<not> can_set (type_of m) p then update1_fields mv rest
               else
                 (let mf = get_path m p
                  in case pv of
                       VPtr _ (Some nv) \<Rightarrow>
                         (if assignable (type_of nv) (type_of mf)
                          then update1_fields (Some (set_path m p (retype (type_of mf) nv))) rest
                          else if convertible (type_of nv) (type_of mf)
                          then update1_fields (Some (set_path m p (convert (type_of mf) nv))) rest
                          else Inr (Some (''cannot assign update parameter for field '' @ fname pf @
                                 '': type mismatch ('' @ type_String (type_of nv) @ '' vs '' @
                                 type_String (type_of mf) @ '')'')))
                     | _ \<Rightarrow> Inl (Panic ''reflect: call of reflect.Value.Elem on slice Value''))))"

text \<open>The result: the model pointer (\<open>None\<close> is nil) and the error.\<close>
definition UpdateModelFromUpdateParameters1 :: "gval \<Rightarrow> fault + gval option \<times> string option" where
  "UpdateModelFromUpdateParameters1 updateParams =
     (let model = (None :: gval option);
          modelVal = model
      in sbind (params1_fields updateParams)
           (\<lambda>ps. sbind (update1_fields modelVal ps)
              (\<lambda>err. case err of None \<Rightarrow> Inr (model, None) | Some e \<Rightarrow> Inr (None, Some e))))"

subsection \<open>Auxiliary notions of the properties\<close>

text \<open>Where a generated create or update field comes from.\<close>
definition param_origin :: "(gtype \<Rightarrow> gtype) \<Rightarrow> gfield list \<Rightarrow> gfield \<Rightarrow> bool" where
  "param_origin wrap fs f \<longleftrightarrow>
     (fname f = ''LanguageID'' \<and> \<not> fanon f) \<or>
     (\<exists>g \<in> set fs. \<not> fanon g \<and> \<not> isBaseField g \<and> fname f = fname g \<and> \<not> fanon f \<and>
        ftag f = param_tag g \<and> (\<exists>u. ftype f = wrap u))"

definition filter_sources :: "gfield list \<Rightarrow> gfield set" where
  "filter_sources fs = set fs \<union>
     {h. \<exists>g \<in> set fs. h \<in> set (tfields (slice_elem_type (ftype g))) \<and> \<not> has_suffix (fname h) ''ID''}"

text \<open>The parameter types the engine derives for the example model \<open>Blog\<close>.\<close>
definition Blog_content_params_t :: gtype where
  "Blog_content_params_t = TStruct [] []
     [GField ''LanguageID'' TString [(''json'', ''language_id'')] False,
      GField ''Content'' TString [(''json'', ''content'')] False]"

definition Blog_create_t :: gtype where
  "Blog_create_t = TStruct [] []
     [GField ''Contents'' (TSlice Blog_content_params_t) [(''json'', ''contents'')] False,
      GField ''Owner'' TString [(''json'', ''owner'')] False,
      GField ''IsPublished'' TBool [(''json'', ''is_published'')] False]"

definition Blog_update_t :: gtype where
  "Blog_update_t = TStruct [] []
     [GField ''Contents'' (TPtr (TSlice Blog_content_params_t)) [(''json'', ''contents'')] False,
      GField ''Owner'' (TPtr TString) [(''json'', ''owner'')] False,
      GField ''IsPublished'' (TPtr TBool) [(''json'', ''is_published'')] False]"

definition Blog_filter_t :: gtype where
  "Blog_filter_t = TStruct [] []
     [GField ''Content'' (TPtr TString) [(''url'', ''content'')] False,
      GField ''Owner'' (TPtr TString) [(''url'', ''owner'')] False,
      GField ''IsPublished'' (TPtr TBool) [(''url'', ''is_published'')] False]"

declare str_contains_def [go_eval] has_suffix_def [go_eval] baseTypes_def [go_eval]
  isBaseField_def [go_eval] param_tag_def [go_eval] struct_fields_def [go_eval]
  struct_of_def [go_eval] new_params_def [go_eval] model_type_def [go_eval]
  extractBaseEmbeddedFields_def [go_eval] generateInnerStruct_def [go_eval]
  GenerateCreateParameters_def [go_eval] GenerateUpdateParameters_def [go_eval]
  tfields_def [go_eval] filter_field_def [go_eval] GenerateFilterParameters_def [go_eval]
  param_fields_of_def [go_eval] FillModelFromCreateParameters_def [go_eval]
  UpdateModelFromUpdateParameters_def [go_eval]


subsection \<open>The generated parameter types\<close>

lemma Blog_create_params: "GenerateCreateParameters Blog_t = Inr (new_params Blog_create_t)"
  by (simp add: go_eval Blog_create_t_def Blog_content_params_t_def)

lemma Blog_update_params: "GenerateUpdateParameters Blog_t = Inr (new_params Blog_update_t)"
  by (simp add: go_eval Blog_update_t_def Blog_content_params_t_def)

lemma extract_fields_shape:
  "f \<in> set (fst (extract_fields fs a)) \<Longrightarrow> fname f = ''LanguageID'' \<and> \<not> fanon f"
  by (induction fs a rule: extract_fields.induct) (auto split: prod.splits if_splits)

lemma extractBaseEmbeddedFields_shape:
  "extractBaseEmbeddedFields t a = Inr (emb, a') \<Longrightarrow> f \<in> set emb \<Longrightarrow>
   fname f = ''LanguageID'' \<and> \<not> fanon f"
proof -
  assume e: "extractBaseEmbeddedFields t a = Inr (emb, a')" and f: "f \<in> set emb"
  from e obtain fs where "extract_fields fs a = (emb, a')"
    by (auto simp: extractBaseEmbeddedFields_def)
  with f show ?thesis using extract_fields_shape [of f fs a] by simp
qed

lemma param_origin_Cons: "param_origin wrap fs f \<Longrightarrow> param_origin wrap (g # fs) f"
  by (auto simp: param_origin_def)

lemma param_fields_origin:
  "param_fields wrap fs a = Inr ps \<Longrightarrow> f \<in> set ps \<Longrightarrow> param_origin wrap fs f"
proof (induction fs arbitrary: a ps)
  case Nil
  then show ?case by simp
next
  case (Cons g fs)
  have IH: "param_fields wrap fs a' = Inr r \<Longrightarrow> f \<in> set r \<Longrightarrow> param_origin wrap (g # fs) f" for a' r
    using Cons.IH param_origin_Cons by blast
  have hd: "\<not> fanon g \<Longrightarrow> \<not> isBaseField g \<Longrightarrow>
      param_origin wrap (g # fs) (GField (fname g) (wrap u) (param_tag g) False)" for u
    by (auto simp: param_origin_def)
  have emb: "extractBaseEmbeddedFields t b = Inr (e, b') \<Longrightarrow> f \<in> set e \<Longrightarrow>
      param_origin wrap (g # fs) f" for t b e b'
    by (auto simp: param_origin_def dest: extractBaseEmbeddedFields_shape)
  from Cons.prems show ?case
    by (auto split: if_splits prod.splits intro: hd dest: IH emb)
qed

lemma struct_fields_tfields: "struct_fields t = Inr fs \<Longrightarrow> tfields t = fs"
  by (cases t) (simp_all add: struct_fields_def tfields_def)

lemma struct_of_new_params:
  "struct_of ps = Inr q \<Longrightarrow> new_params q = VPtr p x \<Longrightarrow> tfields p = ps"
  by (auto simp: struct_of_def new_params_def tfields_def split: if_splits)

lemma generated_params:
  assumes "sbind (struct_fields (model_type t)) (\<lambda>fs.
       sbind (param_fields w fs {}) (\<lambda>ps. sbind (struct_of ps) (\<lambda>p. Inr (new_params p)))) = Inr (VPtr p x)"
  shows "param_fields w (tfields (model_type t)) {} = Inr (tfields p)"
proof -
  from assms obtain fs ps q where fs: "struct_fields (model_type t) = Inr fs"
    and ps: "param_fields w fs {} = Inr ps" and q: "struct_of ps = Inr q" "new_params q = VPtr p x"
    by auto
  from struct_fields_tfields [OF fs] struct_of_new_params [OF q] ps show ?thesis by simp
qed

text \<open>C11. Every field of a generated create type is a plain field: either the
  \<open>LanguageID\<close> taken over from an embedded base struct, or a field of the model of
  the same name that is neither embedded nor a base field.\<close>

lemma GenerateCreateParameters_fields:
  assumes "GenerateCreateParameters t = Inr (VPtr p x)"
  shows "\<forall>f \<in> set (tfields p). \<not> fanon f \<and>
     (fname f = ''LanguageID'' \<or>
      (\<exists>g \<in> set (tfields (model_type t)). \<not> fanon g \<and> \<not> isBaseField g \<and> fname f = fname g))"
proof
  fix f assume f: "f \<in> set (tfields p)"
  have "param_fields id (tfields (model_type t)) {} = Inr (tfields p)"
    using assms unfolding GenerateCreateParameters_def by (rule generated_params)
  from param_fields_origin [OF this f]
  show "\<not> fanon f \<and> (fname f = ''LanguageID'' \<or>
      (\<exists>g \<in> set (tfields (model_type t)). \<not> fanon g \<and> \<not> isBaseField g \<and> fname f = fname g))"
    by (auto simp: param_origin_def)
qed

lemma GenerateCreateParameters_fields_witness:
  "GenerateCreateParameters Blog_t = Inr (VPtr Blog_create_t (Some (zero Blog_create_t))) \<and>
   list_all (\<lambda>f. \<not> fanon f \<and>
     (fname f = ''LanguageID'' \<or>
      (\<exists>g \<in> set (tfields (model_type Blog_t)). \<not> fanon g \<and> \<not> isBaseField g \<and> fname f = fname g)))
     (tfields Blog_create_t)"
proof -
  have g: "GenerateCreateParameters Blog_t = Inr (VPtr Blog_create_t (Some (zero Blog_create_t)))"
    by (simp add: go_eval Blog_create_t_def Blog_content_params_t_def)
  from GenerateCreateParameters_fields [OF g] g show ?thesis by (simp add: list_all_iff)
qed

text \<open>C12. Every field of a generated update type is a pointer, so that an absent field
  decodes to nil, except a \<open>LanguageID\<close> taken over from an embedded base struct.\<close>

lemma GenerateUpdateParameters_pointers:
  assumes "GenerateUpdateParameters t = Inr (VPtr p x)"
  shows "\<forall>f \<in> set (tfields p). kind (ftype f) = KPtr \<or> fname f = ''LanguageID''"
proof
  fix f assume f: "f \<in> set (tfields p)"
  have "param_fields TPtr (tfields (model_type t)) {} = Inr (tfields p)"
    using assms unfolding GenerateUpdateParameters_def by (rule generated_params)
  from param_fields_origin [OF this f]
  show "kind (ftype f) = KPtr \<or> fname f = ''LanguageID''"
    by (auto simp: param_origin_def)
qed

lemma GenerateUpdateParameters_pointers_witness:
  "GenerateUpdateParameters Blog_t = Inr (VPtr Blog_update_t (Some (zero Blog_update_t))) \<and>
   list_all (\<lambda>f. kind (ftype f) = KPtr \<or> fname f = ''LanguageID'') (tfields Blog_update_t)"
proof -
  have g: "GenerateUpdateParameters Blog_t = Inr (VPtr Blog_update_t (Some (zero Blog_update_t)))"
    by (simp add: go_eval Blog_update_t_def Blog_content_params_t_def)
  from GenerateUpdateParameters_pointers [OF g] g show ?thesis by (simp add: list_all_iff)
qed

lemma filter_inner_subset:
  "filter_inner gs a = (r, a') \<Longrightarrow>
   set r \<subseteq> filter_field ` {g \<in> set gs. \<not> has_suffix (fname g) ''ID''}"
proof (induction gs arbitrary: a r a')
  case Nil
  then show ?case by simp
next
  case (Cons g gs)
  have IH: "filter_inner gs b = (r', b') \<Longrightarrow>
      set r' \<subseteq> filter_field ` {h \<in> set (g # gs). \<not> has_suffix (fname h) ''ID''}" for b r' b'
    using Cons.IH [of b r' b'] by auto
  from Cons.prems show ?case
    by (auto split: if_splits prod.splits dest!: IH)
qed

lemma filter_fields_subset:
  "set (filter_fields fs a) \<subseteq> filter_field ` filter_sources fs"
proof (induction fs arbitrary: a)
  case Nil
  then show ?case by simp
next
  case (Cons f fs)
  have IH: "set (filter_fields fs b) \<subseteq> filter_field ` filter_sources (f # fs)" for b
    using Cons.IH [of b] by (auto simp: filter_sources_def)
  have inner: "(r, b') = filter_inner (tfields (slice_elem_type (ftype f))) b \<Longrightarrow>
      set r \<subseteq> filter_field ` filter_sources (f # fs)" for b r b'
    using filter_inner_subset [of "tfields (slice_elem_type (ftype f))" b r b']
    by (auto simp: filter_sources_def)
  have hd: "filter_field f \<in> filter_field ` filter_sources (f # fs)"
    by (simp add: filter_sources_def)
  show ?case
    using IH hd by (auto simp: Let_def split: prod.split dest!: inner)
qed

lemma generated_filter:
  "GenerateFilterParameters t = Inr (VPtr p x) \<Longrightarrow> tfields p = filter_fields (tfields (model_type t)) {}"
proof -
  assume "GenerateFilterParameters t = Inr (VPtr p x)"
  then obtain fs q where fs: "struct_fields (model_type t) = Inr fs"
    and q: "struct_of (filter_fields fs {}) = Inr q" "new_params q = VPtr p x"
    by (auto simp: GenerateFilterParameters_def)
  from struct_fields_tfields [OF fs] struct_of_new_params [OF q] show ?thesis by simp
qed

text \<open>C13. Every field of a generated filter type is a pointer tagged
  \<open>url:"snake_case name"\<close>.\<close>

lemma GenerateFilterParameters_fields:
  "GenerateFilterParameters t = Inr (VPtr p x) \<Longrightarrow>
   \<forall>f \<in> set (tfields p). kind (ftype f) = KPtr \<and> ftag f = [(''url'', toSnakeCase (fname f))]"
  using filter_fields_subset by (fastforce dest!: generated_filter simp: filter_field_def)

lemma GenerateFilterParameters_fields_witness:
  "GenerateFilterParameters Blog_t = Inr (VPtr Blog_filter_t (Some (zero Blog_filter_t))) \<and>
   list_all (\<lambda>f. kind (ftype f) = KPtr \<and> ftag f = [(''url'', toSnakeCase (fname f))]) (tfields Blog_filter_t)"
proof -
  have g: "GenerateFilterParameters Blog_t = Inr (VPtr Blog_filter_t (Some (zero Blog_filter_t)))"
    by (simp add: go_eval Blog_filter_t_def char_of_def bit_simps)
  from GenerateFilterParameters_fields [OF g] g show ?thesis by (simp add: list_all_iff)
qed

lemma LanguageID_suffix: "has_suffix ''LanguageID'' ''ID''"
  by (simp add: has_suffix_def)

text \<open>C14. The filter type has a \<open>LanguageID\<close> field only if the model itself declares
  one: the language of the content elements is never hoisted, because its name ends in
  \<open>ID\<close>.\<close>

lemma GenerateFilterParameters_LanguageID:
  "GenerateFilterParameters t = Inr (VPtr p x) \<Longrightarrow> ''LanguageID'' \<in> fname ` set (tfields p) \<Longrightarrow>
   ''LanguageID'' \<in> fname ` set (tfields (model_type t))"
proof -
  assume g: "GenerateFilterParameters t = Inr (VPtr p x)"
    and l: "''LanguageID'' \<in> fname ` set (tfields p)"
  from l obtain f where f: "f \<in> set (tfields p)" "fname f = ''LanguageID''" using imageE [OF l] by metis
  from f(1) have "f \<in> set (filter_fields (tfields (model_type t)) {})"
    by (simp add: generated_filter [OF g])
  with filter_fields_subset have "f \<in> filter_field ` filter_sources (tfields (model_type t))" by blast
  with f(2) LanguageID_suffix show ?thesis
    by (auto simp: filter_field_def filter_sources_def) (metis image_eqI)
qed

lemma GenerateFilterParameters_LanguageID_witness:
  "GenerateFilterParameters (TStruct ''main'' ''Post'' [GField ''LanguageID'' TString [] False]) =
     Inr (VPtr (TStruct [] [] [GField ''LanguageID'' (TPtr TString) [(''url'', ''language_i_d'')] False])
       (Some (zero (TStruct [] [] [GField ''LanguageID'' (TPtr TString) [(''url'', ''language_i_d'')] False])))) \<and>
   ''LanguageID'' \<in> fname ` set (tfields (TStruct [] [] [GField ''LanguageID'' (TPtr TString) [(''url'', ''language_i_d'')] False])) \<and>
   ''LanguageID'' \<in> fname ` set (tfields (model_type (TStruct ''main'' ''Post'' [GField ''LanguageID'' TString [] False])))"
proof -
  have g: "GenerateFilterParameters (TStruct ''main'' ''Post'' [GField ''LanguageID'' TString [] False]) =
     Inr (VPtr (TStruct [] [] [GField ''LanguageID'' (TPtr TString) [(''url'', ''language_i_d'')] False])
       (Some (zero (TStruct [] [] [GField ''LanguageID'' (TPtr TString) [(''url'', ''language_i_d'')] False]))))"
    by (simp add: go_eval char_of_def bit_simps)
  have l: "''LanguageID'' \<in> fname ` set (tfields (TStruct [] [] [GField ''LanguageID'' (TPtr TString) [(''url'', ''language_i_d'')] False]))"
    by (simp add: tfields_def)
  from GenerateFilterParameters_LanguageID [OF g l] g l show ?thesis by simp
qed

text \<open>The create and update types of \<open>Blog\<close>: the contents as a slice of
  \<open>{LanguageID, Content}\<close> structs, the owner and the published flag; the base fields
  and the foreign key \<open>BlogID\<close> are left out, and the update fields are pointers.\<close>

lemma Blog_shapes:
  "GenerateCreateParameters Blog_t = Inr (new_params Blog_create_t) \<and>
   GenerateUpdateParameters Blog_t = Inr (new_params Blog_update_t)"
  by (simp add: Blog_create_params Blog_update_params)

text \<open>The filter type of \<open>Blog\<close>: \<open>Content\<close>, \<open>Owner\<close> and \<open>IsPublished\<close>
  as pointers, without the language of the contents.\<close>

lemma Blog_filter_shape: "GenerateFilterParameters Blog_t = Inr (new_params Blog_filter_t)"
  by (simp add: go_eval Blog_filter_t_def char_of_def bit_simps)

subsection \<open>Filling and updating a model\<close>

lemma update_fields_all_nil:
  "\<forall>(f, v) \<in> set ps. is_nil_ptr v \<Longrightarrow> update_fields ord m ps = Inr (m, None)"
  by (induction ps) auto

text \<open>C17. An update whose parameter fields are all nil pointers leaves the model
  unchanged and reports no error.\<close>

lemma UpdateModelFromUpdateParameters_nil:
  "param_fields_of up = Inr ps \<Longrightarrow> \<forall>(f, v) \<in> set ps. is_nil_ptr v \<Longrightarrow>
   UpdateModelFromUpdateParameters ord m up = Inr (m, None)"
  by (simp add: UpdateModelFromUpdateParameters_def update_fields_all_nil)

lemma UpdateModelFromUpdateParameters_nil_witness:
  "param_fields_of (new_params Blog_update_t) = Inr (zip (tfields Blog_update_t) (map (\<lambda>f. zero (ftype f)) (tfields Blog_update_t))) \<and>
   list_all (\<lambda>(f, v). is_nil_ptr v) (zip (tfields Blog_update_t) (map (\<lambda>f. zero (ftype f)) (tfields Blog_update_t))) \<and>
   UpdateModelFromUpdateParameters [] (Blog_val (Blog.make 7 1 2 [] ''bob'' True)) (new_params Blog_update_t) =
     Inr (Blog_val (Blog.make 7 1 2 [] ''bob'' True), None)"
proof -
  have p: "param_fields_of (new_params Blog_update_t) = Inr (zip (tfields Blog_update_t) (map (\<lambda>f. zero (ftype f)) (tfields Blog_update_t)))"
    by (simp add: go_eval Blog_update_t_def)
  have n: "\<forall>(f, v) \<in> set (zip (tfields Blog_update_t) (map (\<lambda>f. zero (ftype f)) (tfields Blog_update_t))). is_nil_ptr v"
    by (simp add: go_eval Blog_update_t_def)
  from UpdateModelFromUpdateParameters_nil [OF p n] p n show ?thesis by (simp add: list_all_iff)
qed

text \<open>For a content model, the update type keeps \<open>LanguageID\<close> as a plain string,
  so an update that sets nothing still overwrites the language with the empty string.\<close>

lemma BlogContent_update_resets_language:
  "GenerateUpdateParameters BlogContent_t =
     Inr (new_params (TStruct [] []
       [GField ''LanguageID'' TString [(''json'', ''language_id'')] False,
        GField ''Content'' (TPtr TString) [(''json'', ''content'')] False,
        GField ''BlogID'' (TPtr TUint) [(''json'', ''blog_id'')] False])) \<and>
   UpdateModelFromUpdateParameters []
     (BlogContent_val (BlogContent.make ''en'' (Language.make ''en'' ''English'' 0 0) 1 1 ''hello'' 3))
     (new_params (TStruct [] []
       [GField ''LanguageID'' TString [(''json'', ''language_id'')] False,
        GField ''Content'' (TPtr TString) [(''json'', ''content'')] False,
        GField ''BlogID'' (TPtr TUint) [(''json'', ''blog_id'')] False])) =
   Inr (BlogContent_val (BlogContent.make [] (Language.make ''en'' ''English'' 0 0) 1 1 ''hello'' 3), None)"
  by (simp add: go_eval BlogContent.make_def Language.make_def)

text \<open>An instance: a field named \<open>CarModel\<close> is taken for a base field and left out
  of the create type, and a slice of strings is dropped too.\<close>

lemma isBaseField_by_substring:
  "GenerateCreateParameters (TStruct ''main'' ''Car''
     [GField ''Name'' TString [] False, GField ''CarModel'' TString [] False,
      GField ''Tags'' (TSlice TString) [] False]) =
   Inr (new_params (TStruct [] [] [GField ''Name'' TString [(''json'', ''Name'')] False]))"
  by (simp add: go_eval)

text \<open>An instance: a model with an unexported field makes the create type generation
  panic in \<open>reflect.StructOf\<close>.\<close>

lemma GenerateCreateParameters_unexported_panics:
  "GenerateCreateParameters (TStruct ''main'' ''Note'' [GField ''secret'' TString [] False]) =
   Inl (Panic ''reflect.StructOf: invalid field'')"
  by (simp add: go_eval)

subsection \<open>Fields the generators cannot take over\<close>

lemma param_fields_complete:
  "param_fields wrap fs a = Inr ps \<Longrightarrow> g \<in> set fs \<Longrightarrow> \<not> fanon g \<Longrightarrow> \<not> isBaseField g \<Longrightarrow>
   kind (ftype g) \<noteq> KSlice \<Longrightarrow> fname g \<in> fname ` set ps"
proof (induction fs arbitrary: a ps)
  case Nil
  then show ?case by simp
next
  case (Cons h fs)
  show ?case
  proof (cases "g = h")
    case True
    with Cons.prems show ?thesis by (auto split: if_splits)
  next
    case False
    with Cons.prems(2) have g: "g \<in> set fs" by simp
    have IH: "param_fields wrap fs a' = Inr r \<Longrightarrow> fname g \<in> fname ` set r" for a' r
      using Cons.IH g Cons.prems(3-5) by blast
    from Cons.prems(1) show ?thesis
      by (auto split: if_splits prod.splits dest: IH)
  qed
qed

lemma generated_params_exported:
  assumes "sbind (struct_fields (model_type t)) (\<lambda>fs.
       sbind (param_fields w fs {}) (\<lambda>ps. sbind (struct_of ps) (\<lambda>p. Inr (new_params p)))) = Inr v"
    and "g \<in> set (tfields (model_type t))" and "\<not> fanon g" and "\<not> isBaseField g"
    and "kind (ftype g) \<noteq> KSlice"
  shows "exported (fname g)"
proof -
  from assms(1) obtain fs ps q where fs: "struct_fields (model_type t) = Inr fs"
    and ps: "param_fields w fs {} = Inr ps" and q: "struct_of ps = Inr q"
    by auto
  from struct_fields_tfields [OF fs] assms(2) have "g \<in> set fs" by simp
  from param_fields_complete [OF ps this assms(3-5)] obtain f where "f \<in> set ps" "fname f = fname g"
    by (metis imageE)
  with q show ?thesis by (auto simp: struct_of_def list_all_iff split: if_splits)
qed

text \<open>C19 (error).  Both generators fail for every model that has an unexported field
  that is neither embedded, nor a base field, nor a slice: the field is taken over
  under its own name, and \<open>reflect.StructOf\<close> refuses an unexported name.  No create or
  update type exists for such a model.\<close>

lemma GenerateParameters_unexported_fail:
  assumes "g \<in> set (tfields (model_type t))" and "\<not> fanon g" and "\<not> isBaseField g"
    and "kind (ftype g) \<noteq> KSlice" and "\<not> exported (fname g)"
  shows "(\<exists>f. GenerateCreateParameters t = Inl f) \<and> (\<exists>f. GenerateUpdateParameters t = Inl f)"
proof -
  have "GenerateCreateParameters t \<noteq> Inr v" for v
    using generated_params_exported [of t id v g] assms unfolding GenerateCreateParameters_def by blast
  moreover have "GenerateUpdateParameters t \<noteq> Inr v" for v
    using generated_params_exported [of t TPtr v g] assms unfolding GenerateUpdateParameters_def by blast
  ultimately show ?thesis by (meson sum.exhaust)
qed

lemma GenerateParameters_unexported_fail_witness:
  "GField ''secret'' TString [] False \<in> set (tfields (model_type (TStruct ''main'' ''Note''
      [GField ''Title'' TString [] False, GField ''secret'' TString [] False]))) \<and>
   \<not> fanon (GField ''secret'' TString [] False) \<and> \<not> isBaseField (GField ''secret'' TString [] False) \<and>
   kind (ftype (GField ''secret'' TString [] False)) \<noteq> KSlice \<and>
   \<not> exported (fname (GField ''secret'' TString [] False)) \<and>
   (\<exists>f. GenerateCreateParameters (TStruct ''main'' ''Note''
      [GField ''Title'' TString [] False, GField ''secret'' TString [] False]) = Inl f) \<and>
   (\<exists>f. GenerateUpdateParameters (TStruct ''main'' ''Note''
      [GField ''Title'' TString [] False, GField ''secret'' TString [] False]) = Inl f)"
proof -
  have h: "GField ''secret'' TString [] False \<in> set (tfields (model_type (TStruct ''main'' ''Note''
      [GField ''Title'' TString [] False, GField ''secret'' TString [] False])))"
    "\<not> fanon (GField ''secret'' TString [] False)" "\<not> isBaseField (GField ''secret'' TString [] False)"
    "kind (ftype (GField ''secret'' TString [] False)) \<noteq> KSlice"
    "\<not> exported (fname (GField ''secret'' TString [] False))"
    by (simp_all add: go_eval)
  from GenerateParameters_unexported_fail [OF h] h show ?thesis by blast
qed

text \<open>C18 (functional).  \<open>isBaseField\<close> matches by substring, so every plain field of
  the model whose name contains \<open>Model\<close> (a \<open>CarModel\<close>, a \<open>ModelYear\<close>) is
  missing from the create type, as if it were the embedded \<open>orm.Model\<close>: a client
  cannot set it on create.\<close>

lemma GenerateCreateParameters_drops_Model_names:
  assumes "GenerateCreateParameters t = Inr (VPtr p x)"
    and "distinct (map fname (tfields (model_type t)))"
    and "g \<in> set (tfields (model_type t))" and "str_contains (fname g) ''Model''"
    and "fname g \<noteq> ''LanguageID''"
  shows "fname g \<notin> fname ` set (tfields p)"
proof
  assume "fname g \<in> fname ` set (tfields p)"
  then obtain f where f: "f \<in> set (tfields p)" and n: "fname f = fname g" by (metis imageE)
  have "param_fields id (tfields (model_type t)) {} = Inr (tfields p)"
    using assms(1) unfolding GenerateCreateParameters_def by (rule generated_params)
  from param_fields_origin [OF this f] assms(5) n obtain g' where
    g': "g' \<in> set (tfields (model_type t))" "\<not> isBaseField g'" "fname g' = fname g"
    by (auto simp: param_origin_def)
  from assms(2,3) g'(1,3) have "g' = g" by (metis distinct_map inj_onD)
  with g'(2) assms(4) show False by (simp add: isBaseField_def baseTypes_def)
qed

lemma GenerateCreateParameters_drops_Model_names_witness:
  "GenerateCreateParameters (TStruct ''main'' ''Car'' [GField ''Name'' TString [] False, GField ''CarModel'' TString [] False]) =
     Inr (VPtr (TStruct [] [] [GField ''Name'' TString [(''json'', ''Name'')] False])
       (Some (zero (TStruct [] [] [GField ''Name'' TString [(''json'', ''Name'')] False])))) \<and>
   distinct (map fname (tfields (model_type (TStruct ''main'' ''Car'' [GField ''Name'' TString [] False, GField ''CarModel'' TString [] False])))) \<and>
   GField ''CarModel'' TString [] False \<in> set (tfields (model_type (TStruct ''main'' ''Car'' [GField ''Name'' TString [] False, GField ''CarModel'' TString [] False]))) \<and>
   str_contains (fname (GField ''CarModel'' TString [] False)) ''Model'' \<and>
   fname (GField ''CarModel'' TString [] False) \<noteq> ''LanguageID'' \<and>
   fname (GField ''CarModel'' TString [] False) \<notin> fname ` set (tfields (TStruct [] [] [GField ''Name'' TString [(''json'', ''Name'')] False]))"
proof -
  have h: "GenerateCreateParameters (TStruct ''main'' ''Car'' [GField ''Name'' TString [] False, GField ''CarModel'' TString [] False]) =
     Inr (VPtr (TStruct [] [] [GField ''Name'' TString [(''json'', ''Name'')] False])
       (Some (zero (TStruct [] [] [GField ''Name'' TString [(''json'', ''Name'')] False]))))"
    "distinct (map fname (tfields (model_type (TStruct ''main'' ''Car'' [GField ''Name'' TString [] False, GField ''CarModel'' TString [] False]))))"
    "GField ''CarModel'' TString [] False \<in> set (tfields (model_type (TStruct ''main'' ''Car'' [GField ''Name'' TString [] False, GField ''CarModel'' TString [] False])))"
    "str_contains (fname (GField ''CarModel'' TString [] False)) ''Model''"
    "fname (GField ''CarModel'' TString [] False) \<noteq> ''LanguageID''"
    by (simp_all add: go_eval)
  from GenerateCreateParameters_drops_Model_names [OF h] h show ?thesis by blast
qed

text \<open>An update of a slice field not named \<open>Contents\<close> is ignored.\<close>

lemma UpdateModel_ignores_other_slices:
  "UpdateModelFromUpdateParameters []
     (VStruct (TStruct ''main'' ''Post'' [GField ''Tags'' (TSlice TString) [] False])
        [VSlice TString [VString ''a'']])
     (VStruct (TStruct [] [] [GField ''Tags'' (TPtr (TSlice TString)) [] False])
        [VPtr (TSlice TString) (Some (VSlice TString [VString ''b'', VString ''c'']))]) =
   Inr (VStruct (TStruct ''main'' ''Post'' [GField ''Tags'' (TSlice TString) [] False])
        [VSlice TString [VString ''a'']], None)"
  by (simp add: go_eval)

text \<open>A create parameter with no field of that name in the model is skipped, not
  reported.\<close>

lemma FillModel_skips_unknown_field:
  "FillModelFromCreateParameters Blog_t
     (VPtr (TStruct [] [] [GField ''Extra'' TString [] False, GField ''Owner'' TString [] False])
       (Some (VStruct (TStruct [] [] [GField ''Extra'' TString [] False, GField ''Owner'' TString [] False])
          [VString ''x'', VString ''bob'']))) =
   Inr (Blog_val (Blog.make 0 0 0 [] ''bob'' False))"
  by (simp add: go_eval Blog.make_def)

subsection \<open>The first update version\<close>

lemma update1_fields_nil_model:
  "list_all (\<lambda>(f, v). kind (type_of v) = KPtr) ps \<Longrightarrow>
   update1_fields None ps =
     (if list_all (\<lambda>(f, v). is_nil_ptr v) ps then Inr None
      else Inl (Panic ''reflect: call of reflect.Value.FieldByName on zero Value''))"
  by (induction ps) (auto simp: nillable_def)

text \<open>C15 (error).  \<open>UpdateModelFromUpdateParameters1\<close> can never update a model: on
  parameters of pointer fields it returns the nil model when every field is nil and
  panics on the first field that is set, because the model it writes to was never
  allocated.\<close>

lemma UpdateModelFromUpdateParameters1_never_updates:
  assumes "length fs = length vs" and "list_all (\<lambda>v. kind (type_of v) = KPtr) vs"
  shows "UpdateModelFromUpdateParameters1 (VPtr pt (Some (VStruct (TStruct p n fs) vs))) =
     (if list_all is_nil_ptr vs then Inr (None, None)
      else Inl (Panic ''reflect: call of reflect.Value.FieldByName on zero Value''))"
proof -
  have all: "list_all (\<lambda>(f, v). P v) (zip fs vs) = list_all P vs" for P :: "gval \<Rightarrow> bool"
    using assms(1) by (induction fs vs rule: list_induct2) simp_all
  have "update1_fields None (zip fs vs) =
     (if list_all is_nil_ptr vs then Inr None
      else Inl (Panic ''reflect: call of reflect.Value.FieldByName on zero Value''))"
    using update1_fields_nil_model [of "zip fs vs"] assms(2) by (simp add: all)
  then show ?thesis by (simp add: UpdateModelFromUpdateParameters1_def params1_fields_def)
qed

lemma UpdateModelFromUpdateParameters1_never_updates_witness:
  "length (tfields Blog_update_t) = length [VPtr (TSlice Blog_content_params_t) None, VPtr TString (Some (VString ''alice'')), VPtr TBool None] \<and>
   list_all (\<lambda>v. kind (type_of v) = KPtr) [VPtr (TSlice Blog_content_params_t) None, VPtr TString (Some (VString ''alice'')), VPtr TBool None] \<and>
   UpdateModelFromUpdateParameters1 (VPtr Blog_update_t (Some (VStruct Blog_update_t
     [VPtr (TSlice Blog_content_params_t) None, VPtr TString (Some (VString ''alice'')), VPtr TBool None]))) =
   Inl (Panic ''reflect: call of reflect.Value.FieldByName on zero Value'')"
  using UpdateModelFromUpdateParameters1_never_updates
    [of "tfields Blog_update_t" "[VPtr (TSlice Blog_content_params_t) None, VPtr TString (Some (VString ''alice'')), VPtr TBool None]"
        Blog_update_t "[]" "[]"]
  by (simp add: Blog_update_t_def tfields_def)

end
