(* ===== verification/Repository.thy ===== *)
theory Repository
  imports Engine
begin

text \<open>
  The generic repository of package \<open>repository\<close> (src/repository/model_repository.go,
  src/repository/repository.go) over a GORM database.  The database is the state: the
  committed rows of the model's table by primary key (a row holds the model value with
  its associations), the next auto-increment key, and the number of transactions that
  were begun and never ended.  What the database driver may do is the environment
  \<open>env\<close>: which calls fail in this run, and which row a raw SQL condition selects.
  Every method is one function from the state to the new state and the method's
  results, following the code's \<open>Begin\<close> / statement / \<open>Rollback\<close> / \<open>Commit\<close>
  sequence; the statement works on a copy of the rows that only \<open>Commit\<close> makes the
  committed rows.  Logging is not modelled; timestamps set by GORM are not modelled.
\<close>

datatype dberr = ErrRecordNotFound | DBError string

text \<open>The database calls of a method that can fail.\<close>
datatype dbcall = CBegin | CQuery | CWrite | CCommit | CRollback

record env =
  fails :: "dbcall \<Rightarrow> dberr option"
  raw_sql :: "string \<Rightarrow> nat option"

record db =
  rows :: "(nat, gval) go_map"
  next_id :: nat
  open_txs :: nat

text \<open>The argument of \<open>First(&model, id)\<close>: an unsigned integer, or a string.\<close>
datatype id_arg = IdUint nat | IdString string

datatype cond = ByPK int | RawSQL string

text \<open>\<open>strconv.Atoi\<close> on ASCII: an optional sign and at least one decimal digit.\<close>
definition is_digit :: "char \<Rightarrow> bool" where
  "is_digit c \<longleftrightarrow> 48 \<le> (of_char c :: nat) \<and> (of_char c :: nat) \<le> 57"

definition digits_val :: "string \<Rightarrow> nat" where
  "digits_val s = foldl (\<lambda>n c. 10 * n + (of_char c - 48)) 0 s"

definition atoi :: "string \<Rightarrow> int option" where
  "atoi s =
     (case s of
        CHR ''-'' # ds \<Rightarrow> if ds \<noteq> [] \<and> list_all is_digit ds then Some (- int (digits_val ds)) else None
      | CHR ''+'' # ds \<Rightarrow> if ds \<noteq> [] \<and> list_all is_digit ds then Some (int (digits_val ds)) else None
      | ds \<Rightarrow> if ds \<noteq> [] \<and> list_all is_digit ds then Some (int (digits_val ds)) else None)"

text \<open>
  How GORM's \<open>BuildCondition\<close> reads the inline condition of \<open>First\<close>: a number, or a
  string that \<open>Atoi\<close> accepts, is the primary key; any other string is a raw SQL
  condition.
\<close>
definition gorm_cond :: "id_arg \<Rightarrow> cond" where
  "gorm_cond a = (case a of IdUint n \<Rightarrow> ByPK (int n)
                          | IdString s \<Rightarrow> (case atoi s of Some k \<Rightarrow> ByPK k | None \<Rightarrow> RawSQL s))"

definition cond_key :: "env \<Rightarrow> cond \<Rightarrow> nat option" where
  "cond_key e c = (case c of ByPK k \<Rightarrow> if 0 \<le> k then Some (nat k) else None | RawSQL s \<Rightarrow> raw_sql e s)"

text \<open>\<open>tx.First(&model, id)\<close> on the rows of the transaction.\<close>
definition first_row :: "env \<Rightarrow> (nat, gval) go_map \<Rightarrow> id_arg \<Rightarrow> dberr + nat \<times> gval" where
  "first_row e rs a =
     (case fails e CQuery of
        Some err \<Rightarrow> Inl err
      | None \<Rightarrow>
          (case cond_key e (gorm_cond a) of
             None \<Rightarrow> Inl ErrRecordNotFound
           | Some k \<Rightarrow> (case map_of rs k of None \<Rightarrow> Inl ErrRecordNotFound | Some v \<Rightarrow> Inr (k, v))))"

subsection \<open>hasContents and preloading\<close>

text \<open>\<open>hasContents\<close>: a field \<open>Contents\<close> of slice type whose element type implements
  \<open>IContentModel\<close>; the type is dereferenced once if it is a pointer or slice.\<close>
definition hasContents :: "gtype \<Rightarrow> bool" where
  "hasContents t =
     (let typ = (case t of TPtr u \<Rightarrow> u | TSlice u \<Rightarrow> u | _ \<Rightarrow> t)
      in list_ex (\<lambda>f. fname f = ''Contents'' \<and> kind (ftype f) = KSlice
                      \<and> IsContentModel (slice_elem_type (ftype f))) (tfields typ))"

text \<open>A row as GORM loads it: associations are only loaded by \<open>Preload\<close>; without it
  a \<open>Contents\<close> slice comes back empty.\<close>
definition load_row :: "bool \<Rightarrow> gval \<Rightarrow> gval" where
  "load_row preload v =
     (if preload then v
      else case field_by_name (type_of v) ''Contents'' of
             Some p \<Rightarrow> (if kind (type_of (get_path v p)) = KSlice
                        then set_path v p (VSlice (slice_elem_type (type_of (get_path v p))) []) else v)
           | None \<Rightarrow> v)"

subsection \<open>Primary keys\<close>

text \<open>The primary key field \<open>ID\<close> of a model value, promoted from \<open>orm.Model\<close>.\<close>
definition model_id :: "gval \<Rightarrow> nat" where
  "model_id v = (case field_by_name (type_of v) ''ID'' of
                   Some p \<Rightarrow> (case get_path v p of VUint w \<Rightarrow> unat w | _ \<Rightarrow> 0)
                 | None \<Rightarrow> 0)"

definition set_model_id :: "gval \<Rightarrow> nat \<Rightarrow> gval" where
  "set_model_id v k = (case field_by_name (type_of v) ''ID'' of
                         Some p \<Rightarrow> set_path v p (VUint (word_of_nat k))
                       | None \<Rightarrow> v)"

text \<open>Storing a row with key \<open>k\<close>; the auto-increment counter moves past it.\<close>
definition put_row :: "nat \<Rightarrow> gval \<Rightarrow> db \<Rightarrow> db" where
  "put_row k v d = d\<lparr>rows := go_map_put k v (rows d), next_id := max (next_id d) (Suc k)\<rparr>"

text \<open>The key GORM writes a model under: its own, or the next auto-increment key for
  a zero key.\<close>
definition new_key :: "gval \<Rightarrow> db \<Rightarrow> nat" where
  "new_key v d = (if model_id v = 0 then next_id d else model_id v)"

definition begin_tx :: "db \<Rightarrow> db" where
  "begin_tx d = d\<lparr>open_txs := Suc (open_txs d)\<rparr>"

subsection \<open>The methods\<close>

definition GetByID :: "env \<Rightarrow> gtype \<Rightarrow> id_arg \<Rightarrow> db \<Rightarrow> db \<times> gval \<times> dberr option" where
  "GetByID e t a d =
     (case fails e CBegin of
        Some err \<Rightarrow> (d, zero t, Some err)
      | None \<Rightarrow>
          (case first_row e (rows d) a of
             Inl err \<Rightarrow> (begin_tx d, zero t, Some err)
           | Inr (k, v) \<Rightarrow> (begin_tx d, load_row (hasContents t) v, None)))"

text \<open>\<open>scopes\<close> are the filters the scopes add to the query.\<close>
definition GetAll :: "env \<Rightarrow> gtype \<Rightarrow> (gval \<Rightarrow> bool) list \<Rightarrow> db \<Rightarrow> db \<times> gval list \<times> dberr option" where
  "GetAll e t scopes d =
     (case fails e CBegin of
        Some err \<Rightarrow> (d, [], Some err)
      | None \<Rightarrow>
          (case fails e CQuery of
             Some err \<Rightarrow> (begin_tx d, [], Some err)
           | None \<Rightarrow>
               (begin_tx d,
                map (load_row (hasContents (TSlice t)))
                  (filter (\<lambda>v. list_all (\<lambda>s. s v) scopes) (map snd (rows d))), None)))"

text \<open>The failure path of a write: \<open>Rollback\<close>, whose own error replaces the original
  one; a failed rollback leaves the transaction open.\<close>
definition rollback :: "env \<Rightarrow> db \<Rightarrow> dberr \<Rightarrow> db \<times> dberr option" where
  "rollback e d err =
     (case fails e CRollback of Some rb \<Rightarrow> (begin_tx d, Some rb) | None \<Rightarrow> (d, Some err))"

text \<open>\<open>Commit\<close> of the transaction's rows: a failed commit changes nothing.\<close>
definition commit :: "env \<Rightarrow> db \<Rightarrow> db \<Rightarrow> db \<times> dberr option" where
  "commit e d d' = (case fails e CCommit of Some err \<Rightarrow> (d, Some err) | None \<Rightarrow> (d', None))"

text \<open>\<open>tx.Create(model)\<close>: a zero key is allocated; an existing key is a constraint
  violation.  GORM writes the key back into \<open>*model\<close>.\<close>
definition Create :: "env \<Rightarrow> gval \<Rightarrow> db \<Rightarrow> db \<times> gval \<times> dberr option" where
  "Create e v d =
     (case fails e CBegin of
        Some err \<Rightarrow> (d, v, Some err)
      | None \<Rightarrow>
          (let k = new_key v d;
               v' = set_model_id v k
           in case (case fails e CWrite of
                      Some err \<Rightarrow> Some err
                    | None \<Rightarrow> if k \<in> fst ` set (rows d)
                              then Some (DBError ''UNIQUE constraint failed'') else None) of
                Some err \<Rightarrow> (let (d', r) = rollback e d err in (d', v, r))
              | None \<Rightarrow> (let (d', r) = commit e d (put_row k v' d) in (d', v', r))))"

text \<open>\<open>Update\<close>: the key is read through \<open>FieldByName("Model").FieldByName("ID").Uint()\<close>,
  which panics for a model without a field \<open>Model\<close> (\<open>FieldByName\<close> on the zero
  value), with a \<open>Model\<close> that is not a struct, or with no unsigned \<open>ID\<close> in it
  (\<open>Uint\<close> on the zero value or on another kind); \<open>tx.Save\<close> writes the whole row
  under its key, and inserts under a new key when the key is zero.\<close>
definition Update :: "env \<Rightarrow> gval \<Rightarrow> db \<Rightarrow> string + db \<times> dberr option" where
  "Update e v d =
     (case field_by_name (type_of v) ''Model'' of
        None \<Rightarrow> Inl ''reflect: call of reflect.Value.FieldByName on zero Value''
      | Some p \<Rightarrow>
          if kind (type_of (get_path v p)) \<noteq> KStruct
          then Inl ''reflect: call of reflect.Value.FieldByName on non-struct Value''
          else if (case field_by_name (type_of (get_path v p)) ''ID'' of
                     None \<Rightarrow> True
                   | Some q \<Rightarrow> kind (type_of (get_path (get_path v p) q)) \<noteq> KUint)
          then Inl ''reflect: call of reflect.Value.Uint on a non-uint Value''
          else
          Inr (case fails e CBegin of
                 Some err \<Rightarrow> (d, Some err)
               | None \<Rightarrow>
                   (case fails e CWrite of
                      Some err \<Rightarrow> rollback e d err
                    | None \<Rightarrow>
                        (let k = new_key v d in commit e d (put_row k (set_model_id v k) d)))))"

definition Delete :: "env \<Rightarrow> id_arg \<Rightarrow> db \<Rightarrow> db \<times> dberr option" where
  "Delete e a d =
     (case fails e CBegin of
        Some err \<Rightarrow> (d, Some err)
      | None \<Rightarrow>
          (case first_row e (rows d) a of
             Inl err \<Rightarrow> rollback e d err
           | Inr (k, v) \<Rightarrow>
               (case fails e CWrite of
                  Some err \<Rightarrow> rollback e d err
                | None \<Rightarrow> commit e d (d\<lparr>rows := AList.delete k (rows d)\<rparr>))))"

subsection \<open>The repository as a state machine\<close>

text \<open>One step is one call of a repository method, under any environment.\<close>
inductive repo_step :: "db \<Rightarrow> db \<Rightarrow> bool" where
  get: "repo_step d (fst (GetByID e t a d))"
| all: "repo_step d (fst (GetAll e t scopes d))"
| create: "repo_step d (fst (Create e v d))"
| update: "Update e v d = Inr (d', r) \<Longrightarrow> repo_step d d'"
| delete: "repo_step d (fst (Delete e a d))"

definition db_init :: db where
  "db_init = \<lparr>rows = [], next_id = 1, open_txs = 0\<rparr>"

inductive reachable :: "db \<Rightarrow> bool" where
  init: "reachable db_init"
| step: "reachable d \<Longrightarrow> repo_step d d' \<Longrightarrow> reachable d'"

text \<open>The table invariant: one row per key, no key zero, every key below the counter.\<close>
definition repo_inv :: "db \<Rightarrow> bool" where
  "repo_inv d \<longleftrightarrow> distinct (map fst (rows d)) \<and> 0 < next_id d \<and>
     list_all (\<lambda>k. 0 < k \<and> k < next_id d) (map fst (rows d))"

declare is_digit_def [go_eval] digits_val_def [go_eval] atoi_def [go_eval] gorm_cond_def [go_eval]
  cond_key_def [go_eval] first_row_def [go_eval] hasContents_def [go_eval] load_row_def [go_eval]
  model_id_def [go_eval] set_model_id_def [go_eval] put_row_def [go_eval] new_key_def [go_eval] begin_tx_def [go_eval]
  GetByID_def [go_eval] GetAll_def [go_eval] rollback_def [go_eval] commit_def [go_eval]
  Create_def [go_eval] Update_def [go_eval] Delete_def [go_eval] db_init_def [go_eval]

subsection \<open>The table invariant\<close>

lemma repo_inv_init: "repo_inv db_init"
  by (simp add: repo_inv_def db_init_def)

lemma repo_inv_begin_tx [simp]: "repo_inv (begin_tx d) = repo_inv d"
  by (simp add: repo_inv_def begin_tx_def)

lemma repo_inv_put_row: "repo_inv d \<Longrightarrow> 0 < k \<Longrightarrow> repo_inv (put_row k v d)"
  by (auto simp: repo_inv_def put_row_def list_all_iff keys_go_map_put distinct_go_map_put)

lemma repo_inv_delete: "repo_inv d \<Longrightarrow> repo_inv (d\<lparr>rows := AList.delete k (rows d)\<rparr>)"
  by (auto simp: repo_inv_def list_all_iff delete_keys distinct_removeAll)

lemma repo_inv_rollback [simp]: "repo_inv (fst (rollback e d err)) = repo_inv d"
  by (simp add: rollback_def split: option.split)

lemma repo_inv_commit: "repo_inv d \<Longrightarrow> repo_inv d1 \<Longrightarrow> repo_inv (fst (commit e d d1))"
  by (simp add: commit_def split: option.split)

lemma repo_inv_new_key: "repo_inv d \<Longrightarrow> 0 < new_key v d"
  by (simp add: repo_inv_def new_key_def)

lemma repo_inv_put_key: "repo_inv d \<Longrightarrow> repo_inv (put_row (new_key v d) w d)"
  using repo_inv_put_row repo_inv_new_key by blast

lemma repo_inv_GetByID: "repo_inv d \<Longrightarrow> repo_inv (fst (GetByID e t a d))"
  by (simp add: GetByID_def split: option.splits sum.splits prod.splits)

lemma repo_inv_GetAll: "repo_inv d \<Longrightarrow> repo_inv (fst (GetAll e t s d))"
  by (simp add: GetAll_def split: option.splits)

lemma repo_inv_Create: "repo_inv d \<Longrightarrow> repo_inv (fst (Create e v d))"
  by (simp add: Create_def Let_def split_def repo_inv_commit repo_inv_put_key split: option.split)

lemma repo_inv_Update: "repo_inv d \<Longrightarrow> Update e v d = Inr p \<Longrightarrow> repo_inv (fst p)"
  by (auto simp: Update_def Let_def repo_inv_commit repo_inv_put_key split: option.splits if_splits)

lemma repo_inv_Delete: "repo_inv d \<Longrightarrow> repo_inv (fst (Delete e a d))"
  by (simp add: Delete_def repo_inv_commit repo_inv_delete split: option.split sum.split prod.split)

lemma repo_step_inv: "repo_step d d' \<Longrightarrow> repo_inv d \<Longrightarrow> repo_inv d'"
  by (induction rule: repo_step.induct)
     (auto intro: repo_inv_GetByID repo_inv_GetAll repo_inv_Create repo_inv_Delete
        dest: repo_inv_Update)

lemma reachable_repo_inv: "reachable d \<Longrightarrow> repo_inv d"
  by (induction rule: reachable.induct) (auto intro: repo_inv_init repo_step_inv)

lemma new_key_fresh:
  "repo_inv d \<Longrightarrow> model_id v = 0 \<Longrightarrow> new_key v d \<notin> fst ` set (rows d)"
  by (auto simp: repo_inv_def new_key_def list_all_iff)

text \<open>In every state the repository can reach, the table has one row per key and
  the next auto-increment key is not taken.\<close>

lemma repo_reachable_keys:
  "reachable d \<Longrightarrow> distinct (map fst (rows d)) \<and> next_id d \<notin> fst ` set (rows d)"
  using reachable_repo_inv [of d] by (auto simp: repo_inv_def list_all_iff)

lemma repo_reachable_keys_witness:
  "reachable (fst (Create \<lparr>fails = (\<lambda>_. None), raw_sql = (\<lambda>_. None)\<rparr>
      (Blog_val (Blog.make 0 0 0 [] ''bob'' True)) db_init)) \<and>
   distinct (map fst (rows (fst (Create \<lparr>fails = (\<lambda>_. None), raw_sql = (\<lambda>_. None)\<rparr>
      (Blog_val (Blog.make 0 0 0 [] ''bob'' True)) db_init)))) \<and>
   next_id (fst (Create \<lparr>fails = (\<lambda>_. None), raw_sql = (\<lambda>_. None)\<rparr>
      (Blog_val (Blog.make 0 0 0 [] ''bob'' True)) db_init)) \<notin>
     fst ` set (rows (fst (Create \<lparr>fails = (\<lambda>_. None), raw_sql = (\<lambda>_. None)\<rparr>
      (Blog_val (Blog.make 0 0 0 [] ''bob'' True)) db_init)))"
proof -
  have r: "reachable (fst (Create \<lparr>fails = (\<lambda>_. None), raw_sql = (\<lambda>_. None)\<rparr>
      (Blog_val (Blog.make 0 0 0 [] ''bob'' True)) db_init))"
    by (rule reachable.step [OF reachable.init repo_step.create])
  from repo_reachable_keys [OF r] r show ?thesis by simp
qed

subsection \<open>The key as a 64-bit uint\<close>

text \<open>The key is written into the model's \<open>ID\<close> field, a Go \<open>uint\<close>,
  by \<open>reflect.Value.SetUint\<close>: reading it back gives the key modulo \<open>2^64\<close>, so a
  key past the largest \<open>uint\<close> wraps around, and only keys below \<open>2^64\<close> are kept
  exactly.\<close>

lemma model_id_set_model_id:
  assumes "wt (type_of v) v" and "field_by_name (type_of v) ''ID'' = Some p"
    and "field_at (type_of v) p = Some f" and "ftype f = TUint"
  shows "model_id (set_model_id v k) = k mod 2 ^ 64"
proof -
  have "p \<noteq> []" using assms(3) by (rule field_at_Nil_None)
  then have t: "type_of (set_path v p (VUint (word_of_nat k))) = type_of v" by (rule type_of_set_path)
  have "get_path (set_path v p (VUint (word_of_nat k))) p = VUint (word_of_nat k)"
    using assms(1,3) by (rule get_set_path)
  with t assms(2) show ?thesis by (simp add: model_id_def set_model_id_def unat_of_nat)
qed

lemma model_id_set_model_id_witness:
  "wt (type_of (Blog_val (Blog.make 0 0 0 [] ''bob'' True))) (Blog_val (Blog.make 0 0 0 [] ''bob'' True)) \<and>
   field_by_name (type_of (Blog_val (Blog.make 0 0 0 [] ''bob'' True))) ''ID'' = Some [0, 0] \<and>
   field_at (type_of (Blog_val (Blog.make 0 0 0 [] ''bob'' True))) [0, 0] =
     Some (GField ''ID'' TUint [(''json'', ''id''), (''gorm'', ''primaryKey'')] False) \<and>
   ftype (GField ''ID'' TUint [(''json'', ''id''), (''gorm'', ''primaryKey'')] False) = TUint \<and>
   model_id (set_model_id (Blog_val (Blog.make 0 0 0 [] ''bob'' True)) (2 ^ 64 + 5)) = 5"
proof -
  have w: "wt (type_of (Blog_val (Blog.make 0 0 0 [] ''bob'' True))) (Blog_val (Blog.make 0 0 0 [] ''bob'' True))"
    using wt_Blog_val by (simp add: Blog_val_def)
  have f: "field_by_name (type_of (Blog_val (Blog.make 0 0 0 [] ''bob'' True))) ''ID'' = Some [0, 0]"
    by (simp add: go_eval)
  have a: "field_at (type_of (Blog_val (Blog.make 0 0 0 [] ''bob'' True))) [0, 0] =
     Some (GField ''ID'' TUint [(''json'', ''id''), (''gorm'', ''primaryKey'')] False)"
    by (simp add: go_eval)
  from model_id_set_model_id [OF w f a, of "2 ^ 64 + 5"] w f a show ?thesis by simp
qed

subsection \<open>The methods\<close>

lemma Create_no_faults:
  assumes "repo_inv d" and "fails e = (\<lambda>_. None)" and "model_id v = 0"
  shows "Create e v d = (put_row (next_id d) (set_model_id v (next_id d)) d, set_model_id v (next_id d), None)"
  using new_key_fresh [OF assms(1,3)] assms(2,3)
  by (simp add: Create_def commit_def new_key_def Let_def)

text \<open>C21. From a reachable state, with no database failure, \<open>Create\<close> of a model with a
  zero key succeeds and stores it under the next auto-increment key.\<close>

lemma Create_fresh:
  "reachable d \<Longrightarrow> fails e = (\<lambda>_. None) \<Longrightarrow> model_id v = 0 \<Longrightarrow>
   snd (snd (Create e v d)) = None \<and>
   rows (fst (Create e v d)) = go_map_put (next_id d) (set_model_id v (next_id d)) (rows d)"
  by (simp add: Create_no_faults reachable_repo_inv put_row_def)

lemma Create_fresh_witness:
  "reachable db_init \<and> fails \<lparr>fails = (\<lambda>_. None), raw_sql = (\<lambda>_. None)\<rparr> = (\<lambda>_. None) \<and>
   model_id (Blog_val (Blog.make 0 0 0 [] ''bob'' True)) = 0 \<and>
   snd (snd (Create \<lparr>fails = (\<lambda>_. None), raw_sql = (\<lambda>_. None)\<rparr> (Blog_val (Blog.make 0 0 0 [] ''bob'' True)) db_init)) = None \<and>
   rows (fst (Create \<lparr>fails = (\<lambda>_. None), raw_sql = (\<lambda>_. None)\<rparr> (Blog_val (Blog.make 0 0 0 [] ''bob'' True)) db_init)) =
     go_map_put (next_id db_init) (set_model_id (Blog_val (Blog.make 0 0 0 [] ''bob'' True)) (next_id db_init)) (rows db_init)"
proof -
  have m: "model_id (Blog_val (Blog.make 0 0 0 [] ''bob'' True)) = 0"
    by (simp add: go_eval Blog.make_def)
  from Create_fresh [OF reachable.init _ m, of "\<lparr>fails = (\<lambda>_. None), raw_sql = (\<lambda>_. None)\<rparr>"] m
  show ?thesis by (simp add: reachable.init)
qed

text \<open>C22. \<open>Create\<close> is atomic: when it reports an error the committed rows are unchanged.\<close>

lemma Create_atomic:
  "snd (snd (Create e v d)) \<noteq> None \<Longrightarrow> rows (fst (Create e v d)) = rows d"
  by (simp add: Create_def Let_def split_def rollback_def commit_def begin_tx_def
      split: option.splits if_splits)

lemma Create_atomic_witness:
  "snd (snd (Create \<lparr>fails = (\<lambda>c. if c = CWrite then Some (DBError ''disk I/O error'') else None), raw_sql = (\<lambda>_. None)\<rparr>
      (Blog_val (Blog.make 0 0 0 [] ''bob'' True)) db_init)) \<noteq> None \<and>
   rows (fst (Create \<lparr>fails = (\<lambda>c. if c = CWrite then Some (DBError ''disk I/O error'') else None), raw_sql = (\<lambda>_. None)\<rparr>
      (Blog_val (Blog.make 0 0 0 [] ''bob'' True)) db_init)) = rows db_init"
proof -
  have f: "snd (snd (Create \<lparr>fails = (\<lambda>c. if c = CWrite then Some (DBError ''disk I/O error'') else None), raw_sql = (\<lambda>_. None)\<rparr>
      (Blog_val (Blog.make 0 0 0 [] ''bob'' True)) db_init)) \<noteq> None"
    by (simp add: Create_def rollback_def Let_def split_def)
  from Create_atomic [OF f] f show ?thesis by simp
qed

text \<open>C23. \<open>GetByID\<close> begins a transaction that it neither commits nor rolls back: each
  call leaves one more transaction open.\<close>

lemma GetByID_leaks_tx:
  "fails e CBegin = None \<Longrightarrow> open_txs (fst (GetByID e t a d)) = Suc (open_txs d)"
  by (simp add: GetByID_def begin_tx_def split: sum.split prod.split)

lemma GetByID_leaks_tx_witness:
  "fails \<lparr>fails = (\<lambda>_. None), raw_sql = (\<lambda>_. None)\<rparr> CBegin = None \<and>
   open_txs (fst (GetByID \<lparr>fails = (\<lambda>_. None), raw_sql = (\<lambda>_. None)\<rparr> Blog_t (IdUint 1) db_init)) = Suc (open_txs db_init)"
  using GetByID_leaks_tx [of "\<lparr>fails = (\<lambda>_. None), raw_sql = (\<lambda>_. None)\<rparr>" Blog_t "IdUint 1" db_init] by simp

text \<open>C24. When the write and then the rollback fail, \<open>Create\<close> returns the rollback
  error in place of the write error and leaves the transaction open.\<close>

lemma Create_rollback_error:
  "fails e CBegin = None \<Longrightarrow> fails e CWrite = Some err \<Longrightarrow> fails e CRollback = Some rb \<Longrightarrow>
   Create e v d = (begin_tx d, v, Some rb)"
  by (simp add: Create_def rollback_def)

lemma Create_rollback_error_witness:
  "fails \<lparr>fails = (\<lambda>c. if c = CBegin then None else Some (DBError ''database is locked'')), raw_sql = (\<lambda>_. None)\<rparr> CBegin = None \<and>
   fails \<lparr>fails = (\<lambda>c. if c = CBegin then None else Some (DBError ''database is locked'')), raw_sql = (\<lambda>_. None)\<rparr> CWrite = Some (DBError ''database is locked'') \<and>
   fails \<lparr>fails = (\<lambda>c. if c = CBegin then None else Some (DBError ''database is locked'')), raw_sql = (\<lambda>_. None)\<rparr> CRollback = Some (DBError ''database is locked'') \<and>
   Create \<lparr>fails = (\<lambda>c. if c = CBegin then None else Some (DBError ''database is locked'')), raw_sql = (\<lambda>_. None)\<rparr>
     (Blog_val (Blog.make 0 0 0 [] ''bob'' True)) db_init =
   (begin_tx db_init, Blog_val (Blog.make 0 0 0 [] ''bob'' True), Some (DBError ''database is locked''))"
  using Create_rollback_error [of "\<lparr>fails = (\<lambda>c. if c = CBegin then None else Some (DBError ''database is locked'')), raw_sql = (\<lambda>_. None)\<rparr>"
      "DBError ''database is locked''" "DBError ''database is locked''" "Blog_val (Blog.make 0 0 0 [] ''bob'' True)" db_init]
  by simp

lemma first_row_pk:
  "fails e CQuery = None \<Longrightarrow> first_row e rs (IdUint k) = (case map_of rs k of None \<Rightarrow> Inl ErrRecordNotFound | Some v \<Rightarrow> Inr (k, v))"
  by (simp add: first_row_def gorm_cond_def cond_key_def)

text \<open>C25. A model created from a reachable state is read back by \<open>GetByID\<close> under the
  key \<open>Create\<close> gave it, as stored.\<close>

lemma Create_GetByID_roundtrip:
  assumes "reachable d" and "fails e = (\<lambda>_. None)" and "model_id v = 0"
    and "Create e v d = (d', v', r)"
  shows "GetByID e t (IdUint (next_id d)) d' = (begin_tx d', load_row (hasContents t) v', None)"
proof -
  have c: "Create e v d = (put_row (next_id d) (set_model_id v (next_id d)) d, set_model_id v (next_id d), None)"
    by (rule Create_no_faults [OF reachable_repo_inv [OF assms(1)] assms(2,3)])
  with assms(4) have "d' = put_row (next_id d) (set_model_id v (next_id d)) d \<and> v' = set_model_id v (next_id d)"
    by auto
  with assms(2) show ?thesis
    by (simp add: GetByID_def first_row_pk put_row_def map_of_go_map_put)
qed

lemma Create_GetByID_roundtrip_witness:
  "reachable db_init \<and> fails \<lparr>fails = (\<lambda>_. None), raw_sql = (\<lambda>_. None)\<rparr> = (\<lambda>_. None) \<and>
   model_id (Blog_val (Blog.make 0 0 0 [] ''bob'' True)) = 0 \<and>
   Create \<lparr>fails = (\<lambda>_. None), raw_sql = (\<lambda>_. None)\<rparr> (Blog_val (Blog.make 0 0 0 [] ''bob'' True)) db_init =
     (put_row 1 (Blog_val (Blog.make 1 0 0 [] ''bob'' True)) db_init, Blog_val (Blog.make 1 0 0 [] ''bob'' True), None) \<and>
   GetByID \<lparr>fails = (\<lambda>_. None), raw_sql = (\<lambda>_. None)\<rparr> Blog_t (IdUint (next_id db_init))
     (put_row 1 (Blog_val (Blog.make 1 0 0 [] ''bob'' True)) db_init) =
   (begin_tx (put_row 1 (Blog_val (Blog.make 1 0 0 [] ''bob'' True)) db_init),
    load_row (hasContents Blog_t) (Blog_val (Blog.make 1 0 0 [] ''bob'' True)), None)"
proof -
  have m: "model_id (Blog_val (Blog.make 0 0 0 [] ''bob'' True)) = 0"
    by (simp add: go_eval Blog.make_def)
  have c: "Create \<lparr>fails = (\<lambda>_. None), raw_sql = (\<lambda>_. None)\<rparr> (Blog_val (Blog.make 0 0 0 [] ''bob'' True)) db_init =
     (put_row 1 (Blog_val (Blog.make 1 0 0 [] ''bob'' True)) db_init, Blog_val (Blog.make 1 0 0 [] ''bob'' True), None)"
    by (simp add: go_eval Blog.make_def Let_def)
  from Create_GetByID_roundtrip [OF reachable.init _ m c] m c show ?thesis by (simp add: reachable.init)
qed

text \<open>C26. After a successful \<open>Delete\<close> of a key, \<open>GetByID\<close> of that key reports
  \<open>ErrRecordNotFound\<close>.\<close>

lemma Delete_not_found_after:
  "fails e = (\<lambda>_. None) \<Longrightarrow> snd (Delete e (IdUint k) d) = None \<Longrightarrow>
   snd (snd (GetByID e t (IdUint k) (fst (Delete e (IdUint k) d)))) = Some ErrRecordNotFound"
  by (auto simp: Delete_def GetByID_def first_row_pk rollback_def commit_def delete_conv'
      split: option.splits)

lemma Delete_not_found_after_witness:
  "fails \<lparr>fails = (\<lambda>_. None), raw_sql = (\<lambda>_. None)\<rparr> = (\<lambda>_. None) \<and>
   snd (Delete \<lparr>fails = (\<lambda>_. None), raw_sql = (\<lambda>_. None)\<rparr> (IdUint 1) (put_row 1 (Blog_val (Blog.make 1 0 0 [] ''bob'' True)) db_init)) = None \<and>
   snd (snd (GetByID \<lparr>fails = (\<lambda>_. None), raw_sql = (\<lambda>_. None)\<rparr> Blog_t (IdUint 1)
     (fst (Delete \<lparr>fails = (\<lambda>_. None), raw_sql = (\<lambda>_. None)\<rparr> (IdUint 1) (put_row 1 (Blog_val (Blog.make 1 0 0 [] ''bob'' True)) db_init))))) =
   Some ErrRecordNotFound"
proof -
  have d: "snd (Delete \<lparr>fails = (\<lambda>_. None), raw_sql = (\<lambda>_. None)\<rparr> (IdUint 1) (put_row 1 (Blog_val (Blog.make 1 0 0 [] ''bob'' True)) db_init)) = None"
    by (simp add: go_eval)
  from Delete_not_found_after [OF _ d] d show ?thesis by simp
qed

text \<open>C27. An identifier that is not a number reaches GORM as a raw SQL condition:
  \<open>Delete\<close> of \<open>"1 OR 1=1"\<close> deletes whatever row that condition selects.\<close>

lemma Delete_raw_sql:
  "atoi s = None \<Longrightarrow> fails e = (\<lambda>_. None) \<Longrightarrow> raw_sql e s = Some k \<Longrightarrow> k \<in> fst ` set (rows d) \<Longrightarrow>
   Delete e (IdString s) d = (d\<lparr>rows := AList.delete k (rows d)\<rparr>, None)"
  by (auto simp: Delete_def first_row_def gorm_cond_def cond_key_def commit_def
      split: option.splits dest: weak_map_of_SomeI)

lemma Delete_raw_sql_witness:
  "atoi ''1 OR 1=1'' = None \<and> fails \<lparr>fails = (\<lambda>_. None), raw_sql = (\<lambda>_. Some 1)\<rparr> = (\<lambda>_. None) \<and>
   raw_sql \<lparr>fails = (\<lambda>_. None), raw_sql = (\<lambda>_. Some 1)\<rparr> ''1 OR 1=1'' = Some 1 \<and>
   1 \<in> fst ` set (rows (put_row 1 (Blog_val (Blog.make 1 0 0 [] ''bob'' True)) db_init)) \<and>
   Delete \<lparr>fails = (\<lambda>_. None), raw_sql = (\<lambda>_. Some 1)\<rparr> (IdString ''1 OR 1=1'') (put_row 1 (Blog_val (Blog.make 1 0 0 [] ''bob'' True)) db_init) =
   ((put_row 1 (Blog_val (Blog.make 1 0 0 [] ''bob'' True)) db_init)\<lparr>rows := []\<rparr>, None)"
proof -
  have a: "atoi ''1 OR 1=1'' = None" by (simp add: go_eval)
  have k: "1 \<in> fst ` set (rows (put_row 1 (Blog_val (Blog.make 1 0 0 [] ''bob'' True)) db_init))"
    by (simp add: go_eval)
  from Delete_raw_sql [OF a _ _ k, of "\<lparr>fails = (\<lambda>_. None), raw_sql = (\<lambda>_. Some 1)\<rparr>"] a k
  show ?thesis by (simp add: go_eval)
qed

end
