(* ===== verification/Handler.thy ===== *)
theory Handler
  imports Repository
begin

text \<open>
  The REST layer of package \<open>service\<close> (src/service/handler.go): the five handlers of
  \<open>modelService\<close> and the routes \<open>RegisterHandler\<close> mounts.  A handler takes the
  database state and the request and returns the new state and the response it stops
  the context with.  The request body is given by what the JSON decoder of
  \<open>ctx.ReadBody\<close> makes of it for the parameter type it is read into: an error
  message or a value of that type.  A panic in a handler is caught by the recover
  middleware of \<open>iris.Default()\<close> (src/unnamed/part_000) and answered with status 500.
\<close>

datatype response =
    JSONResp nat gval                  \<comment> \<open>\<open>ctx.StopWithJSON(status, object)\<close>\<close>
  | ErrResp nat string string          \<comment> \<open>\<open>{"error": ..., "error_code": ...}\<close>\<close>
  | StatusResp nat                     \<comment> \<open>\<open>ctx.StopWithStatus\<close>\<close>

type_synonym body = "gtype \<Rightarrow> string + gval"

subsection \<open>Error texts\<close>

fun nat_str :: "nat \<Rightarrow> string" where
  "nat_str n = (if n < 10 then [char_of (48 + n)] else nat_str (n div 10) @ [char_of (48 + n mod 10)])"

text \<open>\<open>err.Error()\<close> of the copier's and the engine's errors, from their \<open>fmt.Errorf\<close>
  formats; the arrow of \<open>copyField\<close> is the UTF-8 encoding of U+2192.\<close>
fun cerr_msg :: "cerr \<Rightarrow> string" where
  "cerr_msg CopyStructNotStructs = ''both values must be structs''"
| "cerr_msg (TypeMismatch a b) =
     ''type mismatch: '' @ type_String a @ [CHR '' '', char_of (226::nat), char_of (134::nat), char_of (146::nat), CHR '' ''] @ type_String b"
| "cerr_msg (FieldErr n e) = ''field '' @ n @ '': '' @ cerr_msg e"
| "cerr_msg (ElemErr i e) = ''element '' @ nat_str i @ '': '' @ cerr_msg e"
| "cerr_msg (IndexErr n i e) = n @ ''['' @ nat_str i @ '']: '' @ cerr_msg e"
| "cerr_msg (NameErr n e) = n @ '': '' @ cerr_msg e"
| "cerr_msg (CannotSet n) = ''model field '' @ n @ '' cannot be set''"

fun dberr_msg :: "dberr \<Rightarrow> string" where
  "dberr_msg ErrRecordNotFound = ''record not found''"
| "dberr_msg (DBError s) = s"

text \<open>\<open>ctx.Params().GetUint("id")\<close>: \<open>strconv.ParseUint(s, 10, 64)\<close>.\<close>
definition get_uint :: "string \<Rightarrow> nat option" where
  "get_uint s = (if s \<noteq> [] \<and> list_all is_digit s \<and> digits_val s < 2 ^ 64 then Some (digits_val s) else None)"

text \<open>The type a generated parameter value points to.\<close>
fun params_type :: "gval \<Rightarrow> gtype" where
  "params_type (VPtr p _) = p"
| "params_type v = type_of v"

text \<open>A database connection on which no call fails and no raw condition matches.\<close>
definition no_fault_env :: env where
  "no_fault_env = \<lparr>fails = (\<lambda>_. None), raw_sql = (\<lambda>_. None)\<rparr>"

subsection \<open>The handlers\<close>

definition GetByID_handler :: "env \<Rightarrow> gtype \<Rightarrow> string \<Rightarrow> db \<Rightarrow> db \<times> response" where
  "GetByID_handler e t idp d =
     (case get_uint idp of
        None \<Rightarrow> (d, ErrResp 400 (''strconv.ParseUint: parsing '' @ idp @ '': invalid syntax'') ''CANT_READ_ID'')
      | Some n \<Rightarrow>
          (case GetByID e t (IdUint n) d of
             (d', _, Some err) \<Rightarrow> (d', ErrResp 400 (dberr_msg err) ''FETCH_READ_OBJECT_ERROR'')
           | (d', obj, None) \<Rightarrow> (d', JSONResp 200 obj)))"

definition GetAll_handler :: "env \<Rightarrow> gtype \<Rightarrow> db \<Rightarrow> db \<times> response" where
  "GetAll_handler e t d =
     (case GetAll e t [] d of
        (d', _, Some err) \<Rightarrow> (d', ErrResp 400 (dberr_msg err) ''FETCH_ERROR'')
      | (d', objs, None) \<Rightarrow> (d', JSONResp 200 (VSlice t objs)))"

definition Create_handler :: "env \<Rightarrow> gtype \<Rightarrow> body \<Rightarrow> db \<Rightarrow> db \<times> response" where
  "Create_handler e t b d =
     (case GenerateCreateParameters t of
        Inl (Panic _) \<Rightarrow> (d, StatusResp 500)
      | Inl (Err c) \<Rightarrow> (d, ErrResp 400 (cerr_msg c) ''GENERATE_CREATE_PARAMS_ERROR'')
      | Inr cp \<Rightarrow>
          (case b (params_type cp) of
             Inl m \<Rightarrow> (d, ErrResp 400 m ''PARSE_CREATE_PARAMS_ERROR'')
           | Inr pv \<Rightarrow>
               (case FillModelFromCreateParameters t (VPtr (params_type cp) (Some pv)) of
                  Inl (Panic _) \<Rightarrow> (d, StatusResp 500)
                | Inl (Err c) \<Rightarrow> (d, ErrResp 400 (cerr_msg c) ''GENERATE_CREATE_MODEL_ERROR'')
                | Inr model \<Rightarrow>
                    (case Create e model d of
                       (d', _, Some err) \<Rightarrow> (d', ErrResp 400 (dberr_msg err) ''CREATE_ERROR'')
                     | (d', model', None) \<Rightarrow> (d', JSONResp 201 model')))))"

definition UpdatePatch_handler :: "env \<Rightarrow> nat list \<Rightarrow> gtype \<Rightarrow> string \<Rightarrow> body \<Rightarrow> db \<Rightarrow> db \<times> response" where
  "UpdatePatch_handler e ord t objId b d =
     (case GetByID e t (IdString objId) d of
        (d1, _, Some err) \<Rightarrow> (d1, ErrResp 400 (dberr_msg err) ''NOT_FOUND'')
      | (d1, objModel, None) \<Rightarrow>
          (case GenerateUpdateParameters t of
             Inl (Panic _) \<Rightarrow> (d1, StatusResp 500)
           | Inl (Err c) \<Rightarrow> (d1, ErrResp 400 (cerr_msg c) ''GENERATE_UPDATE_PARAMS_ERROR'')
           | Inr up \<Rightarrow>
               (case b (params_type up) of
                  Inl m \<Rightarrow> (d1, ErrResp 400 m ''PARSE_UPDATE_PARAMS_ERROR'')
                | Inr pv \<Rightarrow>
                    (case UpdateModelFromUpdateParameters ord objModel (VPtr (params_type up) (Some pv)) of
                       Inl _ \<Rightarrow> (d1, StatusResp 500)
                     | Inr (_, Some c) \<Rightarrow> (d1, ErrResp 400 (cerr_msg c) ''GENERATE_UPDATE_MODEL_ERROR'')
                     | Inr (model, None) \<Rightarrow>
                         (case Update e model d1 of
                            Inl _ \<Rightarrow> (d1, StatusResp 500)
                          | Inr (d2, Some err) \<Rightarrow> (d2, ErrResp 400 (dberr_msg err) ''UPDATE_ERROR'')
                          | Inr (d2, None) \<Rightarrow> (d2, JSONResp 200 model))))))"

definition Delete_handler :: "env \<Rightarrow> string \<Rightarrow> db \<Rightarrow> db \<times> response" where
  "Delete_handler e objId d =
     (case Delete e (IdString objId) d of
        (d', Some err) \<Rightarrow> (d', ErrResp 400 (dberr_msg err) ''DELETE_ERROR'')
      | (d', None) \<Rightarrow> (d', StatusResp 204))"

subsection \<open>Routes\<close>

text \<open>
  \<open>structNameToSnake\<close> (src/service/helpers.go): the type name of a struct, or of
  the struct a pointer points to, in snake case; the empty string for any other type.
  The case conversion is the third-party \<open>strcase.ToSnake\<close>, taken as the parameter
  \<open>toSnake\<close>.
\<close>
definition structNameToSnake :: "(string \<Rightarrow> string) \<Rightarrow> gtype \<Rightarrow> string" where
  "structNameToSnake toSnake t =
     (let t = (case t of TPtr e \<Rightarrow> e | _ \<Rightarrow> t)
      in if kind t = KStruct then toSnake (type_Name t) else [])"

text \<open>The prefix \<open>fmt.Sprintf("/%s", routerName)\<close> of the party \<open>RegisterHandler\<close>
  mounts for \<open>T\<close>; the name is taken of \<open>new(T)\<close>, a \<open>*T\<close>.\<close>
definition router_path :: "(string \<Rightarrow> string) \<Rightarrow> gtype \<Rightarrow> string" where
  "router_path toSnake t = ''/'' @ structNameToSnake toSnake (TPtr t)"

text \<open>The requests \<open>RegisterHandler\<close> routes under \<open>/api/<type name>\<close>: the path
  parameter \<open>{id}\<close> is the raw segment.\<close>
datatype request =
    GetAllReq            \<comment> \<open>\<open>GET /\<close>\<close>
  | GetReq string        \<comment> \<open>\<open>GET /{id}\<close>\<close>
  | PostReq body         \<comment> \<open>\<open>POST /\<close>\<close>
  | DeleteReq string     \<comment> \<open>\<open>DELETE /{id}\<close>\<close>
  | PatchReq string body \<comment> \<open>\<open>PATCH /{id}\<close>\<close>

fun RegisterHandler :: "env \<Rightarrow> nat list \<Rightarrow> gtype \<Rightarrow> db \<Rightarrow> request \<Rightarrow> db \<times> response" where
  "RegisterHandler e ord t d GetAllReq = GetAll_handler e t d"
| "RegisterHandler e ord t d (GetReq i) = GetByID_handler e t i d"
| "RegisterHandler e ord t d (PostReq b) = Create_handler e t b d"
| "RegisterHandler e ord t d (DeleteReq i) = Delete_handler e i d"
| "RegisterHandler e ord t d (PatchReq i b) = UpdatePatch_handler e ord t i b d"

text \<open>A sequence of requests served one after the other, each under its environment
  and map order.\<close>
fun serve_all :: "gtype \<Rightarrow> db \<Rightarrow> (env \<times> nat list \<times> request) list \<Rightarrow> db \<times> response list" where
  "serve_all t d [] = (d, [])"
| "serve_all t d ((e, ord, r) # rs) =
     (let (d', resp) = RegisterHandler e ord t d r; (d'', resps) = serve_all t d' rs
      in (d'', resp # resps))"

subsection \<open>HTTP dispatch\<close>

text \<open>
  The route table \<open>RegisterHandler\<close> gives the Iris party: \<open>GET /\<close>,
  \<open>GET /{id}\<close>, \<open>POST /\<close>, \<open>DELETE /{id}\<close>, \<open>PATCH /{id}\<close>, under the party
  prefix.  A route \<open>/\<close> of a party matches the prefix itself; \<open>{id}\<close> matches one
  non-empty path segment.  A path or method with no route is answered 404 by Iris
  (its default does not fire 405).
\<close>
datatype http_method = GET | POST | PATCH | DELETE | OtherMethod string

definition seg_ok :: "string \<Rightarrow> bool" where
  "seg_ok i \<longleftrightarrow> i \<noteq> [] \<and> CHR ''/'' \<notin> set i"

text \<open>The rest of a path after a prefix, if the path starts with it.\<close>
fun strip_prefix :: "string \<Rightarrow> string \<Rightarrow> string option" where
  "strip_prefix [] ys = Some ys"
| "strip_prefix (x # xs) [] = None"
| "strip_prefix (x # xs) (y # ys) = (if x = y then strip_prefix xs ys else None)"

definition dispatch :: "string \<Rightarrow> http_method \<Rightarrow> string \<Rightarrow> body \<Rightarrow> request option" where
  "dispatch prefix m path b =
     (if path = prefix then
        (case m of GET \<Rightarrow> Some GetAllReq | POST \<Rightarrow> Some (PostReq b) | _ \<Rightarrow> None)
      else
        (case strip_prefix (prefix @ ''/'') path of
           Some i \<Rightarrow>
             if seg_ok i then
               (case m of
                  GET \<Rightarrow> Some (GetReq i)
                | DELETE \<Rightarrow> Some (DeleteReq i)
                | PATCH \<Rightarrow> Some (PatchReq i b)
                | _ \<Rightarrow> None)
             else None
         | None \<Rightarrow> None))"

text \<open>\<open>main\<close>: the party \<open>/api\<close> of the server, and in it the party of the model type.\<close>
definition api_prefix :: "(string \<Rightarrow> string) \<Rightarrow> gtype \<Rightarrow> string" where
  "api_prefix toSnake t = ''/api'' @ router_path toSnake t"

text \<open>One HTTP request served by the registered routes.\<close>
definition serve_http ::
  "string \<Rightarrow> env \<Rightarrow> nat list \<Rightarrow> gtype \<Rightarrow> db \<Rightarrow> http_method \<Rightarrow> string \<Rightarrow> body \<Rightarrow> db \<times> response" where
  "serve_http prefix e ord t d m path b =
     (case dispatch prefix m path b of
        None \<Rightarrow> (d, StatusResp 404)
      | Some r \<Rightarrow> RegisterHandler e ord t d r)"

text \<open>The method, path and body a client sends for a request.\<close>
fun req_method :: "request \<Rightarrow> http_method" where
  "req_method GetAllReq = GET"
| "req_method (GetReq _) = GET"
| "req_method (PostReq _) = POST"
| "req_method (DeleteReq _) = DELETE"
| "req_method (PatchReq _ _) = PATCH"

fun req_path :: "string \<Rightarrow> request \<Rightarrow> string" where
  "req_path prefix GetAllReq = prefix"
| "req_path prefix (PostReq _) = prefix"
| "req_path prefix (GetReq i) = prefix @ ''/'' @ i"
| "req_path prefix (DeleteReq i) = prefix @ ''/'' @ i"
| "req_path prefix (PatchReq i _) = prefix @ ''/'' @ i"

fun req_body :: "request \<Rightarrow> body" where
  "req_body (PostReq b) = b"
| "req_body (PatchReq _ b) = b"
| "req_body _ = (\<lambda>_. Inl ''EOF'')"

fun req_ok :: "request \<Rightarrow> bool" where
  "req_ok (GetReq i) = seg_ok i"
| "req_ok (DeleteReq i) = seg_ok i"
| "req_ok (PatchReq i _) = seg_ok i"
| "req_ok _ = True"

fun resp_status :: "response \<Rightarrow> nat" where
  "resp_status (JSONResp s _) = s"
| "resp_status (ErrResp s _ _) = s"
| "resp_status (StatusResp s) = s"

fun resp_code :: "response \<Rightarrow> string option" where
  "resp_code (ErrResp _ _ c) = Some c"
| "resp_code _ = None"

text \<open>The error codes of the spec (section 4.6).\<close>
definition error_codes :: "string list" where
  "error_codes = [''CANT_READ_ID'', ''FETCH_READ_OBJECT_ERROR'', ''FETCH_ERROR'',
     ''GENERATE_CREATE_PARAMS_ERROR'', ''PARSE_CREATE_PARAMS_ERROR'', ''GENERATE_CREATE_MODEL_ERROR'',
     ''CREATE_ERROR'', ''NOT_FOUND'', ''GENERATE_UPDATE_PARAMS_ERROR'', ''PARSE_UPDATE_PARAMS_ERROR'',
     ''GENERATE_UPDATE_MODEL_ERROR'', ''UPDATE_ERROR'', ''DELETE_ERROR'']"

declare seg_ok_def [go_eval] dispatch_def [go_eval] api_prefix_def [go_eval] serve_http_def [go_eval]
declare get_uint_def [go_eval] GetByID_handler_def [go_eval] GetAll_handler_def [go_eval]
  Create_handler_def [go_eval] UpdatePatch_handler_def [go_eval] Delete_handler_def [go_eval]
  error_codes_def [go_eval]

subsection \<open>Route prefixes\<close>

lemma router_path_struct: "router_path ts (TStruct p n fs) = ''/'' @ ts n"
  by (simp add: router_path_def structNameToSnake_def)

text \<open>A type parameter that is not a struct mounts its routes at the party's root.\<close>

lemma router_path_non_struct: "kind t \<noteq> KStruct \<Longrightarrow> router_path ts t = ''/''"
  by (simp add: router_path_def structNameToSnake_def)

subsection \<open>Responses\<close>

text \<open>C28 (functional).  \<open>GET /{id}\<close> with a numeric id, when the database opens
  the transaction and runs the query: a key with no row is answered 400 with code
  \<open>FETCH_READ_OBJECT_ERROR\<close> and GORM's \<open>record not found\<close>, never 5xx; a key with a
  row is answered 200 with the stored model, its contents preloaded; either way the
  read's transaction stays open.\<close>

lemma GetByID_handler_read:
  assumes "fails e CBegin = None" and "fails e CQuery = None" and "get_uint idp = Some n"
  shows "GetByID_handler e t idp d =
     (begin_tx d, case map_of (rows d) n of
                    None \<Rightarrow> ErrResp 400 ''record not found'' ''FETCH_READ_OBJECT_ERROR''
                  | Some v \<Rightarrow> JSONResp 200 (load_row (hasContents t) v))"
  using assms by (simp add: GetByID_handler_def GetByID_def first_row_pk split: option.splits)

lemma GetByID_handler_read_witness:
  "fails no_fault_env CBegin = None \<and> fails no_fault_env CQuery = None \<and> get_uint ''7'' = Some 7 \<and>
   GetByID_handler no_fault_env Blog_t ''7'' (put_row 3 (Blog_val (Blog.make 3 0 0 [] ''bob'' True)) db_init) =
     (begin_tx (put_row 3 (Blog_val (Blog.make 3 0 0 [] ''bob'' True)) db_init),
      ErrResp 400 ''record not found'' ''FETCH_READ_OBJECT_ERROR'')"
proof -
  have h: "fails no_fault_env CBegin = None" "fails no_fault_env CQuery = None" "get_uint ''7'' = Some 7"
    by (simp_all add: no_fault_env_def get_uint_def go_eval)
  from GetByID_handler_read [OF h, of Blog_t "put_row 3 (Blog_val (Blog.make 3 0 0 [] ''bob'' True)) db_init"] h
  show ?thesis by (simp add: put_row_def go_map_put_def db_init_def)
qed

text \<open>Every request is answered with status 200, 201, 204, 400 or 500, and every
  error response carries one of the error codes of the spec.\<close>

lemma RegisterHandler_responses:
  "resp_status (snd (RegisterHandler e ord t d r)) \<in> {200, 201, 204, 400, 500} \<and>
   (case resp_code (snd (RegisterHandler e ord t d r)) of None \<Rightarrow> True | Some c \<Rightarrow> c \<in> set error_codes)"
  by (cases r)
     (auto simp: GetAll_handler_def GetByID_handler_def Create_handler_def Delete_handler_def
        UpdatePatch_handler_def error_codes_def
        split: option.splits sum.splits prod.splits fault.splits)

text \<open>C29. A \<open>PATCH\<close> whose object cannot be read is answered with 400 and code
  \<open>NOT_FOUND\<close>, whatever the database error was, and the read leaves its transaction
  open.\<close>

lemma PatchReq_not_found:
  "snd (snd (GetByID e t (IdString i) d)) = Some err \<Longrightarrow>
   RegisterHandler e ord t d (PatchReq i b) = (fst (GetByID e t (IdString i) d), ErrResp 400 (dberr_msg err) ''NOT_FOUND'')"
  by (cases "GetByID e t (IdString i) d") (simp add: UpdatePatch_handler_def)

lemma PatchReq_not_found_witness:
  "snd (snd (GetByID \<lparr>fails = (\<lambda>_. None), raw_sql = (\<lambda>_. None)\<rparr> Blog_t (IdString ''7'') db_init)) = Some ErrRecordNotFound \<and>
   RegisterHandler \<lparr>fails = (\<lambda>_. None), raw_sql = (\<lambda>_. None)\<rparr> [] Blog_t db_init (PatchReq ''7'' (\<lambda>_. Inl ''unexpected EOF'')) =
     (fst (GetByID \<lparr>fails = (\<lambda>_. None), raw_sql = (\<lambda>_. None)\<rparr> Blog_t (IdString ''7'') db_init),
      ErrResp 400 (dberr_msg ErrRecordNotFound) ''NOT_FOUND'')"
proof -
  have g: "snd (snd (GetByID \<lparr>fails = (\<lambda>_. None), raw_sql = (\<lambda>_. None)\<rparr> Blog_t (IdString ''7'') db_init)) = Some ErrRecordNotFound"
    by (simp add: go_eval)
  from PatchReq_not_found [OF g] g show ?thesis by simp
qed

text \<open>A \<open>PATCH\<close> for a content model, which embeds no \<open>orm.Model\<close>, panics in the
  repository's \<open>Update\<close> and is answered with status 500.\<close>

lemma PatchReq_content_model_panics:
  "snd (RegisterHandler \<lparr>fails = (\<lambda>_. None), raw_sql = (\<lambda>_. None)\<rparr> [] BlogContent_t
     (put_row 1 (BlogContent_val (BlogContent.make ''en'' (Language.make ''en'' ''English'' 0 0) 1 1 ''hello'' 3)) db_init)
     (PatchReq ''1'' (\<lambda>p. Inr (zero p)))) = StatusResp 500"
  by (simp add: go_eval BlogContent.make_def Language.make_def)

subsection \<open>Dispatch\<close>

lemma strip_prefix_append [simp]: "strip_prefix xs (xs @ ys) = Some ys"
  by (induction xs) simp_all

lemma strip_prefix_Some: "strip_prefix xs zs = Some ys \<Longrightarrow> zs = xs @ ys"
  by (induction xs zs rule: strip_prefix.induct) (simp_all split: if_splits)

lemma dispatch_item:
  "seg_ok i \<Longrightarrow> dispatch prefix m (prefix @ CHR ''/'' # i) b =
     (case m of GET \<Rightarrow> Some (GetReq i) | DELETE \<Rightarrow> Some (DeleteReq i)
      | PATCH \<Rightarrow> Some (PatchReq i b) | _ \<Rightarrow> None)"
  using strip_prefix_append [of "prefix @ ''/''" i] by (simp add: dispatch_def)

text \<open>The routes parse back what a client prints: a request sent with
  its method, its path under the party prefix and its body reaches the handler for
  exactly that request, for every identifier that is one path segment.\<close>

lemma dispatch_roundtrip:
  "req_ok r \<Longrightarrow> dispatch prefix (req_method r) (req_path prefix r) (req_body r) = Some r"
  by (cases r) (simp_all add: dispatch_item, simp_all add: dispatch_def)

lemma dispatch_roundtrip_witness:
  "req_ok (PatchReq ''7'' (\<lambda>_. Inl ''EOF'')) \<and>
   dispatch (api_prefix (\<lambda>n. map to_lower n) Blog_t) PATCH ''/api/blog/7'' (\<lambda>_. Inl ''EOF'') =
     Some (PatchReq ''7'' (\<lambda>_. Inl ''EOF''))"
  using dispatch_roundtrip [of "PatchReq ''7'' (\<lambda>_. Inl ''EOF'')" "api_prefix (\<lambda>n. map to_lower n) Blog_t"]
  by (simp add: seg_ok_def api_prefix_def router_path_def structNameToSnake_def Blog_t_def to_lower_def
      is_upper_def char_of_def bit_simps)

text \<open>Conversely every dispatched request is the one its method and path print.\<close>

lemma dispatch_sound:
  "dispatch prefix m path b = Some r \<Longrightarrow> req_ok r \<and> m = req_method r \<and> path = req_path prefix r"
  by (cases m) (auto simp: dispatch_def split: if_splits option.splits dest!: strip_prefix_Some)

end
