(* ===== verification/Interfaces.thy ===== *)
theory Interfaces
  imports Handler
begin

text \<open>
  The Go interfaces through which the components meet: \<open>service.Engine[T]\<close>
  (src/unnamed/part_001) and \<open>repository.Repository[T]\<close> (src/repository/), as
  records of operations, with their constructors \<open>CreateEngine\<close> and
  \<open>NewGenericRepository\<close>.  For the repository, the interface's contract is a
  predicate on such a record, the implementation discharges it, and a client that
  only knows the contract keeps the table invariant over any sequence of calls.
\<close>

record Engine_ops =
  eng_GenerateCreateParameters :: "fault + gval"
  eng_GenerateUpdateParameters :: "fault + gval"
  eng_GenerateFilterParameters :: "fault + gval"
  eng_FillModelFromCreateParameters :: "gval \<Rightarrow> fault + gval"
  eng_UpdateModelFromUpdateParameters :: "nat list \<Rightarrow> gval \<Rightarrow> gval \<Rightarrow> fault + gval \<times> cerr option"

text \<open>\<open>CreateEngine[M]()\<close>: the stateless \<open>engine[M]\<close>, its methods at the type \<open>M\<close>.\<close>
definition CreateEngine :: "gtype \<Rightarrow> Engine_ops" where
  "CreateEngine t =
     \<lparr>eng_GenerateCreateParameters = GenerateCreateParameters t,
      eng_GenerateUpdateParameters = GenerateUpdateParameters t,
      eng_GenerateFilterParameters = GenerateFilterParameters t,
      eng_FillModelFromCreateParameters = FillModelFromCreateParameters t,
      eng_UpdateModelFromUpdateParameters = UpdateModelFromUpdateParameters\<rparr>"

text \<open>\<open>Repository[T]\<close>: each method a function of the database state.  A \<open>ScopeWithLog\<close>
  is the row filter it adds to the query.\<close>
record Repository_ops =
  repo_GetByID :: "id_arg \<Rightarrow> db \<Rightarrow> db \<times> gval \<times> dberr option"
  repo_GetAll :: "(gval \<Rightarrow> bool) list \<Rightarrow> db \<Rightarrow> db \<times> gval list \<times> dberr option"
  repo_Create :: "gval \<Rightarrow> db \<Rightarrow> db \<times> gval \<times> dberr option"
  repo_Update :: "gval \<Rightarrow> db \<Rightarrow> string + db \<times> dberr option"
  repo_Delete :: "id_arg \<Rightarrow> db \<Rightarrow> db \<times> dberr option"

text \<open>\<open>NewGenericRepository[T](db, logger)\<close>: the GORM connection is the environment \<open>e\<close>.\<close>
definition NewGenericRepository :: "env \<Rightarrow> gtype \<Rightarrow> Repository_ops" where
  "NewGenericRepository e t =
     \<lparr>repo_GetByID = GetByID e t, repo_GetAll = GetAll e t, repo_Create = Create e,
      repo_Update = Update e, repo_Delete = Delete e\<rparr>"

text \<open>
  The contract a client of \<open>Repository[T]\<close> relies on: every method keeps the table
  invariant, and a \<open>Create\<close> that reports an error leaves the committed rows as they
  were.
\<close>
definition repo_contract :: "Repository_ops \<Rightarrow> bool" where
  "repo_contract R \<longleftrightarrow>
     (\<forall>a d. repo_inv d \<longrightarrow> repo_inv (fst (repo_GetByID R a d))) \<and>
     (\<forall>s d. repo_inv d \<longrightarrow> repo_inv (fst (repo_GetAll R s d))) \<and>
     (\<forall>v d. repo_inv d \<longrightarrow> repo_inv (fst (repo_Create R v d))) \<and>
     (\<forall>v d. snd (snd (repo_Create R v d)) \<noteq> None \<longrightarrow> rows (fst (repo_Create R v d)) = rows d) \<and>
     (\<forall>v d p. repo_inv d \<longrightarrow> repo_Update R v d = Inr p \<longrightarrow> repo_inv (fst p)) \<and>
     (\<forall>a d. repo_inv d \<longrightarrow> repo_inv (fst (repo_Delete R a d)))"

text \<open>A call of a repository method by a client; a panic in \<open>Update\<close> ends the
  request and leaves the state as it was.\<close>
datatype repo_call =
    CallGetByID id_arg
  | CallGetAll "(gval \<Rightarrow> bool) list"
  | CallCreate gval
  | CallUpdate gval
  | CallDelete id_arg

fun repo_call_step :: "Repository_ops \<Rightarrow> db \<Rightarrow> repo_call \<Rightarrow> db" where
  "repo_call_step R d (CallGetByID a) = fst (repo_GetByID R a d)"
| "repo_call_step R d (CallGetAll s) = fst (repo_GetAll R s d)"
| "repo_call_step R d (CallCreate v) = fst (repo_Create R v d)"
| "repo_call_step R d (CallUpdate v) = (case repo_Update R v d of Inl _ \<Rightarrow> d | Inr p \<Rightarrow> fst p)"
| "repo_call_step R d (CallDelete a) = fst (repo_Delete R a d)"

definition repo_run :: "Repository_ops \<Rightarrow> db \<Rightarrow> repo_call list \<Rightarrow> db" where
  "repo_run R d cs = foldl (repo_call_step R) d cs"

subsection \<open>The implementation meets the contract\<close>

lemma Create_error_keeps_rows:
  "snd (snd (Create e v d)) \<noteq> None \<Longrightarrow> rows (fst (Create e v d)) = rows d"
  by (simp add: Create_def Let_def split_def rollback_def commit_def begin_tx_def
      split: option.splits if_splits)

lemma NewGenericRepository_contract: "repo_contract (NewGenericRepository e t)"
proof -
  have u: "repo_inv d \<Longrightarrow> Update e v d = Inr (d', r) \<Longrightarrow> repo_inv d'" for v d d' r
    using repo_inv_Update [of d e v "(d', r)"] by simp
  show ?thesis
    unfolding repo_contract_def NewGenericRepository_def
    by (auto intro: repo_inv_GetByID repo_inv_GetAll repo_inv_Create repo_inv_Delete
        Create_error_keeps_rows u)
qed

subsection \<open>A client of the contract\<close>

lemma repo_call_step_inv: "repo_contract R \<Longrightarrow> repo_inv d \<Longrightarrow> repo_inv (repo_call_step R d c)"
  by (cases c) (auto simp: repo_contract_def split: sum.splits)

lemma repo_run_inv: "repo_contract R \<Longrightarrow> repo_inv d \<Longrightarrow> repo_inv (repo_run R d cs)"
  unfolding repo_run_def
  by (induction cs arbitrary: d rule: rev_induct) (simp_all add: repo_call_step_inv)

text \<open>Any sequence of calls on the GORM repository from the empty database keeps one row
  per non-zero key below the counter.\<close>

lemma NewGenericRepository_run_inv: "repo_inv (repo_run (NewGenericRepository e t) db_init cs)"
  by (rule repo_run_inv [OF NewGenericRepository_contract repo_inv_init])

end
