(* ===== verification/Spec2Isabelle.thy ===== *)
theory Spec2Isabelle
  imports Go_Prelude Go_Reflect Orm Blog_Example Copier Extract Engine Repository Handler Interfaces
begin

text \<open>
  \<^bold>\<open>A verification development of the origin CRUD scaffolding library.\<close>

  \<^emph>\<open>The program.\<close>  Package \<open>orm\<close> (src/orm/model.go) declares the base records
  \<open>Model\<close>, \<open>Language\<close> and \<open>ContentModel\<close>, the \<open>IContentModel\<close> capability and
  the content merge \<open>GetAllContentsWithUpdated\<close> and the reflective conversion
  \<open>ExtractContent\<close>.  Package \<open>service\<close> holds the
  reflective helpers (src/service/helpers.go: \<open>copyField\<close>, \<open>copyStruct\<close>,
  \<open>getLanguageID\<close>, \<open>mergeContents\<close>, \<open>handleSliceUpdate\<close>,
  \<open>handleContentUpdate\<close>, \<open>toSnakeCase\<close>, \<open>fillStruct\<close>,
  \<open>structNameToSnake\<close>), the generic engine (src/unnamed/part_001:
  \<open>GenerateCreateParameters\<close>, \<open>GenerateUpdateParameters\<close>,
  \<open>GenerateFilterParameters\<close>, \<open>FillModelFromCreateParameters\<close>,
  \<open>UpdateModelFromUpdateParameters\<close>) and the REST handlers (src/service/handler.go).
  Package \<open>repository\<close> (src/repository/) wraps GORM in transactions.  The example
  application (src/unnamed/part_000) registers a \<open>Blog\<close> with multilingual
  \<open>BlogContent\<close>s.  A request flows handler \<open>\<rightarrow>\<close> engine \<open>\<rightarrow>\<close> copier \<open>\<rightarrow>\<close>
  repository.

  \<^emph>\<open>The theories.\<close>
  \<^item> Go_Prelude: the Go map as an association list with distinct keys and its
    unordered \<open>range\<close> as an explicit order \<open>ord\<close>, valid when it is a permutation of
    the positions (\<open>go_range_order\<close>); \<open>keyed\<close>, the abstract language-to-content
    map; \<open>sbind\<close>, sequencing of fallible steps.
  \<^item> Go_Reflect: the part of \<open>reflect\<close> the code uses, from the Go documentation:
    runtime types and values, \<open>zero\<close>, the typing invariant \<open>wt\<close>,
    \<open>AssignableTo\<close>/\<open>ConvertibleTo\<close>/\<open>Convert\<close>/\<open>Set\<close>, \<open>FieldByName\<close> through
    embedded structs, \<open>MethodByName\<close>, \<open>CanSet\<close>; typing is preserved by every
    operation.
  \<^item> Orm: the records and their runtime types, \<open>GetLanguageID\<close>, \<open>IsContentModel\<close>,
    the merge, with its refinement of \<open>keyed cur ++ keyed inp\<close> for every map order
    (C1-C4).
  \<^item> Blog_Example: \<open>Blog\<close> and \<open>BlogContent\<close> as records (embedding is record
    extension), as runtime types, and the well-typed encoding between them.
  \<^item> Copier: the helpers; a location is its value and a helper returns the new value
    with its error, so partial writes before an error stay visible.  Round trip for
    plain structs (C6), the content update as a refinement (C7), the nil source
    pointer (C8), the field loop stopping at the first error (C9), the rune
    conversion (C10).  The unused \<open>handleSliceUpdate\<close> agrees with
    \<open>handleContentUpdate\<close> when every copy succeeds (C5).  \<open>fillStruct\<close> (three
    mutually recursive functions, terminating by the size of the source) loses every
    timestamp of a blog (C16).  Typing lemmas (\<open>copyStruct\<close> keeps a destination well
    typed) support these proofs.
  \<^item> Extract: \<open>ExtractContent\<close>, with a panic of \<open>Set\<close> as \<open>Inl\<close>; on inputs of the
    target's field types it computes what \<open>copyStruct\<close> computes (C20), and it panics
    where \<open>copyStruct\<close> converts or reports an error.
  \<^item> Engine: the generators over field lists, with the \<open>addedFields\<close> map threaded
    as a set, and fill and update over values; reflect panics are the value
    \<open>Panic\<close>.  Shape properties (C11-C14); every field whose name contains
    \<open>Model\<close> is missing from the create type (C18); a model with an unexported plain
    field has no create or update type (C19); an all-nil update changes nothing (C17);
    the unused \<open>UpdateModelFromUpdateParameters1\<close> writes to a model it never
    allocates, so it panics on any set field (C15).
  \<^item> Repository: the database as a state (committed rows, auto-increment counter,
    open transactions), the driver's failures and raw SQL as an environment \<open>env\<close>,
    each method one function of the state; \<open>repo_step\<close> is the inductive step
    relation of the interface and \<open>reachable\<close> its runs, with the table invariant by
    rule induction, used by the claims on \<open>Create\<close> and \<open>GetByID\<close>: fresh key,
    atomicity, the transaction leak, the rollback error, round trip, delete and raw
    SQL (C21-C27).
  \<^item> Handler: responses, error texts from the \<open>fmt.Errorf\<close> formats, the five
    handlers and the routing of \<open>RegisterHandler\<close> as a function on requests,
    the route prefix from \<open>structNameToSnake\<close> under the \<open>/api\<close> party of
    \<open>main\<close>, and the route table as \<open>dispatch\<close> from method and path to request;
    \<open>serve_http\<close> answers a request off the table with 404; \<open>serve_all\<close> runs a
    request sequence.  A read by id answers 200 or 400 \<open>FETCH_READ_OBJECT_ERROR\<close> from
    the table's contents (C28); a \<open>PATCH\<close> whose read fails answers \<open>NOT_FOUND\<close>
    (C29).
  \<^item> Interfaces: the interfaces \<open>Engine[T]\<close> and \<open>Repository[T]\<close> as records of
    operations built by \<open>CreateEngine\<close> and \<open>NewGenericRepository\<close>; the
    repository's contract (\<open>repo_contract\<close>: the table invariant is kept and a
    failed \<open>Create\<close> keeps the rows) holds of the GORM implementation, and a client
    that only knows the contract keeps the invariant over any call sequence.
  \<^item> this theory: the end-to-end scenario of the spec across all components (C30).

  \<^emph>\<open>Choices.\<close>  No bound or fuel is needed: every loop of the code runs over a
  list or a finite type and is structural recursion, \<open>fpaths\<close>/\<open>mtpaths\<close>
  terminate by the size of the type and \<open>fillStruct\<close> by the size of the source
  value.  Values are finite trees, so the pointer loop of \<open>copyField\<close> is the
  recursion \<open>deref_src\<close>: a cyclic pointer chain, on which the Go loop never ends,
  cannot be represented.  Map orders are arguments, and theorems hold for every
  valid order.  Keys are \<open>nat\<close>, as the database's counter is unbounded here; a key is
  written into the model as a 64-bit \<open>uint\<close> (\<open>64 word\<close>).

  \<^emph>\<open>Not modelled.\<close>  I/O and libraries: HTTP routing inside Iris, JSON decoding
  (its result is the input \<open>body\<close>), logging, SQL beyond the table as a map (raw
  conditions are an oracle), GORM timestamps, association tables (a row holds its
  contents), \<open>strcase.ToSnake\<close> (a parameter of \<open>structNameToSnake\<close>),
  \<open>main()\<close> start-up.  GORM's \<open>Save\<close> without \<open>FullSaveAssociations\<close> upserts
  associations on their key only; the model's \<open>Update\<close> stores the whole value, its
  contents included, and no claim reads the rows after an update.  Dead code: \<open>UpdateModelFromUpdateParameters1\<close> and the
  commented-out variants (\<open>FillModelFromCreateParameters1\<close>, older \<open>copyField\<close>
  and \<open>handleContentUpdate\<close>).
  \<open>NewModelService\<close> only pairs an engine and a repository: the handlers are modelled
  with the engine and the repository \<open>main\<close> builds, so the \<open>Service[T]\<close>
  interface is the \<open>request\<close> datatype routed by \<open>RegisterHandler\<close>.  Aliasing: a value is a tree, so a pointer copied by \<open>Set\<close> is
  copied, not shared; no claim depends on sharing.
\<close>

section \<open>The blog scenario\<close>

text \<open>The contents of the scenario, and the requests: create a blog with an English
  and an Arabic content, then patch it with a new English content.\<close>
definition en_hello :: BlogContent where
  "en_hello = BlogContent.make ''en'' (Language.make [] [] 0 0) 0 0 ''hello'' 0"

definition ar_marhaba :: BlogContent where
  "ar_marhaba = BlogContent.make ''ar'' (Language.make [] [] 0 0) 0 0 ''marhaba'' 0"

definition en_hi :: BlogContent where
  "en_hi = BlogContent.make ''en'' (Language.make [] [] 0 0) 0 0 ''hi'' 0"

definition create_body :: body where
  "create_body p = Inr (VStruct p
     [VSlice Blog_content_params_t
        [VStruct Blog_content_params_t [VString ''en'', VString ''hello''],
         VStruct Blog_content_params_t [VString ''ar'', VString ''marhaba'']],
      VString ''bob'', VBool True])"

definition patch_body :: body where
  "patch_body p = Inr (VStruct p
     [VPtr (TSlice Blog_content_params_t)
        (Some (VSlice Blog_content_params_t [VStruct Blog_content_params_t [VString ''en'', VString ''hi'']])),
      VPtr TString None, VPtr TBool None])"

definition no_faults :: env where
  "no_faults = \<lparr>fails = (\<lambda>_. None), raw_sql = (\<lambda>_. None)\<rparr>"

definition patch_params :: gval where
  "patch_params = VStruct Blog_update_t
     [VPtr (TSlice Blog_content_params_t)
        (Some (VSlice Blog_content_params_t [VStruct Blog_content_params_t [VString ''en'', VString ''hi'']])),
      VPtr TString None, VPtr TBool None]"

declare en_hello_def [go_eval] ar_marhaba_def [go_eval] en_hi_def [go_eval]

lemma Blog_fill_example: "FillModelFromCreateParameters Blog_t (VPtr Blog_create_t (Some (VStruct Blog_create_t
     [VSlice Blog_content_params_t
        [VStruct Blog_content_params_t [VString ''en'', VString ''hello''],
         VStruct Blog_content_params_t [VString ''ar'', VString ''marhaba'']],
      VString ''bob'', VBool True]))) = Inr (Blog_val (Blog.make 0 0 0 [en_hello, ar_marhaba] ''bob'' True))"
  by (simp add: go_eval Blog_create_t_def Blog_content_params_t_def en_hello_def ar_marhaba_def Blog.make_def BlogContent.make_def Language.make_def)

lemma Blog_update_example_01: "UpdateModelFromUpdateParameters [0, 1] (Blog_val (Blog.make 1 0 0 [en_hello, ar_marhaba] ''bob'' True))
   (VPtr Blog_update_t (Some (VStruct Blog_update_t
     [VPtr (TSlice Blog_content_params_t)
        (Some (VSlice Blog_content_params_t [VStruct Blog_content_params_t [VString ''en'', VString ''hi'']])),
      VPtr TString None, VPtr TBool None]))) = Inr (Blog_val (Blog.make 1 0 0 [en_hi, ar_marhaba] ''bob'' True), None)"
  by (simp add: go_eval Let_def Blog_update_t_def Blog_content_params_t_def en_hi_def en_hello_def ar_marhaba_def Blog.make_def BlogContent.make_def Language.make_def)

lemma Blog_update_example_10: "UpdateModelFromUpdateParameters [1, 0] (Blog_val (Blog.make 1 0 0 [en_hello, ar_marhaba] ''bob'' True))
   (VPtr Blog_update_t (Some (VStruct Blog_update_t
     [VPtr (TSlice Blog_content_params_t)
        (Some (VSlice Blog_content_params_t [VStruct Blog_content_params_t [VString ''en'', VString ''hi'']])),
      VPtr TString None, VPtr TBool None]))) = Inr (Blog_val (Blog.make 1 0 0 [ar_marhaba, en_hi] ''bob'' True), None)"
  by (simp add: go_eval Let_def Blog_update_t_def Blog_content_params_t_def en_hi_def en_hello_def ar_marhaba_def Blog.make_def BlogContent.make_def Language.make_def)

lemma Blog_post_example:
  "Create_handler no_faults Blog_t create_body db_init =
     (put_row 1 (Blog_val (Blog.make 1 0 0 [en_hello, ar_marhaba] ''bob'' True)) db_init,
      JSONResp 201 (Blog_val (Blog.make 1 0 0 [en_hello, ar_marhaba] ''bob'' True)))"
proof -
  have c: "Create no_faults (Blog_val (Blog.make 0 0 0 [en_hello, ar_marhaba] ''bob'' True)) db_init =
     (put_row 1 (Blog_val (Blog.make 1 0 0 [en_hello, ar_marhaba] ''bob'' True)) db_init,
      Blog_val (Blog.make 1 0 0 [en_hello, ar_marhaba] ''bob'' True), None)"
    by (simp add: go_eval no_faults_def Let_def Blog.make_def)
  show ?thesis
    by (simp add: Create_handler_def Blog_create_params new_params_def create_body_def Blog_fill_example c)
qed

lemma Blog_get_example:
  "GetByID no_faults Blog_t (IdString ''1'') (put_row 1 (Blog_val b) db_init) =
     (begin_tx (put_row 1 (Blog_val b) db_init), Blog_val b, None)"
  by (simp add: GetByID_def first_row_def no_faults_def gorm_cond_def atoi_def cond_key_def
      put_row_def db_init_def map_of_go_map_put digits_val_def is_digit_def load_row_def hasContents_def
      tfields_def Blog_t_def IsContentModel_def go_eval)

lemma Blog_save_example:
  "Update no_faults (Blog_val (Blog.make 1 0 0 cs ''bob'' True)) d =
     Inr (put_row 1 (Blog_val (Blog.make 1 0 0 cs ''bob'' True)) d, None)"
  by (simp add: go_eval no_faults_def Let_def Blog.make_def)

lemma Blog_patch_example:
  assumes "UpdateModelFromUpdateParameters ord (Blog_val (Blog.make 1 0 0 [en_hello, ar_marhaba] ''bob'' True))
      (VPtr Blog_update_t (Some patch_params)) = Inr (Blog_val (Blog.make 1 0 0 cs ''bob'' True), None)"
  shows "snd (UpdatePatch_handler no_faults ord Blog_t ''1'' patch_body
      (put_row 1 (Blog_val (Blog.make 1 0 0 [en_hello, ar_marhaba] ''bob'' True)) db_init)) =
    JSONResp 200 (Blog_val (Blog.make 1 0 0 cs ''bob'' True))"
  using assms unfolding UpdatePatch_handler_def Blog_get_example
  by (simp add: Blog_update_params new_params_def patch_body_def patch_params_def [symmetric]
      Blog_save_example)

text \<open>C30. Creating a blog with contents in \<open>en\<close> and \<open>ar\<close> and then patching it
  with one \<open>en\<close> content answers 201 and 200, and the patched blog has exactly two
  contents: \<open>ar\<close> unchanged and \<open>en\<close> replaced, in either map order.\<close>
theorem blog_scenario:
  assumes "ord = [0, 1] \<or> ord = [1, 0]"
  shows "\<exists>cs. snd (serve_all Blog_t db_init
      [(no_faults, [], PostReq create_body), (no_faults, ord, PatchReq ''1'' patch_body)]) =
    [JSONResp 201 (Blog_val (Blog.make 1 0 0 [en_hello, ar_marhaba] ''bob'' True)),
     JSONResp 200 (Blog_val (Blog.make 1 0 0 cs ''bob'' True))] \<and>
    mset cs = {#en_hi, ar_marhaba#}"
proof -
  have upd: "\<exists>cs. UpdateModelFromUpdateParameters ord (Blog_val (Blog.make 1 0 0 [en_hello, ar_marhaba] ''bob'' True))
      (VPtr Blog_update_t (Some patch_params)) = Inr (Blog_val (Blog.make 1 0 0 cs ''bob'' True), None) \<and>
      mset cs = {#en_hi, ar_marhaba#}"
    using assms Blog_update_example_01 Blog_update_example_10 by (auto simp: patch_params_def)
  then obtain cs where u: "UpdateModelFromUpdateParameters ord (Blog_val (Blog.make 1 0 0 [en_hello, ar_marhaba] ''bob'' True))
      (VPtr Blog_update_t (Some patch_params)) = Inr (Blog_val (Blog.make 1 0 0 cs ''bob'' True), None)"
    and m: "mset cs = {#en_hi, ar_marhaba#}" by blast
  have "snd (serve_all Blog_t db_init
      [(no_faults, [], PostReq create_body), (no_faults, ord, PatchReq ''1'' patch_body)]) =
    [JSONResp 201 (Blog_val (Blog.make 1 0 0 [en_hello, ar_marhaba] ''bob'' True)),
     JSONResp 200 (Blog_val (Blog.make 1 0 0 cs ''bob'' True))]"
    using Blog_patch_example [OF u] by (simp add: Blog_post_example split_def)
  with m show ?thesis by blast
qed

theorem blog_scenario_witness:
  "([1, 0] = [0, 1] \<or> [1, 0] = [1::nat, 0]) \<and>
   (\<exists>cs. snd (serve_all Blog_t db_init
      [(no_faults, [], PostReq create_body), (no_faults, [1, 0], PatchReq ''1'' patch_body)]) =
    [JSONResp 201 (Blog_val (Blog.make 1 0 0 [en_hello, ar_marhaba] ''bob'' True)),
     JSONResp 200 (Blog_val (Blog.make 1 0 0 cs ''bob'' True))] \<and>
    mset cs = {#en_hi, ar_marhaba#})"
  using blog_scenario [of "[1, 0]"] by simp

text \<open>The two requests of the scenario are what the routes registered by \<open>main\<close> under
  \<open>/api\<close> dispatch \<open>POST /api/blog\<close> and \<open>PATCH /api/blog/1\<close> to, with
  \<open>strcase.ToSnake\<close> taken as lower-casing (exact on the name \<open>Blog\<close>).\<close>

lemma blog_http_requests:
  "dispatch (api_prefix (\<lambda>n. map to_lower n) Blog_t) POST ''/api/blog'' create_body =
     Some (PostReq create_body) \<and>
   dispatch (api_prefix (\<lambda>n. map to_lower n) Blog_t) PATCH ''/api/blog/1'' patch_body =
     Some (PatchReq ''1'' patch_body)"
  by (simp add: dispatch_def seg_ok_def api_prefix_def router_path_def structNameToSnake_def Blog_t_def
      to_lower_def is_upper_def char_of_def bit_simps)

end
